theory Spec2Isabelle
  imports Complex_Main "HOL-Library.Monad_Syntax"
begin

section \<open>JavaScript values\<close>

text \<open>
  A JavaScript Number is modelled by the value it denotes: a finite real, one of the two
  infinities, or not-a-number. The operators \<open>+\<close>, \<open>-\<close>, \<open>*\<close> and \<open>/\<close> defined here are the exact
  arithmetic of the reals on finite values, with the IEEE rules that JavaScript uses for
  the special values; they serve where a result does not depend on rounding. The rounded
  operations of the language, with overflow to infinity, are defined on top of them in
  the section on binary64 arithmetic. The sign of zero is not modelled.
\<close>

datatype jsnum = Fin real | PInf | NInf | NaN

instantiation jsnum :: "{plus, minus, uminus, times, inverse}"
begin

fun uminus_jsnum :: "jsnum \<Rightarrow> jsnum" where
  "uminus_jsnum (Fin a) = Fin (- a)"
| "uminus_jsnum PInf = NInf"
| "uminus_jsnum NInf = PInf"
| "uminus_jsnum NaN = NaN"

fun plus_jsnum :: "jsnum \<Rightarrow> jsnum \<Rightarrow> jsnum" where
  "plus_jsnum (Fin a) (Fin b) = Fin (a + b)"
| "plus_jsnum NaN y = NaN"
| "plus_jsnum x NaN = NaN"
| "plus_jsnum PInf NInf = NaN"
| "plus_jsnum NInf PInf = NaN"
| "plus_jsnum PInf y = PInf"
| "plus_jsnum x PInf = PInf"
| "plus_jsnum NInf y = NInf"
| "plus_jsnum x NInf = NInf"

definition minus_jsnum :: "jsnum \<Rightarrow> jsnum \<Rightarrow> jsnum" where
  "minus_jsnum x y = x + (- y)"

fun times_jsnum :: "jsnum \<Rightarrow> jsnum \<Rightarrow> jsnum" where
  "times_jsnum (Fin a) (Fin b) = Fin (a * b)"
| "times_jsnum NaN y = NaN"
| "times_jsnum x NaN = NaN"
| "times_jsnum PInf (Fin b) = (if 0 < b then PInf else if b < 0 then NInf else NaN)"
| "times_jsnum NInf (Fin b) = (if 0 < b then NInf else if b < 0 then PInf else NaN)"
| "times_jsnum (Fin a) PInf = (if 0 < a then PInf else if a < 0 then NInf else NaN)"
| "times_jsnum (Fin a) NInf = (if 0 < a then NInf else if a < 0 then PInf else NaN)"
| "times_jsnum PInf PInf = PInf"
| "times_jsnum PInf NInf = NInf"
| "times_jsnum NInf PInf = NInf"
| "times_jsnum NInf NInf = PInf"

fun divide_jsnum :: "jsnum \<Rightarrow> jsnum \<Rightarrow> jsnum" where
  "divide_jsnum (Fin a) (Fin b) =
     (if b \<noteq> 0 then Fin (a / b)
      else if 0 < a then PInf else if a < 0 then NInf else NaN)"
| "divide_jsnum NaN y = NaN"
| "divide_jsnum x NaN = NaN"
| "divide_jsnum (Fin a) PInf = Fin 0"
| "divide_jsnum (Fin a) NInf = Fin 0"
| "divide_jsnum PInf (Fin b) = (if 0 \<le> b then PInf else NInf)"
| "divide_jsnum NInf (Fin b) = (if 0 \<le> b then NInf else PInf)"
| "divide_jsnum PInf PInf = NaN"
| "divide_jsnum PInf NInf = NaN"
| "divide_jsnum NInf PInf = NaN"
| "divide_jsnum NInf NInf = NaN"

definition inverse_jsnum :: "jsnum \<Rightarrow> jsnum" where
  "inverse_jsnum x = divide (Fin 1) x"

instance ..

end

text \<open>The comparison operators \<open><\<close>, \<open><=\<close>, \<open>>\<close>, \<open>==\<close> and \<open>!=\<close> on Numbers.
  Every ordering comparison with not-a-number is false, and not-a-number equals nothing.\<close>

fun js_lt :: "jsnum \<Rightarrow> jsnum \<Rightarrow> bool" where
  "js_lt (Fin a) (Fin b) = (a < b)"
| "js_lt NaN y = False"
| "js_lt x NaN = False"
| "js_lt x NInf = False"
| "js_lt PInf y = False"
| "js_lt NInf y = True"
| "js_lt x PInf = True"

fun js_le :: "jsnum \<Rightarrow> jsnum \<Rightarrow> bool" where
  "js_le (Fin a) (Fin b) = (a \<le> b)"
| "js_le NaN y = False"
| "js_le x NaN = False"
| "js_le NInf y = True"
| "js_le x PInf = True"
| "js_le x NInf = False"
| "js_le PInf y = False"

definition js_gt :: "jsnum \<Rightarrow> jsnum \<Rightarrow> bool" where
  "js_gt x y = js_lt y x"

definition js_eq :: "jsnum \<Rightarrow> jsnum \<Rightarrow> bool" where
  "js_eq x y = (x \<noteq> NaN \<and> x = y)"

definition js_ne :: "jsnum \<Rightarrow> jsnum \<Rightarrow> bool" where
  "js_ne x y = (\<not> js_eq x y)"

text \<open>The functions of the \<open>Math\<close> object that the library calls.\<close>

definition Math_PI :: jsnum where
  "Math_PI = Fin pi"

fun Math_floor :: "jsnum \<Rightarrow> jsnum" where
  "Math_floor (Fin a) = Fin (of_int \<lfloor>a\<rfloor>)"
| "Math_floor x = x"

fun Math_exp :: "jsnum \<Rightarrow> jsnum" where
  "Math_exp (Fin a) = Fin (exp a)"
| "Math_exp PInf = PInf"
| "Math_exp NInf = Fin 0"
| "Math_exp NaN = NaN"

fun Math_log :: "jsnum \<Rightarrow> jsnum" where
  "Math_log (Fin a) = (if 0 < a then Fin (ln a) else if a = 0 then NInf else NaN)"
| "Math_log PInf = PInf"
| "Math_log NInf = NaN"
| "Math_log NaN = NaN"

text \<open>\<open>Math.pow\<close> with the case order of the language standard: an exponent that is
  not-a-number gives not-a-number, an exponent 0 gives 1 whatever the base, then a base
  that is not-a-number, the infinite exponents, the infinite bases, the base 0, and a
  negative base, which has a power only for an integer exponent.\<close>

definition Math_pow :: "jsnum \<Rightarrow> jsnum \<Rightarrow> jsnum" where
  "Math_pow x y =
     (case y of
        NaN \<Rightarrow> NaN
      | PInf \<Rightarrow>
          (case x of
             NaN \<Rightarrow> NaN
           | Fin a \<Rightarrow> if 1 < \<bar>a\<bar> then PInf else if \<bar>a\<bar> = 1 then NaN else Fin 0
           | PInf \<Rightarrow> PInf
           | NInf \<Rightarrow> PInf)
      | NInf \<Rightarrow>
          (case x of
             NaN \<Rightarrow> NaN
           | Fin a \<Rightarrow> if 1 < \<bar>a\<bar> then Fin 0 else if \<bar>a\<bar> = 1 then NaN else PInf
           | PInf \<Rightarrow> Fin 0
           | NInf \<Rightarrow> Fin 0)
      | Fin b \<Rightarrow>
          if b = 0 then Fin 1
          else
            (case x of
               NaN \<Rightarrow> NaN
             | PInf \<Rightarrow> if 0 < b then PInf else Fin 0
             | NInf \<Rightarrow>
                 if 0 < b then (if b = of_int \<lfloor>b\<rfloor> \<and> odd \<lfloor>b\<rfloor> then NInf else PInf)
                 else Fin 0
             | Fin a \<Rightarrow>
                 if 0 < a then Fin (a powr b)
                 else if a = 0 then (if 0 < b then Fin 0 else PInf)
                 else if b = of_int \<lfloor>b\<rfloor> then Fin (a powi \<lfloor>b\<rfloor>)
                 else NaN))"

text \<open>The values the library's functions return or store: a Number, a boolean (the pmfs
  return \<open>false\<close> for a non-integer count), or \<open>undefined\<close> (an array element that was
  never written). \<open>ToNumber\<close> is the conversion that \<open>+=\<close> applies to such a value when the
  other operand is a Number.\<close>

datatype jsval = Number jsnum | Boolean bool | Undefined

fun ToNumber :: "jsval \<Rightarrow> jsnum" where
  "ToNumber (Number n) = n"
| "ToNumber (Boolean b) = (if b then Fin 1 else Fin 0)"
| "ToNumber Undefined = NaN"

section \<open>Special functions\<close>

text \<open>
  A function of the library that contains a loop returns an option: \<open>None\<close> stands for a
  call that never returns (for instance \<open>n--\<close> never leaves \<open>Infinity\<close>).

  The loop of \<open>factorial\<close>: \<^verbatim>\<open>for(; n > 0; n--){ fval *= n; }\<close>
\<close>

partial_function (option) factorial_loop :: "jsnum \<Rightarrow> jsnum \<Rightarrow> jsnum option" where
  "factorial_loop n fval =
     (if js_gt n (Fin 0) then factorial_loop (n - Fin 1) (fval * n) else Some fval)"

text \<open>The loop of \<open>gamma\<close>: \<^verbatim>\<open>while(x < 8){ v *= x; x++; }\<close>; it returns the final
  \<open>x\<close> and \<open>v\<close>.\<close>

partial_function (option) gamma_loop :: "jsnum \<Rightarrow> jsnum \<Rightarrow> (jsnum \<times> jsnum) option" where
  "gamma_loop x v =
     (if js_lt x (Fin 8) then gamma_loop (x + Fin 1) (v * x) else Some (x, v))"

text \<open>The asymptotic series that \<open>gamma\<close> evaluates after the loop.\<close>

definition gamma_series :: "jsnum \<Rightarrow> jsnum \<Rightarrow> jsnum" where
  "gamma_series x v =
     (let w = Fin 1 / (x * x) in
      Math_exp ((((((((Fin (- 3617) / Fin 122400 * w + Fin 7 / Fin 1092) * w
                       - Fin 691 / Fin 360360) * w
                      + Fin 5 / Fin 5940) * w
                     - Fin 1 / Fin 1680) * w
                    + Fin 1 / Fin 1260) * w
                   - Fin 1 / Fin 360) * w
                  + Fin 1 / Fin 12) / x
                + Fin 0.5 * Math_log (Fin 2 * Math_PI) - Math_log v - x
                + (x - Fin 0.5) * Math_log x))"

text \<open>\<open>factorial\<close> and \<open>gamma\<close> call each other: \<open>factorial\<close> hands a non-integer
  argument to \<open>gamma\<close>, \<open>gamma\<close> hands an integer argument to \<open>factorial\<close>.\<close>

function factorial :: "jsnum \<Rightarrow> jsnum option"
  and gamma :: "jsnum \<Rightarrow> jsnum option" where
  "factorial n =
     (if js_lt n (Fin 0) then Some NaN
      else if js_ne n (Math_floor n) then gamma (n + Fin 1)
      else factorial_loop n (Fin 1))"
| "gamma x =
     (if js_eq x (Math_floor x) then factorial (x - Fin 1)
      else do {
        (x', v) \<leftarrow> gamma_loop x (Fin 1);
        Some (gamma_series x' v)
      })"
  by pat_completeness auto
termination
proof (relation "measure (\<lambda>c. case c of
          Inl n \<Rightarrow> (if js_eq n (Math_floor n) then 0 else 2) | Inr x \<Rightarrow> 1)")
  show "wf (measure (\<lambda>c. case c of
          Inl n \<Rightarrow> (if js_eq n (Math_floor n) then 0 else 2) | Inr x \<Rightarrow> (1::nat)))"
    by simp
next
  fix n
  assume "js_ne n (Math_floor n)"
  then show "(Inr (n + Fin 1), Inl n) \<in> measure (\<lambda>c. case c of
          Inl n \<Rightarrow> (if js_eq n (Math_floor n) then 0 else 2) | Inr x \<Rightarrow> (1::nat))"
    by (simp add: js_ne_def)
next
  fix x
  assume "js_eq x (Math_floor x)"
  then have "js_eq (x - Fin 1) (Math_floor (x - Fin 1))"
    by (cases x) (simp_all add: js_eq_def minus_jsnum_def)
  then show "(Inl (x - Fin 1), Inr x) \<in> measure (\<lambda>c. case c of
          Inl n \<Rightarrow> (if js_eq n (Math_floor n) then 0 else 2) | Inr x \<Rightarrow> (1::nat))"
    by simp
qed

declare factorial.simps [simp del] gamma.simps [simp del]

section \<open>Combinatorics\<close>

definition combination :: "jsnum \<Rightarrow> jsnum \<Rightarrow> jsnum option" where
  "combination n k = do {
     fn \<leftarrow> factorial n;
     fk \<leftarrow> factorial k;
     fnk \<leftarrow> factorial (n - k);
     Some ((fn / fk) / fnk)
   }"

definition permutation :: "jsnum \<Rightarrow> jsnum \<Rightarrow> jsnum option" where
  "permutation n r = do {
     fn \<leftarrow> factorial n;
     fnr \<leftarrow> factorial (n - r);
     Some (fn / fnr)
   }"

section \<open>Distributions\<close>

definition uniformcdf :: "jsnum \<Rightarrow> jsnum \<Rightarrow> jsnum \<Rightarrow> jsnum" where
  "uniformcdf a b x =
     (if js_lt x a then Fin 0
      else if js_lt x b then (x - a) / (b - a)
      else Fin 1)"

definition exponentialcdf :: "jsnum \<Rightarrow> jsnum \<Rightarrow> jsnum" where
  "exponentialcdf l x = Fin 1 - Math_exp (- x)"


text \<open>\<open>binomialcdf\<close> first fills the array \<open>binomarr\<close>:
  \<^verbatim>\<open>for (; k < n; k++) { binomarr[k] = jstat.binomial(n, p, k); }\<close>
  The array is a map from indices to values; reading an index that was never written
  gives \<open>undefined\<close>.\<close>

type_synonym jsarray = "jsnum \<rightharpoonup> jsval"

definition array_get :: "jsarray \<Rightarrow> jsnum \<Rightarrow> jsval" where
  "array_get arr i = (case arr i of None \<Rightarrow> Undefined | Some v \<Rightarrow> v)"




definition negbin :: "jsnum \<Rightarrow> jsnum \<Rightarrow> jsnum \<Rightarrow> jsval option" where
  "negbin r p x =
     (if js_ne x (Math_floor x) then Some (Boolean False)
      else if js_lt x (Fin 0) then Some (Number (Fin 0))
      else do {
        c \<leftarrow> combination (x + r - Fin 1) (r - Fin 1);
        Some (Number (c * Math_pow p r * Math_pow (Fin 1 - p) x))
      })"



definition hypgeom :: "jsnum \<Rightarrow> jsnum \<Rightarrow> jsnum \<Rightarrow> jsnum \<Rightarrow> jsval option" where
  "hypgeom N m n x =
     (if js_ne x (Math_floor x) then Some (Boolean False)
      else if js_lt x (Fin 0) then Some (Number (Fin 0))
      else do {
        c1 \<leftarrow> combination m x;
        c2 \<leftarrow> combination (N - m) (n - x);
        c3 \<leftarrow> combination N n;
        Some (Number (c1 * c2 / c3))
      })"



definition poisson :: "jsnum \<Rightarrow> jsnum \<Rightarrow> jsval option" where
  "poisson l x = do {
     f \<leftarrow> factorial x;
     Some (Number (Math_pow l x * Math_exp (- l) / f))
   }"



section \<open>Range summation\<close>



section \<open>Probability values\<close>

text \<open>A Number is a probability when it is finite and lies in \<open>[0,1]\<close>. A call returns a
  probability when it returns, and returns such a Number.\<close>

definition is_probability :: "jsnum \<Rightarrow> bool" where
  "is_probability v = (case v of Fin r \<Rightarrow> 0 \<le> r \<and> r \<le> 1 | _ \<Rightarrow> False)"

definition cdf_in_unit :: "jsnum option \<Rightarrow> bool" where
  "cdf_in_unit res = (case res of Some v \<Rightarrow> is_probability v | None \<Rightarrow> False)"

definition pmf_in_unit :: "jsval option \<Rightarrow> bool" where
  "pmf_in_unit res = (case res of Some (Number v) \<Rightarrow> is_probability v | _ \<Rightarrow> False)"

section \<open>Binary64 arithmetic\<close>

text \<open>
  The definitions above compute with exact reals. The second copy of the library that
  follows rounds every arithmetic result to binary64, as the language does, and is the
  one used where a claim depends on the value computed: \<open>fl\<close> rounds a real to the nearest
  double, ties to the even significand, and gives an infinity from \<open>2^1024\<close> on. A double
  is \<open>m * 2^e\<close> with \<open>|m| < 2^53\<close> and \<open>-1074 \<le> e \<le> 971\<close>. The sign of zero is not modelled.
\<close>

definition round_half_even :: "real \<Rightarrow> int" where
  "round_half_even q =
     (let f = \<lfloor>q\<rfloor> in
      if q - of_int f < 1/2 then f
      else if 1/2 < q - of_int f then f + 1
      else if even f then f else f + 1)"

definition rn :: "real \<Rightarrow> real" where
  "rn r =
     (if r = 0 then 0
      else let e = max \<lfloor>log 2 \<bar>r\<bar>\<rfloor> (- 1022)
           in of_int (round_half_even (r / 2 powi (e - 52))) * 2 powi (e - 52))"

definition fl :: "real \<Rightarrow> jsnum" where
  "fl r =
     (let d = rn r in
      if 2 ^ 1024 \<le> \<bar>d\<bar> then (if 0 < r then PInf else NInf) else Fin d)"

definition is_binary64 :: "real \<Rightarrow> bool" where
  "is_binary64 r =
     (\<exists>m e. r = of_int m * 2 powi e \<and> \<bar>m\<bar> < 2 ^ 53 \<and> - 1074 \<le> e \<and> e \<le> 971)"

text \<open>The exponent of the binade of a real, not below that of the subnormal numbers, and
  the double with significand \<open>m\<close> and exponent \<open>e\<close>.\<close>

definition binade :: "real \<Rightarrow> int" where
  "binade r = max \<lfloor>log 2 \<bar>r\<bar>\<rfloor> (- 1022)"

definition dbl :: "int \<Rightarrow> int \<Rightarrow> jsnum" where
  "dbl m e = Fin (of_int m * 2 powi e)"

fun round64 :: "jsnum \<Rightarrow> jsnum" where
  "round64 (Fin r) = fl r"
| "round64 x = x"

definition add64 :: "jsnum \<Rightarrow> jsnum \<Rightarrow> jsnum" where
  "add64 x y = round64 (x + y)"

definition sub64 :: "jsnum \<Rightarrow> jsnum \<Rightarrow> jsnum" where
  "sub64 x y = round64 (x - y)"

definition mul64 :: "jsnum \<Rightarrow> jsnum \<Rightarrow> jsnum" where
  "mul64 x y = round64 (x * y)"

definition div64 :: "jsnum \<Rightarrow> jsnum \<Rightarrow> jsnum" where
  "div64 x y = round64 (x / y)"

text \<open>The language standard leaves the accuracy of \<open>Math.exp\<close>, \<open>Math.log\<close> and \<open>Math.pow\<close>
  to the implementation. Here they return the correctly rounded value; no theorem below
  depends on more than that they return a Number, and that \<open>Math.exp\<close> of a negative
  argument lies in \<open>[0,1]\<close>.\<close>

definition Math_PI64 :: jsnum where
  "Math_PI64 = fl pi"

definition Math_exp64 :: "jsnum \<Rightarrow> jsnum" where
  "Math_exp64 x = round64 (Math_exp x)"

definition Math_log64 :: "jsnum \<Rightarrow> jsnum" where
  "Math_log64 x = round64 (Math_log x)"

definition Math_pow64 :: "jsnum \<Rightarrow> jsnum \<Rightarrow> jsnum" where
  "Math_pow64 x y = round64 (Math_pow x y)"

section \<open>The library in binary64 arithmetic\<close>

text \<open>The same functions, statement by statement, with the rounded operations.\<close>

partial_function (option) factorial_loop64 :: "jsnum \<Rightarrow> jsnum \<Rightarrow> jsnum option" where
  "factorial_loop64 n fval =
     (if js_gt n (Fin 0) then factorial_loop64 (sub64 n (Fin 1)) (mul64 fval n)
      else Some fval)"

partial_function (option) gamma_loop64 :: "jsnum \<Rightarrow> jsnum \<Rightarrow> (jsnum \<times> jsnum) option" where
  "gamma_loop64 x v =
     (if js_lt x (Fin 8) then gamma_loop64 (add64 x (Fin 1)) (mul64 v x) else Some (x, v))"

definition gamma_series64 :: "jsnum \<Rightarrow> jsnum \<Rightarrow> jsnum" where
  "gamma_series64 x v =
     (let w = div64 (Fin 1) (mul64 x x);
          s1 = add64 (mul64 (div64 (Fin (- 3617)) (Fin 122400)) w) (div64 (Fin 7) (Fin 1092));
          s2 = sub64 (mul64 s1 w) (div64 (Fin 691) (Fin 360360));
          s3 = add64 (mul64 s2 w) (div64 (Fin 5) (Fin 5940));
          s4 = sub64 (mul64 s3 w) (div64 (Fin 1) (Fin 1680));
          s5 = add64 (mul64 s4 w) (div64 (Fin 1) (Fin 1260));
          s6 = sub64 (mul64 s5 w) (div64 (Fin 1) (Fin 360));
          s7 = add64 (mul64 s6 w) (div64 (Fin 1) (Fin 12));
          t1 = add64 (div64 s7 x) (mul64 (Fin 0.5) (Math_log64 (mul64 (Fin 2) Math_PI64)));
          t2 = sub64 t1 (Math_log64 v);
          t3 = sub64 t2 x;
          t4 = add64 t3 (mul64 (sub64 x (Fin 0.5)) (Math_log64 x))
      in Math_exp64 t4)"

text \<open>\<open>factorial\<close> and \<open>gamma\<close> call each other. With rounded arithmetic the pair is one
  recursive function on the tagged call, \<open>Inl n\<close> for \<open>factorial(n)\<close> and \<open>Inr x\<close> for
  \<open>gamma(x)\<close>.\<close>

partial_function (option) factorial_gamma64 :: "jsnum + jsnum \<Rightarrow> jsnum option" where
  "factorial_gamma64 call =
     (case call of
        Inl n \<Rightarrow>
          if js_lt n (Fin 0) then Some NaN
          else if js_ne n (Math_floor n) then factorial_gamma64 (Inr (add64 n (Fin 1)))
          else factorial_loop64 n (Fin 1)
      | Inr x \<Rightarrow>
          if js_eq x (Math_floor x) then factorial_gamma64 (Inl (sub64 x (Fin 1)))
          else do {
            (x', v) \<leftarrow> gamma_loop64 x (Fin 1);
            Some (gamma_series64 x' v)
          })"

definition factorial64 :: "jsnum \<Rightarrow> jsnum option" where
  "factorial64 n = factorial_gamma64 (Inl n)"

definition gamma64 :: "jsnum \<Rightarrow> jsnum option" where
  "gamma64 x = factorial_gamma64 (Inr x)"

text \<open>The product \<open>v * n * (n-1) * ... * 1\<close> with every multiplication rounded, in the order
  of the loop of \<open>factorial\<close>.\<close>

primrec rounded_product :: "nat \<Rightarrow> jsnum \<Rightarrow> jsnum" where
  "rounded_product 0 v = v"
| "rounded_product (Suc n) v = rounded_product n (mul64 v (Fin (real (Suc n))))"

definition combination64 :: "jsnum \<Rightarrow> jsnum \<Rightarrow> jsnum option" where
  "combination64 n k = do {
     fn \<leftarrow> factorial64 n;
     fk \<leftarrow> factorial64 k;
     fnk \<leftarrow> factorial64 (sub64 n k);
     Some (div64 (div64 fn fk) fnk)
   }"

definition uniformcdf64 :: "jsnum \<Rightarrow> jsnum \<Rightarrow> jsnum \<Rightarrow> jsnum" where
  "uniformcdf64 a b x =
     (if js_lt x a then Fin 0
      else if js_lt x b then div64 (sub64 x a) (sub64 b a)
      else Fin 1)"

definition exponentialcdf64 :: "jsnum \<Rightarrow> jsnum \<Rightarrow> jsnum" where
  "exponentialcdf64 l x = sub64 (Fin 1) (Math_exp64 (- x))"

definition binomial_pmf64 :: "jsnum \<Rightarrow> jsnum \<Rightarrow> jsnum \<Rightarrow> jsval option" where
  "binomial_pmf64 n p k = do {
     c \<leftarrow> combination64 n k;
     Some (Number (mul64 (mul64 c (Math_pow64 p k)) (Math_pow64 (sub64 (Fin 1) p) (sub64 n k))))
   }"

partial_function (option) binomialcdf_fill64 ::
  "jsnum \<Rightarrow> jsnum \<Rightarrow> jsnum \<Rightarrow> jsarray \<Rightarrow> jsarray option" where
  "binomialcdf_fill64 n p k binomarr =
     (if js_lt k n then do {
        b \<leftarrow> binomial_pmf64 n p k;
        binomialcdf_fill64 n p (add64 k (Fin 1)) (binomarr(k \<mapsto> b))
      }
      else Some binomarr)"

partial_function (option) binomialcdf_sum64 ::
  "jsarray \<Rightarrow> jsnum \<Rightarrow> jsnum \<Rightarrow> jsnum \<Rightarrow> jsnum option" where
  "binomialcdf_sum64 binomarr x i sm =
     (if js_le i x
      then binomialcdf_sum64 binomarr x (add64 i (Fin 1))
             (add64 sm (ToNumber (array_get binomarr i)))
      else Some sm)"

definition binomialcdf64 :: "jsnum \<Rightarrow> jsnum \<Rightarrow> jsnum \<Rightarrow> jsnum option" where
  "binomialcdf64 n p x =
     (if js_lt x (Fin 0) then Some (Fin 0)
      else do {
        binomarr \<leftarrow> binomialcdf_fill64 n p (Fin 0) Map.empty;
        if js_lt x n then binomialcdf_sum64 binomarr x (Fin 0) (Fin 0)
        else Some (Fin 1)
      })"

definition hypgeom64 :: "jsnum \<Rightarrow> jsnum \<Rightarrow> jsnum \<Rightarrow> jsnum \<Rightarrow> jsval option" where
  "hypgeom64 N m n x =
     (if js_ne x (Math_floor x) then Some (Boolean False)
      else if js_lt x (Fin 0) then Some (Number (Fin 0))
      else do {
        c1 \<leftarrow> combination64 m x;
        c2 \<leftarrow> combination64 (sub64 N m) (sub64 n x);
        c3 \<leftarrow> combination64 N n;
        Some (Number (div64 (mul64 c1 c2) c3))
      })"

partial_function (option) hypgeomcdf_loop64 ::
  "jsnum \<Rightarrow> jsnum \<Rightarrow> jsnum \<Rightarrow> jsnum \<Rightarrow> jsnum \<Rightarrow> jsnum \<Rightarrow> jsnum option" where
  "hypgeomcdf_loop64 N m n x k sm =
     (if js_le k x then do {
        v \<leftarrow> hypgeom64 N m n k;
        hypgeomcdf_loop64 N m n x (add64 k (Fin 1)) (add64 sm (ToNumber v))
      }
      else Some sm)"

definition hypgeomcdf64 :: "jsnum \<Rightarrow> jsnum \<Rightarrow> jsnum \<Rightarrow> jsnum \<Rightarrow> jsnum option" where
  "hypgeomcdf64 N m n x =
     (if js_lt x (Fin 0) then Some (Fin 0)
      else hypgeomcdf_loop64 N m n x (Fin 0) (Fin 0))"

definition negbin64 :: "jsnum \<Rightarrow> jsnum \<Rightarrow> jsnum \<Rightarrow> jsval option" where
  "negbin64 r p x =
     (if js_ne x (Math_floor x) then Some (Boolean False)
      else if js_lt x (Fin 0) then Some (Number (Fin 0))
      else do {
        c \<leftarrow> combination64 (sub64 (add64 x r) (Fin 1)) (sub64 r (Fin 1));
        Some (Number (mul64 (mul64 c (Math_pow64 p r)) (Math_pow64 (sub64 (Fin 1) p) x)))
      })"

partial_function (option) negbincdf_loop64 ::
  "jsnum \<Rightarrow> jsnum \<Rightarrow> jsnum \<Rightarrow> jsnum \<Rightarrow> jsnum \<Rightarrow> jsnum option" where
  "negbincdf_loop64 n p x k sm =
     (if js_le k x then do {
        v \<leftarrow> negbin64 n p k;
        negbincdf_loop64 n p x (add64 k (Fin 1)) (add64 sm (ToNumber v))
      }
      else Some sm)"

definition negbincdf64 :: "jsnum \<Rightarrow> jsnum \<Rightarrow> jsnum \<Rightarrow> jsnum option" where
  "negbincdf64 n p x =
     (if js_lt x (Fin 0) then Some (Fin 0)
      else negbincdf_loop64 n p x (Fin 0) (Fin 0))"

definition poisson64 :: "jsnum \<Rightarrow> jsnum \<Rightarrow> jsval option" where
  "poisson64 l x = do {
     f \<leftarrow> factorial64 x;
     Some (Number (div64 (mul64 (Math_pow64 l x) (Math_exp64 (- l))) f))
   }"

partial_function (option) poissoncdf_loop64 ::
  "jsnum \<Rightarrow> jsnum \<Rightarrow> jsnum \<Rightarrow> jsnum \<Rightarrow> jsnum option" where
  "poissoncdf_loop64 l x k sm =
     (if js_le k x then do {
        v \<leftarrow> poisson64 l k;
        poissoncdf_loop64 l x (add64 k (Fin 1)) (add64 sm (ToNumber v))
      }
      else Some sm)"

definition poissoncdf64 :: "jsnum \<Rightarrow> jsnum \<Rightarrow> jsnum option" where
  "poissoncdf64 l x =
     (if js_lt x (Fin 0) then Some (Fin 0)
      else poissoncdf_loop64 l x (Fin 0) (Fin 0))"

text \<open>The sum of the values a pmf returns at \<open>k = 0, 1, ..., x\<close>, added in this order in
  binary64 arithmetic: what a claim means by the sum of the pmf from 0 through \<open>x\<close>.\<close>

primrec pmf_sum64 :: "(nat \<Rightarrow> jsval option) \<Rightarrow> nat \<Rightarrow> jsnum option" where
  "pmf_sum64 f 0 = do { v \<leftarrow> f 0; Some (add64 (Fin 0) (ToNumber v)) }"
| "pmf_sum64 f (Suc x) = do {
     s \<leftarrow> pmf_sum64 f x;
     v \<leftarrow> f (Suc x);
     Some (add64 s (ToNumber v))
   }"

section \<open>Basic facts about the arithmetic\<close>

lemma Fin_minus [simp]: "Fin a - Fin b = Fin (a - b)"
  by (simp add: minus_jsnum_def)

lemma js_gt_Fin [simp]: "js_gt (Fin a) (Fin b) = (b < a)"
  by (simp add: js_gt_def)

lemma js_lt_irrefl [simp]: "\<not> js_lt x x"
  by (cases x) simp_all

lemma NaN_right [simp]: "x / NaN = NaN" "x * NaN = NaN" "x + NaN = NaN"
  by (cases x; simp)+

lemma js_ne_succ: "js_ne x (Math_floor x) \<Longrightarrow> js_ne (x + Fin 1) (Math_floor (x + Fin 1))"
  by (cases x) (simp_all add: js_ne_def js_eq_def)

section \<open>The loops of factorial and gamma\<close>

text \<open>On a non-negative integer the loop of \<open>factorial\<close> returns, and multiplies the
  accumulator by the factorial.\<close>

lemma factorial_loop_nat:
  "factorial_loop (Fin (real n)) (Fin v) = Some (Fin (v * fact n))"
proof (induction n arbitrary: v)
  case 0
  show ?case by (subst factorial_loop.simps) simp
next
  case (Suc n)
  have "factorial_loop (Fin (real (Suc n))) (Fin v)
        = factorial_loop (Fin (real n)) (Fin (v * real (Suc n)))"
    by (subst factorial_loop.simps) simp
  also have "\<dots> = Some (Fin (v * real (Suc n) * fact n))"
    by (rule Suc.IH)
  finally show ?case by (simp add: mult.assoc)
qed

lemma factorial_nat: "factorial (Fin (real n)) = Some (Fin (fact n))"
  by (simp add: factorial.simps js_ne_def js_eq_def factorial_loop_nat)

lemma factorial_negative: "js_lt n (Fin 0) \<Longrightarrow> factorial n = Some NaN"
  by (simp add: factorial.simps)

text \<open>The loop of \<open>gamma\<close> returns on every finite argument: \<open>x\<close> grows by one in each
  round until it reaches 8.\<close>

lemma gamma_loop_total:
  "\<exists>x' v'. gamma_loop (Fin r) (Fin v) = Some (Fin x', Fin v')"
proof (induction "nat \<lceil>8 - r\<rceil>" arbitrary: r v)
  case 0
  then have "8 \<le> r" by simp
  then show ?case by (subst gamma_loop.simps) simp
next
  case (Suc k)
  then have lt: "r < 8" by linarith
  have "k = nat \<lceil>8 - (r + 1)\<rceil>" using Suc.hyps(2) by linarith
  then obtain x' v' where
    "gamma_loop (Fin (r + 1)) (Fin (v * r)) = Some (Fin x', Fin v')"
    using Suc.hyps(1) by blast
  then show ?case using lt by (subst gamma_loop.simps) simp
qed

text \<open>From a positive argument and a positive accumulator it ends with both positive.\<close>

lemma gamma_loop_Fin:
  "0 < v \<Longrightarrow> 0 < r \<Longrightarrow>
   \<exists>x' v'. gamma_loop (Fin r) (Fin v) = Some (Fin x', Fin v') \<and> 8 \<le> x' \<and> 0 < v'"
proof (induction "nat \<lceil>8 - r\<rceil>" arbitrary: r v)
  case 0
  then have "8 \<le> r" by simp
  then show ?case using 0 by (subst gamma_loop.simps) simp
next
  case (Suc k)
  then have lt: "r < 8" by linarith
  have "k = nat \<lceil>8 - (r + 1)\<rceil>" using Suc.hyps(2) by linarith
  moreover have "0 < v * r" "0 < r + 1" using Suc.prems by simp_all
  ultimately obtain x' v' where
    "gamma_loop (Fin (r + 1)) (Fin (v * r)) = Some (Fin x', Fin v')" "8 \<le> x'" "0 < v'"
    using Suc.hyps(1) by blast
  then show ?case using lt by (subst gamma_loop.simps) simp
qed

lemma gamma_series_pos:
  "0 < x \<Longrightarrow> 0 < v \<Longrightarrow> \<exists>g. gamma_series (Fin x) (Fin v) = Fin g \<and> 0 < g"
  by (simp add: gamma_series_def Let_def Math_PI_def)

lemma gamma_pos_nonint:
  assumes "0 < r" "r \<noteq> of_int \<lfloor>r\<rfloor>"
  shows "\<exists>g. gamma (Fin r) = Some (Fin g) \<and> 0 < g"
proof -
  obtain x' v' where l: "gamma_loop (Fin r) (Fin 1) = Some (Fin x', Fin v')" "8 \<le> x'" "0 < v'"
    using gamma_loop_Fin [of 1 r] assms by auto
  then obtain g where "gamma_series (Fin x') (Fin v') = Fin g" "0 < g"
    using gamma_series_pos [of x' v'] by auto
  then show ?thesis using assms l by (simp add: gamma.simps js_eq_def)
qed

lemma gamma_nonint_total:
  assumes "js_ne x (Math_floor x)"
  shows "\<exists>g. gamma x = Some g"
proof (cases x)
  case (Fin r)
  obtain x' v' where l: "gamma_loop (Fin r) (Fin 1) = Some (Fin x', Fin v')"
    using gamma_loop_total by blast
  then show ?thesis using assms Fin by (simp add: gamma.simps js_ne_def)
next
  case NaN
  have "gamma_loop NaN (Fin 1) = Some (NaN, Fin 1)"
    by (subst gamma_loop.simps) simp
  then show ?thesis using NaN by (simp add: gamma.simps js_eq_def)
qed (use assms in \<open>simp_all add: js_ne_def js_eq_def\<close>)

lemma factorial_nonint_total:
  assumes "js_ne x (Math_floor x)"
  shows "\<exists>f. factorial x = Some f"
proof (cases "js_lt x (Fin 0)")
  case True
  then show ?thesis by (simp add: factorial.simps)
next
  case False
  then show ?thesis
    using assms gamma_nonint_total [OF js_ne_succ [OF assms]] by (simp add: factorial.simps)
qed

text \<open>\<open>gamma(-1.5)\<close>: two rounds of the loop make the accumulator positive again.\<close>

lemma gamma_minus_three_halves: "\<exists>g. gamma (Fin (- 3/2)) = Some (Fin g) \<and> 0 < g"
proof -
  obtain x' v' where l: "gamma_loop (Fin (1/2)) (Fin (3/4)) = Some (Fin x', Fin v')"
      "8 \<le> x'" "0 < v'"
    using gamma_loop_Fin [of "3/4" "1/2"] by auto
  have "gamma_loop (Fin (- 3/2)) (Fin 1) = gamma_loop (Fin (- 1/2)) (Fin (- 3/2))"
    by (subst gamma_loop.simps) simp
  also have "\<dots> = gamma_loop (Fin (1/2)) (Fin (3/4))"
    by (subst gamma_loop.simps) simp
  finally have "gamma_loop (Fin (- 3/2)) (Fin 1) = Some (Fin x', Fin v')"
    using l by simp
  moreover obtain g where "gamma_series (Fin x') (Fin v') = Fin g" "0 < g"
    using gamma_series_pos [of x' v'] l by auto
  ultimately show ?thesis by (simp add: gamma.simps js_eq_def)
qed

section \<open>factorial and gamma\<close>


text \<open>
  Claim C10. For every negative non-integer \<open>n\<close>, \<open>factorial(n)\<close> is not-a-number: the
  test \<open>n < 0\<close> comes before the test for a non-integer, so \<open>gamma(n + 1)\<close> is not asked.
  At \<open>n = -2.5\<close> the value \<open>gamma(-1.5)\<close> would have been a positive number.
\<close>

theorem factorial_negative_first:
  "js_lt n (Fin 0) \<Longrightarrow> js_ne n (Math_floor n) \<Longrightarrow> factorial n = Some NaN"
  by (simp add: factorial.simps)

theorem factorial_negative_first_witness:
  "js_lt (Fin (- 5/2)) (Fin 0) \<and> js_ne (Fin (- 5/2)) (Math_floor (Fin (- 5/2)))
   \<and> factorial (Fin (- 5/2)) = Some NaN
   \<and> gamma (Fin (- 5/2) + Fin 1) \<noteq> Some NaN"
proof -
  have h1: "js_lt (Fin (- 5/2)) (Fin 0)" by simp
  have h2: "js_ne (Fin (- 5/2)) (Math_floor (Fin (- 5/2)))"
    by (simp add: js_ne_def js_eq_def)
  show ?thesis
    using h1 h2 factorial_negative_first [OF h1 h2] gamma_minus_three_halves by auto
qed

section \<open>Guards of the distribution functions\<close>

text \<open>
  Claim C3. \<open>poisson\<close> has no integer check: for every \<open>l\<close> and every non-integer \<open>x\<close>
  the call returns, its value is the Number \<open>l^x * e^(-l) / factorial(x)\<close> and not the
  \<open>false\<close> of the other pmfs, and for \<open>x \<ge> 0\<close> that factorial is \<open>gamma(x + 1)\<close>.
\<close>

theorem poisson_no_integer_check:
  assumes "js_ne x (Math_floor x)"
  shows "\<exists>f. factorial x = Some f
           \<and> poisson l x = Some (Number (Math_pow l x * Math_exp (- l) / f))
           \<and> poisson l x \<noteq> Some (Boolean False)
           \<and> (js_le (Fin 0) x \<longrightarrow> factorial x = gamma (x + Fin 1))"
proof -
  obtain f where f: "factorial x = Some f"
    using factorial_nonint_total [OF assms] by blast
  have "js_le (Fin 0) x \<Longrightarrow> \<not> js_lt x (Fin 0)"
    by (cases x) simp_all
  then have "js_le (Fin 0) x \<longrightarrow> factorial x = gamma (x + Fin 1)"
    using assms by (simp add: factorial.simps)
  then show ?thesis using f by (simp add: poisson_def)
qed

theorem poisson_no_integer_check_witness:
  "js_ne (Fin (1/2)) (Math_floor (Fin (1/2))) \<and> js_le (Fin 0) (Fin (1/2))
   \<and> factorial (Fin (1/2)) = gamma (Fin (1/2) + Fin 1)
   \<and> poisson (Fin 2) (Fin (1/2)) \<noteq> Some (Boolean False)
   \<and> (\<exists>f. poisson (Fin 2) (Fin (1/2))
            = Some (Number (Math_pow (Fin 2) (Fin (1/2)) * Math_exp (- Fin 2) / f)))"
proof -
  have h: "js_ne (Fin (1/2)) (Math_floor (Fin (1/2)))"
    by (simp add: js_ne_def js_eq_def)
  show ?thesis
    using h poisson_no_integer_check [OF h, of "Fin 2"] by auto
qed

text \<open>
  Claim C4. For every non-integer \<open>x\<close> (negative ones and not-a-number included) and all
  other arguments, \<open>negbin\<close> and \<open>hypgeom\<close> return \<open>false\<close>, which is neither the
  Number 0, nor not-a-number, nor any other Number.
\<close>

theorem pmf_rejects_non_integer:
  assumes "js_ne x (Math_floor x)"
  shows "negbin r p x = Some (Boolean False) \<and> hypgeom N m n x = Some (Boolean False)
         \<and> Boolean False \<noteq> Number (Fin 0) \<and> Boolean False \<noteq> Number NaN
         \<and> Boolean False \<noteq> Number v"
  using assms by (simp add: negbin_def hypgeom_def)

theorem pmf_rejects_non_integer_witness:
  "js_ne (Fin (- 5/2)) (Math_floor (Fin (- 5/2)))
   \<and> negbin (Fin 2) (Fin (1/2)) (Fin (- 5/2)) = Some (Boolean False)
   \<and> hypgeom (Fin 50) (Fin 25) (Fin 10) (Fin (- 5/2)) = Some (Boolean False)"
proof -
  have h: "js_ne (Fin (- 5/2)) (Math_floor (Fin (- 5/2)))"
    by (simp add: js_ne_def js_eq_def)
  show ?thesis
    using h pmf_rejects_non_integer [OF h, of "Fin 2" "Fin (1/2)" "Fin 50" "Fin 25" "Fin 10"]
    by simp
qed

text \<open>
  Claim C5. The rate parameter of \<open>exponentialcdf\<close> has no effect: for every \<open>x\<close> and
  every two rates the results agree, and at a finite \<open>x\<close> the result is \<open>1 - e^(-x)\<close>.
\<close>

theorem exponentialcdf_ignores_rate:
  "exponentialcdf l1 x = exponentialcdf l2 x
   \<and> exponentialcdf l1 (Fin r) = Fin (1 - exp (- r))"
  by (simp add: exponentialcdf_def)

text \<open>
  Claim C6, as amended. With \<open>a == b\<close>, \<open>uniformcdf(a,b,x)\<close> returns 0 when \<open>x < a\<close> and 1
  otherwise: the division is never reached, since \<open>x < b\<close> fails whenever \<open>x < a\<close> does.
\<close>

theorem uniformcdf_degenerate:
  "js_eq a b \<Longrightarrow> uniformcdf a b x = (if js_lt x a then Fin 0 else Fin 1)"
  by (simp add: uniformcdf_def js_eq_def)

theorem uniformcdf_degenerate_witness:
  "js_eq (Fin 2) (Fin 2)
   \<and> js_lt (Fin 1) (Fin 2) \<and> uniformcdf (Fin 2) (Fin 2) (Fin 1) = Fin 0
   \<and> \<not> js_lt (Fin 3) (Fin 2) \<and> uniformcdf (Fin 2) (Fin 2) (Fin 3) = Fin 1
   \<and> \<not> js_lt (Fin 2) (Fin 2) \<and> uniformcdf (Fin 2) (Fin 2) (Fin 2) = Fin 1"
proof -
  have h: "js_eq (Fin 2) (Fin 2)" by (simp add: js_eq_def)
  show ?thesis
    using h uniformcdf_degenerate [OF h, of "Fin 1"] uniformcdf_degenerate [OF h, of "Fin 3"]
      uniformcdf_degenerate [OF h, of "Fin 2"]
    by simp
qed

text \<open>
  Claim C6 as stated asks for arguments with \<open>a == b\<close> at which \<open>uniformcdf\<close> is
  infinite or not-a-number. There are none.
\<close>

theorem uniformcdf_degenerate_counterexample:
  "\<not> (\<exists>a b x. js_eq a b
        \<and> (uniformcdf a b x = PInf \<or> uniformcdf a b x = NInf \<or> uniformcdf a b x = NaN))"
  by (auto simp: uniformcdf_def js_eq_def)

section \<open>The cumulative functions as range sums\<close>

















lemma factorial_Fin_total: "\<exists>f. factorial (Fin r) = Some f"
proof (cases "js_ne (Fin r) (Math_floor (Fin r))")
  case True
  then show ?thesis by (rule factorial_nonint_total)
next
  case False
  then have int: "r = of_int \<lfloor>r\<rfloor>" by (simp add: js_ne_def js_eq_def)
  show ?thesis
  proof (cases "r < 0")
    case True
    then show ?thesis by (simp add: factorial.simps)
  next
    case False
    then have "r = real (nat \<lfloor>r\<rfloor>)" using int by simp
    then show ?thesis using factorial_nat [of "nat \<lfloor>r\<rfloor>"] by auto
  qed
qed

lemma combination_Fin_total: "\<exists>c. combination (Fin a) (Fin b) = Some c"
proof -
  obtain f1 f2 f3 where "factorial (Fin a) = Some f1" "factorial (Fin b) = Some f2"
      "factorial (Fin (a - b)) = Some f3"
    using factorial_Fin_total by meson
  then show ?thesis by (simp add: combination_def)
qed










section \<open>Rounding to binary64\<close>

lemma round_half_even_int [simp]: "round_half_even (of_int z) = z"
  by (simp add: round_half_even_def)

lemma round_half_even_bounds:
  "of_int (round_half_even q) \<le> q + 1/2" "q - 1/2 \<le> of_int (round_half_even q)"
  unfolding round_half_even_def Let_def by (auto; linarith)+

lemma round_half_even_mono:
  assumes "q \<le> q'"
  shows "round_half_even q \<le> round_half_even q'"
proof -
  have fl: "\<lfloor>q\<rfloor> \<le> \<lfloor>q'\<rfloor>" using assms by (rule floor_mono)
  show ?thesis
  proof (cases "\<lfloor>q\<rfloor> = \<lfloor>q'\<rfloor>")
    case True
    then show ?thesis using assms
      unfolding round_half_even_def Let_def by (auto; linarith)
  next
    case False
    then have "\<lfloor>q\<rfloor> + 1 \<le> \<lfloor>q'\<rfloor>" using fl by simp
    moreover have "round_half_even q \<le> \<lfloor>q\<rfloor> + 1" "\<lfloor>q'\<rfloor> \<le> round_half_even q'"
      unfolding round_half_even_def Let_def by auto
    ultimately show ?thesis by linarith
  qed
qed

lemma powr_as_powi: "2 powr (of_int E) = (2::real) powi E"
  by (simp add: powr_real_of_int')

lemma floor_log2_bounds:
  assumes "r \<noteq> 0"
  shows "2 powi \<lfloor>log 2 \<bar>r\<bar>\<rfloor> \<le> \<bar>r\<bar>" "\<bar>r\<bar> < 2 powi (\<lfloor>log 2 \<bar>r\<bar>\<rfloor> + 1)"
proof -
  have pos: "0 < \<bar>r\<bar>" using assms by simp
  then have id: "2 powr (log 2 \<bar>r\<bar>) = \<bar>r\<bar>" by simp
  have "2 powr (of_int \<lfloor>log 2 \<bar>r\<bar>\<rfloor>) \<le> 2 powr (log 2 \<bar>r\<bar>)"
    by (intro powr_mono) simp_all
  then show "2 powi \<lfloor>log 2 \<bar>r\<bar>\<rfloor> \<le> \<bar>r\<bar>"
    unfolding id powr_as_powi .
  have "log 2 \<bar>r\<bar> < of_int (\<lfloor>log 2 \<bar>r\<bar>\<rfloor> + 1)" by linarith
  then have "2 powr (log 2 \<bar>r\<bar>) < 2 powr (of_int (\<lfloor>log 2 \<bar>r\<bar>\<rfloor> + 1))"
    by (intro powr_less_mono) simp_all
  then show "\<bar>r\<bar> < 2 powi (\<lfloor>log 2 \<bar>r\<bar>\<rfloor> + 1)"
    unfolding id powr_as_powi .
qed

lemma floor_log2_eq:
  assumes "2 powi E \<le> \<bar>r\<bar>" "\<bar>r\<bar> < 2 powi (E + 1)"
  shows "\<lfloor>log 2 \<bar>r\<bar>\<rfloor> = E"
proof -
  have "(0::real) < 2 powi E" by simp
  then have pos: "0 < \<bar>r\<bar>" using assms(1) by linarith
  then have id: "2 powr (log 2 \<bar>r\<bar>) = \<bar>r\<bar>" by simp
  have "2 powr (of_int E) \<le> 2 powr (log 2 \<bar>r\<bar>)"
    "2 powr (log 2 \<bar>r\<bar>) < 2 powr (of_int (E + 1))"
    unfolding id powr_as_powi using assms by simp_all
  then have "of_int E \<le> log 2 \<bar>r\<bar>" "log 2 \<bar>r\<bar> < of_int (E + 1)"
    by (simp_all del: of_int_add)
  then show ?thesis by linarith
qed


lemma pow2_less_cancel: "(2::real) powi a < 2 powi b \<Longrightarrow> a < b"
  using power_int_increasing [of b a "2::real"] by (cases "a < b") auto

lemma pow2_le_cancel: "(2::real) powi a \<le> 2 powi b \<Longrightarrow> a \<le> b"
  using power_int_strict_increasing [of b a "2::real"] by (cases "a \<le> b") auto

text \<open>The rounding of a value in a known binade.\<close>

lemma rn_normal:
  assumes "2 powi E \<le> \<bar>r\<bar>" "\<bar>r\<bar> < 2 powi (E + 1)" "- 1022 \<le> E"
  shows "rn r = of_int (round_half_even (r / 2 powi (E - 52))) * 2 powi (E - 52)"
proof -
  have "r \<noteq> 0"
  proof
    assume "r = 0"
    with assms(1) have "2 powi E \<le> (0::real)" by simp
    moreover have "(0::real) < 2 powi E" by simp
    ultimately show False by linarith
  qed
  moreover have "\<lfloor>log 2 \<bar>r\<bar>\<rfloor> = E" using assms(1,2) by (rule floor_log2_eq)
  ultimately show ?thesis using assms(3) by (simp add: rn_def max_def)
qed

lemma rn_subnormal:
  assumes "\<bar>r\<bar> < 2 powi (- 1022)"
  shows "rn r = of_int (round_half_even (r / 2 powi (- 1074))) * 2 powi (- 1074)"
proof (cases "r = 0")
  case True
  then show ?thesis by (simp add: rn_def round_half_even_def)
next
  case False
  have "2 powi \<lfloor>log 2 \<bar>r\<bar>\<rfloor> < (2::real) powi (- 1022)"
    using floor_log2_bounds(1) [OF False] assms by linarith
  then have "\<lfloor>log 2 \<bar>r\<bar>\<rfloor> < - 1022" by (rule pow2_less_cancel)
  then show ?thesis using False by (simp add: rn_def max_def)
qed

lemma rn_exact:
  assumes "is_binary64 r"
  shows "rn r = r"
proof (cases "r = 0")
  case True
  then show ?thesis by (simp add: rn_def)
next
  case False
  obtain m k where r: "r = of_int m * 2 powi k" and m: "\<bar>m\<bar> < 2 ^ 53"
    and k: "- 1074 \<le> k" "k \<le> 971"
    using assms unfolding is_binary64_def by blast
  define E where "E = \<lfloor>log 2 \<bar>r\<bar>\<rfloor>"
  define e where "e = max E (- 1022)"
  have "\<bar>of_int m :: real\<bar> < 2 ^ 53" using m by (simp flip: of_int_abs)
  then have "\<bar>r\<bar> < 2 ^ 53 * 2 powi k"
    unfolding r abs_mult by (simp add: mult_strict_right_mono)
  also have "\<dots> = 2 powi (53 + k)" by (simp add: power_int_add)
  finally have "2 powi E < (2::real) powi (53 + k)"
    using floor_log2_bounds(1) [OF False] unfolding E_def by linarith
  then have "E < 53 + k" by (rule pow2_less_cancel)
  then have le: "e - 52 \<le> k" using k by (simp add: e_def)
  define j where "j = nat (k - (e - 52))"
  have "2 powi k = (2::real) powi (e - 52) * 2 powi (k - (e - 52))"
    by (simp flip: power_int_add)
  also have "2 powi (k - (e - 52)) = (2::real) ^ j"
    using le by (simp add: j_def power_int_nonneg_exp)
  finally have q: "r / 2 powi (e - 52) = of_int (m * 2 ^ j)"
    unfolding r by simp
  have "of_int (round_half_even (r / 2 powi (e - 52))) * 2 powi (e - 52)
        = r / 2 powi (e - 52) * 2 powi (e - 52)"
    unfolding q round_half_even_int ..
  also have "\<dots> = r" by simp
  finally show ?thesis using False by (simp add: rn_def e_def E_def)
qed


lemma binary64_bound:
  assumes "is_binary64 r"
  shows "\<bar>r\<bar> < 2 ^ 1024"
proof -
  obtain m k where r: "r = of_int m * 2 powi k" and m: "\<bar>m\<bar> < 2 ^ 53"
    and k: "- 1074 \<le> k" "k \<le> 971"
    using assms unfolding is_binary64_def by blast
  have "\<bar>of_int m :: real\<bar> < 2 ^ 53" using m by (simp flip: of_int_abs)
  then have "\<bar>r\<bar> < 2 ^ 53 * 2 powi k"
    unfolding r abs_mult by (simp add: mult_strict_right_mono)
  also have "\<dots> = 2 powi (53 + k)" by (simp add: power_int_add)
  also have "\<dots> \<le> 2 powi 1024" using k by (intro power_int_increasing) simp_all
  also have "\<dots> = 2 ^ 1024" by (rule power_int_numeral)
  finally show ?thesis .
qed

lemma fl_exact: "is_binary64 r \<Longrightarrow> fl r = Fin r"
  using binary64_bound [of r] unfolding fl_def Let_def by (simp only: rn_exact) simp

lemma binary64_int: "\<bar>z\<bar> < 2 ^ 53 \<Longrightarrow> is_binary64 (of_int z)"
  unfolding is_binary64_def by (rule exI [of _ z], rule exI [of _ 0]) simp

lemma binary64_nat: "n < 2 ^ 53 \<Longrightarrow> is_binary64 (real n)"
proof -
  assume "n < 2 ^ 53"
  then have "\<bar>int n\<bar> < 2 ^ 53" by simp
  then have "is_binary64 (of_int (int n))" by (rule binary64_int)
  then show ?thesis by simp
qed

lemma binary64_scaled:
  "\<bar>z\<bar> < 2 ^ 53 \<Longrightarrow> - 1074 \<le> k \<Longrightarrow> k \<le> 971 \<Longrightarrow> is_binary64 (of_int z * 2 powi k)"
  unfolding is_binary64_def by blast


section \<open>Rounded operations on exact results\<close>

lemma add64_exact: "is_binary64 (a + b) \<Longrightarrow> add64 (Fin a) (Fin b) = Fin (a + b)"
  by (simp add: add64_def fl_exact)

lemma sub64_exact: "is_binary64 (a - b) \<Longrightarrow> sub64 (Fin a) (Fin b) = Fin (a - b)"
  by (simp add: sub64_def fl_exact)

lemma mul64_exact: "is_binary64 (a * b) \<Longrightarrow> mul64 (Fin a) (Fin b) = Fin (a * b)"
  by (simp add: mul64_def fl_exact)

lemma div64_exact: "b \<noteq> 0 \<Longrightarrow> is_binary64 (a / b) \<Longrightarrow> div64 (Fin a) (Fin b) = Fin (a / b)"
  by (simp add: div64_def fl_exact)

lemma counter_down: "n < 2 ^ 53 \<Longrightarrow> sub64 (Fin (real (Suc n))) (Fin 1) = Fin (real n)"
  using sub64_exact [of "real (Suc n)" 1] binary64_nat [of n] by simp

lemma counter_up: "Suc n < 2 ^ 53 \<Longrightarrow> add64 (Fin (real n)) (Fin 1) = Fin (real (Suc n))"
  using add64_exact [of "real n" 1] binary64_nat [of "Suc n"] by (simp add: add.commute)

lemma nat_diff64: "k \<le> n \<Longrightarrow> n < 2 ^ 53 \<Longrightarrow> sub64 (Fin (real n)) (Fin (real k)) = Fin (real (n - k))"
  using sub64_exact [of "real n" "real k"] binary64_nat [of "n - k"] by (simp add: of_nat_diff)


lemma rn_binade: "r \<noteq> 0 \<Longrightarrow> rn r = of_int (round_half_even (r / 2 powi (binade r - 52))) * 2 powi (binade r - 52)"
  by (simp add: rn_def binade_def Let_def)

lemma binade_upper: assumes "r \<noteq> 0" shows "\<bar>r\<bar> < 2 powi (binade r + 1)"
proof -
  have "\<bar>r\<bar> < 2 powi (\<lfloor>log 2 \<bar>r\<bar>\<rfloor> + 1)" using assms by (rule floor_log2_bounds(2))
  also have "\<dots> \<le> 2 powi (binade r + 1)"
    by (intro power_int_increasing) (simp_all add: binade_def)
  finally show ?thesis .
qed

lemma binade_lower: assumes "r \<noteq> 0" "- 1022 < binade r" shows "2 powi (binade r) \<le> \<bar>r\<bar>"
proof -
  have "binade r = \<lfloor>log 2 \<bar>r\<bar>\<rfloor>" using assms(2) by (simp add: binade_def max_def split: if_splits)
  then show ?thesis using floor_log2_bounds(1) [OF assms(1)] by simp
qed

lemma binade_mono: assumes "0 < r" "r \<le> s" shows "binade r \<le> binade s"
proof -
  have "log 2 \<bar>r\<bar> \<le> log 2 \<bar>s\<bar>" using assms by simp
  then have "\<lfloor>log 2 \<bar>r\<bar>\<rfloor> \<le> \<lfloor>log 2 \<bar>s\<bar>\<rfloor>" by (rule floor_mono)
  then show ?thesis unfolding binade_def by (intro max.mono) simp_all
qed

lemma rn_grid_le:
  assumes "r \<noteq> 0" "r \<le> of_int z * 2 powi (binade r - 52)"
  shows "rn r \<le> of_int z * 2 powi (binade r - 52)"
proof -
  have "r / 2 powi (binade r - 52) \<le> of_int z"
    using assms(2) by (simp add: divide_le_eq)
  then have "round_half_even (r / 2 powi (binade r - 52)) \<le> round_half_even (of_int z)"
    by (rule round_half_even_mono)
  then have "round_half_even (r / 2 powi (binade r - 52)) \<le> z" by simp
  then have "(of_int (round_half_even (r / 2 powi (binade r - 52))) :: real) \<le> of_int z"
    by (simp only: of_int_le_iff)
  then show ?thesis unfolding rn_binade [OF assms(1)]
    by (intro mult_right_mono) simp_all
qed

lemma rn_grid_ge:
  assumes "r \<noteq> 0" "of_int z * 2 powi (binade r - 52) \<le> r"
  shows "of_int z * 2 powi (binade r - 52) \<le> rn r"
proof -
  have "of_int z \<le> r / 2 powi (binade r - 52)"
    using assms(2) by (simp add: le_divide_eq)
  then have "round_half_even (of_int z) \<le> round_half_even (r / 2 powi (binade r - 52))"
    by (rule round_half_even_mono)
  then have "z \<le> round_half_even (r / 2 powi (binade r - 52))" by simp
  then have "(of_int z :: real) \<le> of_int (round_half_even (r / 2 powi (binade r - 52)))"
    by (simp only: of_int_le_iff)
  then show ?thesis unfolding rn_binade [OF assms(1)]
    by (intro mult_right_mono) simp_all
qed

lemma pow2_split: "(2::real) powi (e + 1) = of_int (2 ^ 53) * 2 powi (e - 52)"
  "(2::real) powi e = of_int (2 ^ 52) * 2 powi (e - 52)"
proof -
  have "e + 1 = 53 + (e - 52)" by simp
  then have "(2::real) powi (e + 1) = 2 powi (53 + (e - 52))" by (simp only:)
  also have "\<dots> = 2 powi 53 * 2 powi (e - 52)" by (rule power_int_add) simp
  also have "(2::real) powi 53 = of_int (2 ^ 53)" by simp
  finally show "(2::real) powi (e + 1) = of_int (2 ^ 53) * 2 powi (e - 52)" .
  have "e = 52 + (e - 52)" by simp
  then have "(2::real) powi e = 2 powi (52 + (e - 52))" by (simp only:)
  also have "\<dots> = 2 powi 52 * 2 powi (e - 52)" by (rule power_int_add) simp
  also have "(2::real) powi 52 = of_int (2 ^ 52)" by simp
  finally show "(2::real) powi e = of_int (2 ^ 52) * 2 powi (e - 52)" .
qed

lemma rn_binade_upper: assumes "0 < r" shows "rn r \<le> 2 powi (binade r + 1)"
proof -
  have r: "r \<noteq> 0" using assms by simp
  have "\<bar>r\<bar> < 2 powi (binade r + 1)" using r by (rule binade_upper)
  then have "r \<le> 2 powi (binade r + 1)" using assms by linarith
  then have "r \<le> of_int (2 ^ 53) * 2 powi (binade r - 52)" by (simp only: pow2_split(1) [symmetric])
  with r have "rn r \<le> of_int (2 ^ 53) * 2 powi (binade r - 52)" by (rule rn_grid_le)
  then show ?thesis by (simp only: pow2_split(1) [symmetric])
qed

lemma rn_binade_lower: assumes "0 < r" "- 1022 < binade r" shows "2 powi (binade r) \<le> rn r"
proof -
  have r: "r \<noteq> 0" using assms by simp
  have "2 powi (binade r) \<le> \<bar>r\<bar>" using r assms(2) by (rule binade_lower)
  then have "2 powi (binade r) \<le> r" using assms by linarith
  then have "of_int (2 ^ 52) * 2 powi (binade r - 52) \<le> r" by (simp only: pow2_split(2) [symmetric])
  with r have "of_int (2 ^ 52) * 2 powi (binade r - 52) \<le> rn r" by (rule rn_grid_ge)
  then show ?thesis by (simp only: pow2_split(2) [symmetric])
qed

lemma rn_nonneg: assumes "0 \<le> r" shows "0 \<le> rn r"
proof (cases "r = 0")
  case True then show ?thesis by (simp add: rn_def)
next
  case False
  then have "of_int 0 * 2 powi (binade r - 52) \<le> rn r" using assms by (intro rn_grid_ge) simp_all
  then show ?thesis by simp
qed

text \<open>Rounding to nearest is monotone (stated on the non-negative reals, where it is used).\<close>

lemma rn_mono:
  assumes "0 \<le> r" "r \<le> s"
  shows "rn r \<le> rn s"
proof (cases "r = 0")
  case True
  then show ?thesis using rn_nonneg [of s] assms by (simp add: rn_def)
next
  case False
  then have r: "0 < r" and s: "0 < s" using assms by simp_all
  have le: "binade r \<le> binade s" using r assms(2) by (rule binade_mono)
  show ?thesis
  proof (cases "binade r = binade s")
    case True
    have "r / 2 powi (binade s - 52) \<le> s / 2 powi (binade s - 52)"
      using assms(2) by (simp add: divide_right_mono)
    then have "round_half_even (r / 2 powi (binade s - 52)) \<le> round_half_even (s / 2 powi (binade s - 52))"
      by (rule round_half_even_mono)
    then have "(of_int (round_half_even (r / 2 powi (binade s - 52))) :: real)
        \<le> of_int (round_half_even (s / 2 powi (binade s - 52)))"
      by (simp only: of_int_le_iff)
    then have "of_int (round_half_even (r / 2 powi (binade s - 52))) * 2 powi (binade s - 52)
        \<le> of_int (round_half_even (s / 2 powi (binade s - 52))) * (2::real) powi (binade s - 52)"
      by (intro mult_right_mono) simp_all
    moreover have "rn r = of_int (round_half_even (r / 2 powi (binade s - 52))) * 2 powi (binade s - 52)"
      using rn_binade [of r] r unfolding True by simp
    moreover have "rn s = of_int (round_half_even (s / 2 powi (binade s - 52))) * 2 powi (binade s - 52)"
      using rn_binade [of s] s by simp
    ultimately show ?thesis by (simp only:)
  next
    case False
    then have lt: "binade r + 1 \<le> binade s" using le by simp
    have "- 1022 \<le> binade r" by (simp add: binade_def)
    then have "- 1022 < binade s" using lt by simp
    then have "2 powi (binade s) \<le> rn s" using s by (intro rn_binade_lower)
    moreover have "rn r \<le> 2 powi (binade r + 1)" using r by (rule rn_binade_upper)
    moreover have "(2::real) powi (binade r + 1) \<le> 2 powi (binade s)"
      using lt by (intro power_int_increasing) simp_all
    ultimately show ?thesis by linarith
  qed
qed

lemma rn_le_exact: "0 \<le> r \<Longrightarrow> r \<le> c \<Longrightarrow> is_binary64 c \<Longrightarrow> rn r \<le> c"
  using rn_mono [of r c] rn_exact [of c] by simp

lemma rn_ge_exact: "0 \<le> c \<Longrightarrow> c \<le> r \<Longrightarrow> is_binary64 c \<Longrightarrow> c \<le> rn r"
  using rn_mono [of c r] rn_exact [of c] by simp

section \<open>factorial in binary64\<close>

lemma factorial64_unfold:
  "factorial64 n =
     (if js_lt n (Fin 0) then Some NaN
      else if js_ne n (Math_floor n) then gamma64 (add64 n (Fin 1))
      else factorial_loop64 n (Fin 1))"
  unfolding factorial64_def gamma64_def by (subst factorial_gamma64.simps) simp

lemma gamma64_unfold:
  "gamma64 x =
     (if js_eq x (Math_floor x) then factorial64 (sub64 x (Fin 1))
      else do {
        (x', v) \<leftarrow> gamma_loop64 x (Fin 1);
        Some (gamma_series64 x' v)
      })"
  unfolding factorial64_def gamma64_def by (subst factorial_gamma64.simps) simp

lemma factorial64_nat: "factorial64 (Fin (real n)) = factorial_loop64 (Fin (real n)) (Fin 1)"
  by (simp add: factorial64_unfold js_ne_def js_eq_def)

text \<open>The loop is exact as long as every partial product \<open>n * (n-1) * ... * (j+1)\<close> is a
  double.\<close>

lemma fact_Suc_ratio: "(fact (Suc n) / fact j :: real) = real (Suc n) * (fact n / fact j)"
  by simp

lemma factorial_loop64_exact:
  assumes "n < 2 ^ 53" "\<forall>j\<le>n. is_binary64 (v * (fact n / fact j))"
  shows "factorial_loop64 (Fin (real n)) (Fin v) = Some (Fin (v * fact n))"
  using assms
proof (induction n arbitrary: v)
  case 0
  show ?case by (subst factorial_loop64.simps) simp
next
  case (Suc n)
  have n: "n < 2 ^ 53" using Suc.prems(1) by simp
  have all: "is_binary64 (v * real (Suc n) * (fact n / fact j))" if "j \<le> Suc n" for j
  proof -
    have "is_binary64 (v * (fact (Suc n) / fact j))" using Suc.prems(2) that by blast
    then show ?thesis unfolding fact_Suc_ratio by (simp only: mult.assoc)
  qed
  have "is_binary64 (v * real (Suc n) * (fact n / fact n))" by (rule all) simp
  then have "is_binary64 (v * real (Suc n))" by simp
  then have m: "mul64 (Fin v) (Fin (real (Suc n))) = Fin (v * real (Suc n))"
    by (rule mul64_exact)
  have "\<forall>j\<le>n. is_binary64 (v * real (Suc n) * (fact n / fact j))"
    using all by simp
  then have ih: "factorial_loop64 (Fin (real n)) (Fin (v * real (Suc n)))
             = Some (Fin (v * real (Suc n) * fact n))"
    by (rule Suc.IH [OF n])
  have gt: "js_gt (Fin (real (Suc n))) (Fin 0)" by simp
  have "factorial_loop64 (Fin (real (Suc n))) (Fin v)
        = factorial_loop64 (sub64 (Fin (real (Suc n))) (Fin 1)) (mul64 (Fin v) (Fin (real (Suc n))))"
    by (subst factorial_loop64.simps) (simp only: gt if_True)
  also have "\<dots> = Some (Fin (v * real (Suc n) * fact n))"
    unfolding counter_down [OF n] m by (rule ih)
  also have "v * real (Suc n) * fact n = v * fact (Suc n)"
    by (simp add: mult.assoc)
  finally show ?case .
qed

lemma fact_ratio_nat: "j \<le> k \<Longrightarrow> (fact k / fact j :: real) = real (fact k div fact j)"
  using fact_dvd [of j k, where 'a = nat] by (simp add: real_of_nat_div)

lemma fact_ratio_small:
  assumes "j0 \<le> j" "j \<le> k" "fact k div fact j0 < (2::nat) ^ 53"
  shows "is_binary64 (fact k / fact j)"
proof -
  have "(fact j0 :: nat) \<le> fact j" using assms(1) by (rule fact_mono)
  then have "(fact k :: nat) div fact j \<le> fact k div fact j0"
    by (intro div_le_mono2) simp_all
  then have "(fact k :: nat) div fact j < 2 ^ 53" using assms(3) by linarith
  then show ?thesis using assms(2) by (simp add: fact_ratio_nat binary64_nat)
qed

text \<open>The partial products of \<open>19!\<close> to \<open>22!\<close> that exceed \<open>2^53\<close> have few enough significant
  bits to be doubles.\<close>

lemma binary64_big_products:
  "is_binary64 10137091700736000"
  "is_binary64 20274183401472000"
  "is_binary64 27877002177024000"
  "is_binary64 60822550204416000"
  "is_binary64 70959641905152000"
  "is_binary64 101370917007360000"
  "is_binary64 121645100408832000"
  "is_binary64 223016017416192000"
  "is_binary64 405483668029440000"
  "is_binary64 425757851430912000"
  "is_binary64 1216451004088320000"
  "is_binary64 1561112121913344000"
  "is_binary64 2128789257154560000"
  "is_binary64 2432902008176640000"
  "is_binary64 8515157028618240000"
  "is_binary64 9366672731480064000"
  "is_binary64 25545471085854720000"
  "is_binary64 46833363657400320000"
  "is_binary64 51090942171709440000"
  "is_binary64 187333454629601280000"
  "is_binary64 562000363888803840000"
  "is_binary64 1124000727777607680000"
proof -
  show "is_binary64 10137091700736000"
    using binary64_scaled [of 618718975875 14] by simp
  show "is_binary64 20274183401472000"
    using binary64_scaled [of 618718975875 15] by simp
  show "is_binary64 27877002177024000"
    using binary64_scaled [of 6805908734625 12] by simp
  show "is_binary64 60822550204416000"
    using binary64_scaled [of 1856156927625 15] by simp
  show "is_binary64 70959641905152000"
    using binary64_scaled [of 4331032831125 14] by simp
  show "is_binary64 101370917007360000"
    using binary64_scaled [of 3093594879375 15] by simp
  show "is_binary64 121645100408832000"
    using binary64_scaled [of 1856156927625 16] by simp
  show "is_binary64 223016017416192000"
    using binary64_scaled [of 6805908734625 15] by simp
  show "is_binary64 405483668029440000"
    using binary64_scaled [of 3093594879375 17] by simp
  show "is_binary64 425757851430912000"
    using binary64_scaled [of 12993098493375 15] by simp
  show "is_binary64 1216451004088320000"
    using binary64_scaled [of 9280784638125 17] by simp
  show "is_binary64 1561112121913344000"
    using binary64_scaled [of 47641361142375 15] by simp
  show "is_binary64 2128789257154560000"
    using binary64_scaled [of 64965492466875 15] by simp
  show "is_binary64 2432902008176640000"
    using binary64_scaled [of 9280784638125 18] by simp
  show "is_binary64 8515157028618240000"
    using binary64_scaled [of 64965492466875 17] by simp
  show "is_binary64 9366672731480064000"
    using binary64_scaled [of 142924083427125 16] by simp
  show "is_binary64 25545471085854720000"
    using binary64_scaled [of 194896477400625 17] by simp
  show "is_binary64 46833363657400320000"
    using binary64_scaled [of 714620417135625 16] by simp
  show "is_binary64 51090942171709440000"
    using binary64_scaled [of 194896477400625 18] by simp
  show "is_binary64 187333454629601280000"
    using binary64_scaled [of 714620417135625 18] by simp
  show "is_binary64 562000363888803840000"
    using binary64_scaled [of 2143861251406875 18] by simp
  show "is_binary64 1124000727777607680000"
    using binary64_scaled [of 2143861251406875 19] by simp
qed

lemma binary64_fact_19:
  assumes "j \<le> 19"
  shows "is_binary64 (fact 19 / fact j)"
proof (cases "4 \<le> j")
  case True
  have "(fact 19 :: nat) div fact 4 < 2 ^ 53" by (simp add: fact_numeral)
  with True assms show ?thesis by (rule fact_ratio_small)
next
  case False
  then have "j = 0 \<or> j = 1 \<or> j = 2 \<or> j = 3" by arith
  then show ?thesis
    by (elim disjE) (simp_all add: fact_numeral binary64_big_products)
qed

lemma binary64_fact_20:
  assumes "j \<le> 20"
  shows "is_binary64 (fact 20 / fact j)"
proof (cases "6 \<le> j")
  case True
  have "(fact 20 :: nat) div fact 6 < 2 ^ 53" by (simp add: fact_numeral)
  with True assms show ?thesis by (rule fact_ratio_small)
next
  case False
  then have "j = 0 \<or> j = 1 \<or> j = 2 \<or> j = 3 \<or> j = 4 \<or> j = 5" by arith
  then show ?thesis
    by (elim disjE) (simp_all add: fact_numeral binary64_big_products)
qed

lemma binary64_fact_21:
  assumes "j \<le> 21"
  shows "is_binary64 (fact 21 / fact j)"
proof (cases "8 \<le> j")
  case True
  have "(fact 21 :: nat) div fact 8 < 2 ^ 53" by (simp add: fact_numeral)
  with True assms show ?thesis by (rule fact_ratio_small)
next
  case False
  then have "j = 0 \<or> j = 1 \<or> j = 2 \<or> j = 3 \<or> j = 4 \<or> j = 5 \<or> j = 6 \<or> j = 7" by arith
  then show ?thesis
    by (elim disjE) (simp_all add: fact_numeral binary64_big_products)
qed

lemma binary64_fact_22:
  assumes "j \<le> 22"
  shows "is_binary64 (fact 22 / fact j)"
proof (cases "9 \<le> j")
  case True
  have "(fact 22 :: nat) div fact 9 < 2 ^ 53" by (simp add: fact_numeral)
  with True assms show ?thesis by (rule fact_ratio_small)
next
  case False
  then have "j = 0 \<or> j = 1 \<or> j = 2 \<or> j = 3 \<or> j = 4 \<or> j = 5 \<or> j = 6 \<or> j = 7 \<or> j = 8" by arith
  then show ?thesis
    by (elim disjE) (simp_all add: fact_numeral binary64_big_products)
qed

lemma binary64_fact_le_18:
  assumes "k \<le> 18" "j \<le> k"
  shows "is_binary64 (fact k / fact j)"
proof -
  have "(fact k :: nat) \<le> fact 18" using assms(1) by (rule fact_mono)
  also have "\<dots> < 2 ^ 53" by (simp add: fact_numeral)
  finally have "(fact k :: nat) div fact 0 < 2 ^ 53" by simp
  with _ assms(2) show ?thesis by (rule fact_ratio_small) simp
qed

lemma binary64_fact_le_22:
  assumes "k \<le> 22" "j \<le> k"
  shows "is_binary64 (fact k / fact j)"
proof -
  have "k \<le> 18 \<or> k = 19 \<or> k = 20 \<or> k = 21 \<or> k = 22" using assms(1) by arith
  then show ?thesis
    using assms(2) binary64_fact_le_18 [of k j] binary64_fact_19 [of j] binary64_fact_20 [of j]
      binary64_fact_21 [of j] binary64_fact_22 [of j]
    by auto
qed

lemma factorial64_exact_le_22:
  assumes "k \<le> 22"
  shows "factorial64 (Fin (real k)) = Some (Fin (fact k))"
proof -
  have "k < 2 ^ 53" using assms by simp
  moreover have "\<forall>j\<le>k. is_binary64 (1 * (fact k / fact j))"
    using assms by (simp add: binary64_fact_le_22)
  ultimately have "factorial_loop64 (Fin (real k)) (Fin 1) = Some (Fin (1 * fact k))"
    by (rule factorial_loop64_exact)
  then show ?thesis by (simp add: factorial64_nat)
qed


lemma binary64_numeral_small: "numeral n < (2::real) ^ 53 \<Longrightarrow> is_binary64 (numeral n)"
proof -
  assume "numeral n < (2::real) ^ 53"
  then have "real (numeral n) < real (2 ^ 53)" by simp
  then have "(numeral n :: nat) < 2 ^ 53" by (simp only: of_nat_less_iff)
  then have "is_binary64 (real (numeral n))" by (rule binary64_nat)
  then show ?thesis by simp
qed

lemma binary64_one: "is_binary64 1"
  using binary64_nat [of 1] by simp

lemma binary64_zero: "is_binary64 0"
  using binary64_nat [of 0] by simp

lemma fl_normal:
  assumes "2 powi E \<le> \<bar>r\<bar>" "\<bar>r\<bar> < 2 powi (E + 1)" "- 1022 \<le> E"
    and "round_half_even (r / 2 powi (E - 52)) = z"
    and "\<bar>of_int z * 2 powi (E - 52)\<bar> < (2::real) ^ 1024"
  shows "fl r = Fin (of_int z * 2 powi (E - 52))"
  using assms(4,5) unfolding fl_def Let_def rn_normal [OF assms(1-3)] by simp

text \<open>\<open>23!/5!\<close> times 5 is not a double: it lies half way between two doubles that are
  \<open>2^17\<close> apart, and the tie goes to the even one, above.\<close>

lemma mul64_inexact_23:
  "mul64 (Fin 215433472824041472000) (Fin 5) = Fin 1077167364120207425536"
proof -
  have "round_half_even (1077167364120207360000 / 2 powi (69 - 52)) = 8218134797059688"
    by (simp add: round_half_even_def)
  then have "fl 1077167364120207360000 = Fin (of_int 8218134797059688 * 2 powi (69 - 52))"
    by (intro fl_normal) simp_all
  then show ?thesis by (simp add: mul64_def)
qed

lemma binary64_big_products_23:
  "is_binary64 71241227785728000"
  "is_binary64 641171050071552000"
  "is_binary64 5129368400572416000"
  "is_binary64 35905578804006912000"
  "is_binary64 215433472824041472000"
  "is_binary64 1077167364120207425536"
  "is_binary64 4308669456480829702144"
  "is_binary64 12926008369442489106432"
  "is_binary64 25852016738884978212864"
proof -
  show "is_binary64 71241227785728000"
    using binary64_scaled [of 17392877877375 12] by simp
  show "is_binary64 641171050071552000"
    using binary64_scaled [of 156535900896375 12] by simp
  show "is_binary64 5129368400572416000"
    using binary64_scaled [of 156535900896375 15] by simp
  show "is_binary64 35905578804006912000"
    using binary64_scaled [of 1095751306274625 15] by simp
  show "is_binary64 215433472824041472000"
    using binary64_scaled [of 3287253918823875 16] by simp
  show "is_binary64 1077167364120207425536"
    using binary64_scaled [of 1027266849632461 20] by simp
  show "is_binary64 4308669456480829702144"
    using binary64_scaled [of 1027266849632461 22] by simp
  show "is_binary64 12926008369442489106432"
    using binary64_scaled [of 3081800548897383 22] by simp
  show "is_binary64 25852016738884978212864"
    using binary64_scaled [of 3081800548897383 23] by simp
qed

lemma factorial_loop64_23:
  "factorial_loop64 (Fin 23) (Fin 1) = Some (Fin 25852016738884978212864)"
proof -
  have m23: "mul64 (Fin 1) (Fin 23) = Fin 23"
    using mul64_exact [of 1 23] by (simp add: binary64_numeral_small binary64_one binary64_big_products_23)
  have d23: "sub64 (Fin 23) (Fin 1) = Fin 22"
    using sub64_exact [of 23 1] by (simp add: binary64_numeral_small binary64_one binary64_zero)
  have m22: "mul64 (Fin 23) (Fin 22) = Fin 506"
    using mul64_exact [of 23 22] by (simp add: binary64_numeral_small binary64_one binary64_big_products_23)
  have d22: "sub64 (Fin 22) (Fin 1) = Fin 21"
    using sub64_exact [of 22 1] by (simp add: binary64_numeral_small binary64_one binary64_zero)
  have m21: "mul64 (Fin 506) (Fin 21) = Fin 10626"
    using mul64_exact [of 506 21] by (simp add: binary64_numeral_small binary64_one binary64_big_products_23)
  have d21: "sub64 (Fin 21) (Fin 1) = Fin 20"
    using sub64_exact [of 21 1] by (simp add: binary64_numeral_small binary64_one binary64_zero)
  have m20: "mul64 (Fin 10626) (Fin 20) = Fin 212520"
    using mul64_exact [of 10626 20] by (simp add: binary64_numeral_small binary64_one binary64_big_products_23)
  have d20: "sub64 (Fin 20) (Fin 1) = Fin 19"
    using sub64_exact [of 20 1] by (simp add: binary64_numeral_small binary64_one binary64_zero)
  have m19: "mul64 (Fin 212520) (Fin 19) = Fin 4037880"
    using mul64_exact [of 212520 19] by (simp add: binary64_numeral_small binary64_one binary64_big_products_23)
  have d19: "sub64 (Fin 19) (Fin 1) = Fin 18"
    using sub64_exact [of 19 1] by (simp add: binary64_numeral_small binary64_one binary64_zero)
  have m18: "mul64 (Fin 4037880) (Fin 18) = Fin 72681840"
    using mul64_exact [of 4037880 18] by (simp add: binary64_numeral_small binary64_one binary64_big_products_23)
  have d18: "sub64 (Fin 18) (Fin 1) = Fin 17"
    using sub64_exact [of 18 1] by (simp add: binary64_numeral_small binary64_one binary64_zero)
  have m17: "mul64 (Fin 72681840) (Fin 17) = Fin 1235591280"
    using mul64_exact [of 72681840 17] by (simp add: binary64_numeral_small binary64_one binary64_big_products_23)
  have d17: "sub64 (Fin 17) (Fin 1) = Fin 16"
    using sub64_exact [of 17 1] by (simp add: binary64_numeral_small binary64_one binary64_zero)
  have m16: "mul64 (Fin 1235591280) (Fin 16) = Fin 19769460480"
    using mul64_exact [of 1235591280 16] by (simp add: binary64_numeral_small binary64_one binary64_big_products_23)
  have d16: "sub64 (Fin 16) (Fin 1) = Fin 15"
    using sub64_exact [of 16 1] by (simp add: binary64_numeral_small binary64_one binary64_zero)
  have m15: "mul64 (Fin 19769460480) (Fin 15) = Fin 296541907200"
    using mul64_exact [of 19769460480 15] by (simp add: binary64_numeral_small binary64_one binary64_big_products_23)
  have d15: "sub64 (Fin 15) (Fin 1) = Fin 14"
    using sub64_exact [of 15 1] by (simp add: binary64_numeral_small binary64_one binary64_zero)
  have m14: "mul64 (Fin 296541907200) (Fin 14) = Fin 4151586700800"
    using mul64_exact [of 296541907200 14] by (simp add: binary64_numeral_small binary64_one binary64_big_products_23)
  have d14: "sub64 (Fin 14) (Fin 1) = Fin 13"
    using sub64_exact [of 14 1] by (simp add: binary64_numeral_small binary64_one binary64_zero)
  have m13: "mul64 (Fin 4151586700800) (Fin 13) = Fin 53970627110400"
    using mul64_exact [of 4151586700800 13] by (simp add: binary64_numeral_small binary64_one binary64_big_products_23)
  have d13: "sub64 (Fin 13) (Fin 1) = Fin 12"
    using sub64_exact [of 13 1] by (simp add: binary64_numeral_small binary64_one binary64_zero)
  have m12: "mul64 (Fin 53970627110400) (Fin 12) = Fin 647647525324800"
    using mul64_exact [of 53970627110400 12] by (simp add: binary64_numeral_small binary64_one binary64_big_products_23)
  have d12: "sub64 (Fin 12) (Fin 1) = Fin 11"
    using sub64_exact [of 12 1] by (simp add: binary64_numeral_small binary64_one binary64_zero)
  have m11: "mul64 (Fin 647647525324800) (Fin 11) = Fin 7124122778572800"
    using mul64_exact [of 647647525324800 11] by (simp add: binary64_numeral_small binary64_one binary64_big_products_23)
  have d11: "sub64 (Fin 11) (Fin 1) = Fin 10"
    using sub64_exact [of 11 1] by (simp add: binary64_numeral_small binary64_one binary64_zero)
  have m10: "mul64 (Fin 7124122778572800) (Fin 10) = Fin 71241227785728000"
    using mul64_exact [of 7124122778572800 10] by (simp add: binary64_numeral_small binary64_one binary64_big_products_23)
  have d10: "sub64 (Fin 10) (Fin 1) = Fin 9"
    using sub64_exact [of 10 1] by (simp add: binary64_numeral_small binary64_one binary64_zero)
  have m9: "mul64 (Fin 71241227785728000) (Fin 9) = Fin 641171050071552000"
    using mul64_exact [of 71241227785728000 9] by (simp add: binary64_numeral_small binary64_one binary64_big_products_23)
  have d9: "sub64 (Fin 9) (Fin 1) = Fin 8"
    using sub64_exact [of 9 1] by (simp add: binary64_numeral_small binary64_one binary64_zero)
  have m8: "mul64 (Fin 641171050071552000) (Fin 8) = Fin 5129368400572416000"
    using mul64_exact [of 641171050071552000 8] by (simp add: binary64_numeral_small binary64_one binary64_big_products_23)
  have d8: "sub64 (Fin 8) (Fin 1) = Fin 7"
    using sub64_exact [of 8 1] by (simp add: binary64_numeral_small binary64_one binary64_zero)
  have m7: "mul64 (Fin 5129368400572416000) (Fin 7) = Fin 35905578804006912000"
    using mul64_exact [of 5129368400572416000 7] by (simp add: binary64_numeral_small binary64_one binary64_big_products_23)
  have d7: "sub64 (Fin 7) (Fin 1) = Fin 6"
    using sub64_exact [of 7 1] by (simp add: binary64_numeral_small binary64_one binary64_zero)
  have m6: "mul64 (Fin 35905578804006912000) (Fin 6) = Fin 215433472824041472000"
    using mul64_exact [of 35905578804006912000 6] by (simp add: binary64_numeral_small binary64_one binary64_big_products_23)
  have d6: "sub64 (Fin 6) (Fin 1) = Fin 5"
    using sub64_exact [of 6 1] by (simp add: binary64_numeral_small binary64_one binary64_zero)
  have m5: "mul64 (Fin 215433472824041472000) (Fin 5) = Fin 1077167364120207425536"
    by (rule mul64_inexact_23)
  have d5: "sub64 (Fin 5) (Fin 1) = Fin 4"
    using sub64_exact [of 5 1] by (simp add: binary64_numeral_small binary64_one binary64_zero)
  have m4: "mul64 (Fin 1077167364120207425536) (Fin 4) = Fin 4308669456480829702144"
    using mul64_exact [of 1077167364120207425536 4] by (simp add: binary64_numeral_small binary64_one binary64_big_products_23)
  have d4: "sub64 (Fin 4) (Fin 1) = Fin 3"
    using sub64_exact [of 4 1] by (simp add: binary64_numeral_small binary64_one binary64_zero)
  have m3: "mul64 (Fin 4308669456480829702144) (Fin 3) = Fin 12926008369442489106432"
    using mul64_exact [of 4308669456480829702144 3] by (simp add: binary64_numeral_small binary64_one binary64_big_products_23)
  have d3: "sub64 (Fin 3) (Fin 1) = Fin 2"
    using sub64_exact [of 3 1] by (simp add: binary64_numeral_small binary64_one binary64_zero)
  have m2: "mul64 (Fin 12926008369442489106432) (Fin 2) = Fin 25852016738884978212864"
    using mul64_exact [of 12926008369442489106432 2] by (simp add: binary64_numeral_small binary64_one binary64_big_products_23)
  have d2: "sub64 (Fin 2) (Fin 1) = Fin 1"
    using sub64_exact [of 2 1] by (simp add: binary64_numeral_small binary64_one binary64_zero)
  have m1: "mul64 (Fin 25852016738884978212864) (Fin 1) = Fin 25852016738884978212864"
    using mul64_exact [of 25852016738884978212864 1] by (simp add: binary64_numeral_small binary64_one binary64_big_products_23)
  have d1: "sub64 (Fin 1) (Fin 1) = Fin 0"
    using sub64_exact [of 1 1] by (simp add: binary64_numeral_small binary64_one binary64_zero)
  have "factorial_loop64 (Fin 23) (Fin 1) = factorial_loop64 (Fin 22) (Fin 23)"
    by (subst factorial_loop64.simps) (simp add: m23 d23)
  also have "\<dots> = factorial_loop64 (Fin 21) (Fin 506)"
    by (subst factorial_loop64.simps) (simp add: m22 d22)
  also have "\<dots> = factorial_loop64 (Fin 20) (Fin 10626)"
    by (subst factorial_loop64.simps) (simp add: m21 d21)
  also have "\<dots> = factorial_loop64 (Fin 19) (Fin 212520)"
    by (subst factorial_loop64.simps) (simp add: m20 d20)
  also have "\<dots> = factorial_loop64 (Fin 18) (Fin 4037880)"
    by (subst factorial_loop64.simps) (simp add: m19 d19)
  also have "\<dots> = factorial_loop64 (Fin 17) (Fin 72681840)"
    by (subst factorial_loop64.simps) (simp add: m18 d18)
  also have "\<dots> = factorial_loop64 (Fin 16) (Fin 1235591280)"
    by (subst factorial_loop64.simps) (simp add: m17 d17)
  also have "\<dots> = factorial_loop64 (Fin 15) (Fin 19769460480)"
    by (subst factorial_loop64.simps) (simp add: m16 d16)
  also have "\<dots> = factorial_loop64 (Fin 14) (Fin 296541907200)"
    by (subst factorial_loop64.simps) (simp add: m15 d15)
  also have "\<dots> = factorial_loop64 (Fin 13) (Fin 4151586700800)"
    by (subst factorial_loop64.simps) (simp add: m14 d14)
  also have "\<dots> = factorial_loop64 (Fin 12) (Fin 53970627110400)"
    by (subst factorial_loop64.simps) (simp add: m13 d13)
  also have "\<dots> = factorial_loop64 (Fin 11) (Fin 647647525324800)"
    by (subst factorial_loop64.simps) (simp add: m12 d12)
  also have "\<dots> = factorial_loop64 (Fin 10) (Fin 7124122778572800)"
    by (subst factorial_loop64.simps) (simp add: m11 d11)
  also have "\<dots> = factorial_loop64 (Fin 9) (Fin 71241227785728000)"
    by (subst factorial_loop64.simps) (simp add: m10 d10)
  also have "\<dots> = factorial_loop64 (Fin 8) (Fin 641171050071552000)"
    by (subst factorial_loop64.simps) (simp add: m9 d9)
  also have "\<dots> = factorial_loop64 (Fin 7) (Fin 5129368400572416000)"
    by (subst factorial_loop64.simps) (simp add: m8 d8)
  also have "\<dots> = factorial_loop64 (Fin 6) (Fin 35905578804006912000)"
    by (subst factorial_loop64.simps) (simp add: m7 d7)
  also have "\<dots> = factorial_loop64 (Fin 5) (Fin 215433472824041472000)"
    by (subst factorial_loop64.simps) (simp add: m6 d6)
  also have "\<dots> = factorial_loop64 (Fin 4) (Fin 1077167364120207425536)"
    by (subst factorial_loop64.simps) (simp add: m5 d5)
  also have "\<dots> = factorial_loop64 (Fin 3) (Fin 4308669456480829702144)"
    by (subst factorial_loop64.simps) (simp add: m4 d4)
  also have "\<dots> = factorial_loop64 (Fin 2) (Fin 12926008369442489106432)"
    by (subst factorial_loop64.simps) (simp add: m3 d3)
  also have "\<dots> = factorial_loop64 (Fin 1) (Fin 25852016738884978212864)"
    by (subst factorial_loop64.simps) (simp add: m2 d2)
  also have "\<dots> = factorial_loop64 (Fin 0) (Fin 25852016738884978212864)"
    by (subst factorial_loop64.simps) (simp add: m1 d1)
  also have "\<dots> = Some (Fin 25852016738884978212864)"
    by (subst factorial_loop64.simps) simp
  finally show ?thesis .
qed

lemma factorial64_23:
  "factorial64 (Fin 23) = Some (Fin 25852016738884978212864)
   \<and> (fact 23 :: real) = 25852016738884976640000"
  using factorial64_nat [of 23] by (simp add: factorial_loop64_23 fact_numeral)

lemma factorial_loop64_step:
  assumes "0 < n" "sub64 (Fin n) (Fin 1) = n'" "mul64 v (Fin n) = w"
  shows "factorial_loop64 (Fin n) v = factorial_loop64 n' w"
  using assms by (subst factorial_loop64.simps) simp

lemma factorial_loop64_rounded:
  "n < 2 ^ 53 \<Longrightarrow> factorial_loop64 (Fin (real n)) v = Some (rounded_product n v)"
proof (induction n arbitrary: v)
  case 0
  show ?case by (subst factorial_loop64.simps) simp
next
  case (Suc n)
  have n: "n < 2 ^ 53" using Suc.prems by simp
  have "factorial_loop64 (Fin (real (Suc n))) v
        = factorial_loop64 (Fin (real n)) (mul64 v (Fin (real (Suc n))))"
    by (rule factorial_loop64_step) (simp_all add: counter_down [OF n] del: of_nat_Suc)
  also have "\<dots> = Some (rounded_product n (mul64 v (Fin (real (Suc n)))))"
    using n by (rule Suc.IH)
  finally show ?case by simp
qed

lemma factorial64_rounded:
  "n < 2 ^ 53 \<Longrightarrow> factorial64 (Fin (real n)) = Some (rounded_product n (Fin 1))"
  by (simp add: factorial64_nat factorial_loop64_rounded)

lemma factorial64_negative: "js_lt n (Fin 0) \<Longrightarrow> factorial64 n = Some NaN"
  by (simp add: factorial64_unfold)

lemma factorial64_delegates:
  "\<not> js_lt m (Fin 0) \<Longrightarrow> js_ne m (Math_floor m) \<Longrightarrow> factorial64 m = gamma64 (add64 m (Fin 1))"
  by (simp add: factorial64_unfold)

text \<open>One multiplication of a double \<open>m * 2^s\<close> by an integer: the product of the significands
  either is a significand itself, or has \<open>d\<close> bits too many and is rounded to \<open>z * 2^d\<close>.\<close>

lemma mul64_Fin: "mul64 (Fin a) (Fin b) = fl (a * b)"
  by (simp add: mul64_def)

lemma dbl_times: "of_int m * 2 powi s * of_int n = of_int (m * n) * (2::real) powi s"
  by (simp add: mult_ac)

lemma mul64_dbl_exact:
  assumes "\<bar>m * n\<bar> < 2 ^ 53" "- 1074 \<le> s" "s \<le> 971"
  shows "mul64 (dbl m s) (Fin (of_int n)) = dbl (m * n) s"
proof -
  have "is_binary64 (of_int (m * n) * 2 powi s)" using assms by (rule binary64_scaled)
  then have "fl (of_int (m * n) * 2 powi s) = Fin (of_int (m * n) * 2 powi s)" by (rule fl_exact)
  then show ?thesis unfolding dbl_def mul64_Fin dbl_times .
qed

lemma dbl_binade:
  assumes "2 ^ (52 + d) \<le> p" "p < 2 ^ (53 + d)" "- 1074 \<le> s + int d"
  shows "rn (of_int p * 2 powi s) = of_int (round_half_even (of_int p / 2 ^ d)) * 2 powi (s + int d)"
proof -
  define r :: real where "r = of_int p * 2 powi s"
  have "(of_int (2 ^ (52 + d)) :: real) \<le> of_int p" using assms(1) by (simp only: of_int_le_iff)
  then have p1: "(2::real) ^ (52 + d) \<le> of_int p" by simp
  have "(of_int p :: real) < of_int (2 ^ (53 + d))" using assms(2) by (simp only: of_int_less_iff)
  then have p2: "of_int p < (2::real) ^ (53 + d)" by simp
  have "(0::real) < 2 ^ (52 + d)" by simp
  with p1 have p0: "(0::real) \<le> of_int p" by linarith
  have pos: "0 \<le> r" unfolding r_def using p0 by (intro mult_nonneg_nonneg) simp_all
  have "(2::real) powi (s + int d + 52) = 2 powi (int (52 + d)) * 2 powi s"
    by (simp flip: power_int_add add: add_ac)
  also have "\<dots> = 2 ^ (52 + d) * 2 powi s" by (simp only: power_int_of_nat)
  also have "\<dots> \<le> r" unfolding r_def using p1 by (intro mult_right_mono) simp_all
  finally have lo: "2 powi (s + int d + 52) \<le> \<bar>r\<bar>" using pos by simp
  have "r < 2 ^ (53 + d) * 2 powi s" unfolding r_def using p2 by (intro mult_strict_right_mono) simp_all
  also have "\<dots> = 2 powi (int (53 + d)) * 2 powi s" by (simp only: power_int_of_nat)
  also have "\<dots> = 2 powi (s + int d + 52 + 1)"
    by (simp flip: power_int_add add: add_ac)
  finally have hi: "\<bar>r\<bar> < 2 powi (s + int d + 52 + 1)" using pos by simp
  have "- 1022 \<le> s + int d + 52" using assms(3) by simp
  with lo hi have "rn r = of_int (round_half_even (r / 2 powi (s + int d + 52 - 52))) * 2 powi (s + int d + 52 - 52)"
    by (rule rn_normal)
  then have "rn r = of_int (round_half_even (r / 2 powi (s + int d))) * 2 powi (s + int d)"
    by simp
  moreover have "r / 2 powi (s + int d) = of_int p / 2 ^ d"
  proof -
    have "(2::real) powi (s + int d) = 2 powi s * 2 powi (int d)" by (simp add: power_int_add)
    also have "\<dots> = 2 powi s * 2 ^ d" by (simp only: power_int_of_nat)
    finally show ?thesis unfolding r_def by simp
  qed
  ultimately show ?thesis unfolding r_def by (simp only:)
qed

lemma mul64_dbl_round:
  assumes "2 ^ (52 + d) \<le> m * n" "m * n < 2 ^ (53 + d)" "- 1074 \<le> s + int d"
    and "round_half_even (of_int (m * n) / 2 ^ d) = z"
    and "of_int \<bar>z\<bar> * 2 powi (s + int d) < (2::real) ^ 1024"
  shows "mul64 (dbl m s) (Fin (of_int n)) = dbl z (s + int d)"
proof -
  have rnv: "rn (of_int (m * n) * 2 powi s) = of_int z * 2 powi (s + int d)"
    unfolding dbl_binade [OF assms(1-3)] assms(4) ..
  have "\<bar>of_int z * 2 powi (s + int d)\<bar> = of_int \<bar>z\<bar> * (2::real) powi (s + int d)"
    by (simp add: abs_mult)
  then have "\<not> 2 ^ 1024 \<le> \<bar>of_int z * (2::real) powi (s + int d)\<bar>"
    using assms(5) by linarith
  then show ?thesis unfolding dbl_def mul64_Fin dbl_times fl_def Let_def rnv
    by (simp only: if_False)
qed

lemma mul64_dbl_overflow:
  assumes "2 ^ (52 + d) \<le> m * n" "m * n < 2 ^ (53 + d)" "- 1074 \<le> s + int d"
    and "round_half_even (of_int (m * n) / 2 ^ d) = z"
    and "(2::real) ^ 1024 \<le> of_int \<bar>z\<bar> * 2 powi (s + int d)"
  shows "mul64 (dbl m s) (Fin (of_int n)) = PInf"
proof -
  have rnv: "rn (of_int (m * n) * 2 powi s) = of_int z * 2 powi (s + int d)"
    unfolding dbl_binade [OF assms(1-3)] assms(4) ..
  have "\<bar>of_int z * 2 powi (s + int d)\<bar> = of_int \<bar>z\<bar> * (2::real) powi (s + int d)"
    by (simp add: abs_mult)
  then have big: "2 ^ 1024 \<le> \<bar>of_int z * (2::real) powi (s + int d)\<bar>"
    using assms(5) by linarith
  have pos: "(0::real) < of_int (m * n) * 2 powi s"
  proof -
    have "(0::int) < 2 ^ (52 + d)" by simp
    then have "0 < m * n" using assms(1) by linarith
    then have "(0::real) < of_int (m * n)" by (simp only: of_int_0_less_iff)
    then show ?thesis by (intro mult_pos_pos) simp_all
  qed
  show ?thesis unfolding dbl_def mul64_Fin dbl_times fl_def Let_def rnv
    using big pos by (simp only: if_True)
qed

lemma mul64_PInf: "0 < n \<Longrightarrow> mul64 PInf (Fin n) = PInf"
  by (simp add: mul64_def)

lemma factorial_loop64_171: "factorial_loop64 (Fin 171) (Fin 1) = Some PInf"
proof -
  have d171: "sub64 (Fin 171) (Fin 1) = Fin 170"
    using sub64_exact [of 171 1] by (simp add: binary64_numeral_small binary64_one binary64_zero)
  have m171: "mul64 (dbl 1 0) (Fin 171) = dbl 171 0"
    using mul64_dbl_exact [of 1 171 0] by simp
  have d170: "sub64 (Fin 170) (Fin 1) = Fin 169"
    using sub64_exact [of 170 1] by (simp add: binary64_numeral_small binary64_one binary64_zero)
  have m170: "mul64 (dbl 171 0) (Fin 170) = dbl 29070 0"
    using mul64_dbl_exact [of 171 170 0] by simp
  have d169: "sub64 (Fin 169) (Fin 1) = Fin 168"
    using sub64_exact [of 169 1] by (simp add: binary64_numeral_small binary64_one binary64_zero)
  have m169: "mul64 (dbl 29070 0) (Fin 169) = dbl 4912830 0"
    using mul64_dbl_exact [of 29070 169 0] by simp
  have d168: "sub64 (Fin 168) (Fin 1) = Fin 167"
    using sub64_exact [of 168 1] by (simp add: binary64_numeral_small binary64_one binary64_zero)
  have m168: "mul64 (dbl 4912830 0) (Fin 168) = dbl 825355440 0"
    using mul64_dbl_exact [of 4912830 168 0] by simp
  have d167: "sub64 (Fin 167) (Fin 1) = Fin 166"
    using sub64_exact [of 167 1] by (simp add: binary64_numeral_small binary64_one binary64_zero)
  have m167: "mul64 (dbl 825355440 0) (Fin 167) = dbl 137834358480 0"
    using mul64_dbl_exact [of 825355440 167 0] by simp
  have d166: "sub64 (Fin 166) (Fin 1) = Fin 165"
    using sub64_exact [of 166 1] by (simp add: binary64_numeral_small binary64_one binary64_zero)
  have m166: "mul64 (dbl 137834358480 0) (Fin 166) = dbl 22880503507680 0"
    using mul64_dbl_exact [of 137834358480 166 0] by simp
  have d165: "sub64 (Fin 165) (Fin 1) = Fin 164"
    using sub64_exact [of 165 1] by (simp add: binary64_numeral_small binary64_one binary64_zero)
  have m165: "mul64 (dbl 22880503507680 0) (Fin 165) = dbl 3775283078767200 0"
    using mul64_dbl_exact [of 22880503507680 165 0] by simp
  have d164: "sub64 (Fin 164) (Fin 1) = Fin 163"
    using sub64_exact [of 164 1] by (simp add: binary64_numeral_small binary64_one binary64_zero)
  have m164: "mul64 (dbl 3775283078767200 0) (Fin 164) = dbl 4837081444670475 7"
    using mul64_dbl_round [of 7 3775283078767200 164 0 4837081444670475]
    by (simp add: round_half_even_def)
  have d163: "sub64 (Fin 163) (Fin 1) = Fin 162"
    using sub64_exact [of 163 1] by (simp add: binary64_numeral_small binary64_one binary64_zero)
  have m163: "mul64 (dbl 4837081444670475 7) (Fin 163) = dbl 6159720902197558 14"
    using mul64_dbl_round [of 7 4837081444670475 163 7 6159720902197558]
    by (simp add: round_half_even_def)
  have d162: "sub64 (Fin 162) (Fin 1) = Fin 161"
    using sub64_exact [of 162 1] by (simp add: binary64_numeral_small binary64_one binary64_zero)
  have m162: "mul64 (dbl 6159720902197558 14) (Fin 162) = dbl 7795896766843784 21"
    using mul64_dbl_round [of 7 6159720902197558 162 14 7795896766843784]
    by (simp add: round_half_even_def)
  have d161: "sub64 (Fin 161) (Fin 1) = Fin 160"
    using sub64_exact [of 161 1] by (simp add: binary64_numeral_small binary64_one binary64_zero)
  have m161: "mul64 (dbl 7795896766843784 21) (Fin 161) = dbl 4902888201022849 29"
    using mul64_dbl_round [of 8 7795896766843784 161 21 4902888201022849]
    by (simp add: round_half_even_def)
  have d160: "sub64 (Fin 160) (Fin 1) = Fin 159"
    using sub64_exact [of 160 1] by (simp add: binary64_numeral_small binary64_one binary64_zero)
  have m160: "mul64 (dbl 4902888201022849 29) (Fin 160) = dbl 6128610251278561 36"
    using mul64_dbl_round [of 7 4902888201022849 160 29 6128610251278561]
    by (simp add: round_half_even_def)
  have d159: "sub64 (Fin 159) (Fin 1) = Fin 158"
    using sub64_exact [of 159 1] by (simp add: binary64_numeral_small binary64_one binary64_zero)
  have m159: "mul64 (dbl 6128610251278561 36) (Fin 159) = dbl 7612883046510087 43"
    using mul64_dbl_round [of 7 6128610251278561 159 36 7612883046510087]
    by (simp add: round_half_even_def)
  have d158: "sub64 (Fin 158) (Fin 1) = Fin 157"
    using sub64_exact [of 158 1] by (simp add: binary64_numeral_small binary64_one binary64_zero)
  have m158: "mul64 (dbl 7612883046510087 43) (Fin 158) = dbl 4698576255267944 51"
    using mul64_dbl_round [of 8 7612883046510087 158 43 4698576255267944]
    by (simp add: round_half_even_def)
  have d157: "sub64 (Fin 157) (Fin 1) = Fin 156"
    using sub64_exact [of 157 1] by (simp add: binary64_numeral_small binary64_one binary64_zero)
  have m157: "mul64 (dbl 4698576255267944 51) (Fin 157) = dbl 5763097438102088 58"
    using mul64_dbl_round [of 7 4698576255267944 157 51 5763097438102088]
    by (simp add: round_half_even_def)
  have d156: "sub64 (Fin 156) (Fin 1) = Fin 155"
    using sub64_exact [of 156 1] by (simp add: binary64_numeral_small binary64_one binary64_zero)
  have m156: "mul64 (dbl 5763097438102088 58) (Fin 156) = dbl 7023775002686920 65"
    using mul64_dbl_round [of 7 5763097438102088 156 58 7023775002686920]
    by (simp add: round_half_even_def)
  have d155: "sub64 (Fin 155) (Fin 1) = Fin 154"
    using sub64_exact [of 155 1] by (simp add: binary64_numeral_small binary64_one binary64_zero)
  have m155: "mul64 (dbl 7023775002686920 65) (Fin 155) = dbl 8505352542316192 72"
    using mul64_dbl_round [of 7 7023775002686920 155 65 8505352542316192]
    by (simp add: round_half_even_def)
  have d154: "sub64 (Fin 154) (Fin 1) = Fin 153"
    using sub64_exact [of 154 1] by (simp add: binary64_numeral_small binary64_one binary64_zero)
  have m154: "mul64 (dbl 8505352542316192 72) (Fin 154) = dbl 5116501138737084 80"
    using mul64_dbl_round [of 8 8505352542316192 154 72 5116501138737084]
    by (simp add: round_half_even_def)
  have d153: "sub64 (Fin 153) (Fin 1) = Fin 152"
    using sub64_exact [of 153 1] by (simp add: binary64_numeral_small binary64_one binary64_zero)
  have m153: "mul64 (dbl 5116501138737084 80) (Fin 153) = dbl 6115817767396671 87"
    using mul64_dbl_round [of 7 5116501138737084 153 80 6115817767396671]
    by (simp add: round_half_even_def)
  have d152: "sub64 (Fin 152) (Fin 1) = Fin 151"
    using sub64_exact [of 152 1] by (simp add: binary64_numeral_small binary64_one binary64_zero)
  have m152: "mul64 (dbl 6115817767396671 87) (Fin 152) = dbl 7262533598783547 94"
    using mul64_dbl_round [of 7 6115817767396671 152 87 7262533598783547]
    by (simp add: round_half_even_def)
  have d151: "sub64 (Fin 151) (Fin 1) = Fin 150"
    using sub64_exact [of 151 1] by (simp add: binary64_numeral_small binary64_one binary64_zero)
  have m151: "mul64 (dbl 7262533598783547 94) (Fin 151) = dbl 8567520104814966 101"
    using mul64_dbl_round [of 7 7262533598783547 151 94 8567520104814966]
    by (simp add: round_half_even_def)
  have d150: "sub64 (Fin 150) (Fin 1) = Fin 149"
    using sub64_exact [of 150 1] by (simp add: binary64_numeral_small binary64_one binary64_zero)
  have m150: "mul64 (dbl 8567520104814966 101) (Fin 150) = dbl 5020031311415019 109"
    using mul64_dbl_round [of 8 8567520104814966 150 101 5020031311415019]
    by (simp add: round_half_even_def)
  have d149: "sub64 (Fin 149) (Fin 1) = Fin 148"
    using sub64_exact [of 149 1] by (simp add: binary64_numeral_small binary64_one binary64_zero)
  have m149: "mul64 (dbl 5020031311415019 109) (Fin 149) = dbl 5843630198444046 116"
    using mul64_dbl_round [of 7 5020031311415019 149 109 5843630198444046]
    by (simp add: round_half_even_def)
  have d148: "sub64 (Fin 148) (Fin 1) = Fin 147"
    using sub64_exact [of 148 1] by (simp add: binary64_numeral_small binary64_one binary64_zero)
  have m148: "mul64 (dbl 5843630198444046 116) (Fin 148) = dbl 6756697416950928 123"
    using mul64_dbl_round [of 7 5843630198444046 148 116 6756697416950928]
    by (simp add: round_half_even_def)
  have d147: "sub64 (Fin 147) (Fin 1) = Fin 146"
    using sub64_exact [of 147 1] by (simp add: binary64_numeral_small binary64_one binary64_zero)
  have m147: "mul64 (dbl 6756697416950928 123) (Fin 147) = dbl 7759644689779581 130"
    using mul64_dbl_round [of 7 6756697416950928 147 123 7759644689779581]
    by (simp add: round_half_even_def)
  have d146: "sub64 (Fin 146) (Fin 1) = Fin 145"
    using sub64_exact [of 146 1] by (simp add: binary64_numeral_small binary64_one binary64_zero)
  have m146: "mul64 (dbl 7759644689779581 130) (Fin 146) = dbl 8850844724279835 137"
    using mul64_dbl_round [of 7 7759644689779581 146 130 8850844724279835]
    by (simp add: round_half_even_def)
  have d145: "sub64 (Fin 145) (Fin 1) = Fin 144"
    using sub64_exact [of 145 1] by (simp add: binary64_numeral_small binary64_one binary64_zero)
  have m145: "mul64 (dbl 8850844724279835 137) (Fin 145) = dbl 5013173769611625 145"
    using mul64_dbl_round [of 8 8850844724279835 145 137 5013173769611625]
    by (simp add: round_half_even_def)
  have d144: "sub64 (Fin 144) (Fin 1) = Fin 143"
    using sub64_exact [of 144 1] by (simp add: binary64_numeral_small binary64_one binary64_zero)
  have m144: "mul64 (dbl 5013173769611625 145) (Fin 144) = dbl 5639820490813078 152"
    using mul64_dbl_round [of 7 5013173769611625 144 145 5639820490813078]
    by (simp add: round_half_even_def)
  have d143: "sub64 (Fin 143) (Fin 1) = Fin 142"
    using sub64_exact [of 143 1] by (simp add: binary64_numeral_small binary64_one binary64_zero)
  have m143: "mul64 (dbl 5639820490813078 152) (Fin 143) = dbl 6300736954580236 159"
    using mul64_dbl_round [of 7 5639820490813078 143 152 6300736954580236]
    by (simp add: round_half_even_def)
  have d142: "sub64 (Fin 142) (Fin 1) = Fin 141"
    using sub64_exact [of 142 1] by (simp add: binary64_numeral_small binary64_one binary64_zero)
  have m142: "mul64 (dbl 6300736954580236 159) (Fin 142) = dbl 6989880058987449 166"
    using mul64_dbl_round [of 7 6300736954580236 142 159 6989880058987449]
    by (simp add: round_half_even_def)
  have d141: "sub64 (Fin 141) (Fin 1) = Fin 140"
    using sub64_exact [of 141 1] by (simp add: binary64_numeral_small binary64_one binary64_zero)
  have m141: "mul64 (dbl 6989880058987449 166) (Fin 141) = dbl 7699789752478362 173"
    using mul64_dbl_round [of 7 6989880058987449 141 166 7699789752478362]
    by (simp add: round_half_even_def)
  have d140: "sub64 (Fin 140) (Fin 1) = Fin 139"
    using sub64_exact [of 140 1] by (simp add: binary64_numeral_small binary64_one binary64_zero)
  have m140: "mul64 (dbl 7699789752478362 173) (Fin 140) = dbl 8421645041773208 180"
    using mul64_dbl_round [of 7 7699789752478362 140 173 8421645041773208]
    by (simp add: round_half_even_def)
  have d139: "sub64 (Fin 139) (Fin 1) = Fin 138"
    using sub64_exact [of 139 1] by (simp add: binary64_numeral_small binary64_one binary64_zero)
  have m139: "mul64 (dbl 8421645041773208 180) (Fin 139) = dbl 4572690081275297 188"
    using mul64_dbl_round [of 8 8421645041773208 139 180 4572690081275297]
    by (simp add: round_half_even_def)
  have d138: "sub64 (Fin 138) (Fin 1) = Fin 137"
    using sub64_exact [of 138 1] by (simp add: binary64_numeral_small binary64_one binary64_zero)
  have m138: "mul64 (dbl 4572690081275297 188) (Fin 138) = dbl 4929931493874930 195"
    using mul64_dbl_round [of 7 4572690081275297 138 188 4929931493874930]
    by (simp add: round_half_even_def)
  have d137: "sub64 (Fin 137) (Fin 1) = Fin 136"
    using sub64_exact [of 137 1] by (simp add: binary64_numeral_small binary64_one binary64_zero)
  have m137: "mul64 (dbl 4929931493874930 195) (Fin 137) = dbl 5276567302038011 202"
    using mul64_dbl_round [of 7 4929931493874930 137 195 5276567302038011]
    by (simp add: round_half_even_def)
  have d136: "sub64 (Fin 136) (Fin 1) = Fin 135"
    using sub64_exact [of 136 1] by (simp add: binary64_numeral_small binary64_one binary64_zero)
  have m136: "mul64 (dbl 5276567302038011 202) (Fin 136) = dbl 5606352758415387 209"
    using mul64_dbl_round [of 7 5276567302038011 136 202 5606352758415387]
    by (simp add: round_half_even_def)
  have d135: "sub64 (Fin 135) (Fin 1) = Fin 134"
    using sub64_exact [of 135 1] by (simp add: binary64_numeral_small binary64_one binary64_zero)
  have m135: "mul64 (dbl 5606352758415387 209) (Fin 135) = dbl 5912950174891228 216"
    using mul64_dbl_round [of 7 5606352758415387 135 209 5912950174891228]
    by (simp add: round_half_even_def)
  have d134: "sub64 (Fin 134) (Fin 1) = Fin 133"
    using sub64_exact [of 134 1] by (simp add: binary64_numeral_small binary64_one binary64_zero)
  have m134: "mul64 (dbl 5912950174891228 216) (Fin 134) = dbl 6190119714339254 223"
    using mul64_dbl_round [of 7 5912950174891228 134 216 6190119714339254]
    by (simp add: round_half_even_def)
  have d133: "sub64 (Fin 133) (Fin 1) = Fin 132"
    using sub64_exact [of 133 1] by (simp add: binary64_numeral_small binary64_one binary64_zero)
  have m133: "mul64 (dbl 6190119714339254 223) (Fin 133) = dbl 6431921265680631 230"
    using mul64_dbl_round [of 7 6190119714339254 133 223 6431921265680631]
    by (simp add: round_half_even_def)
  have d132: "sub64 (Fin 132) (Fin 1) = Fin 131"
    using sub64_exact [of 132 1] by (simp add: binary64_numeral_small binary64_one binary64_zero)
  have m132: "mul64 (dbl 6431921265680631 230) (Fin 132) = dbl 6632918805233151 237"
    using mul64_dbl_round [of 7 6431921265680631 132 230 6632918805233151]
    by (simp add: round_half_even_def)
  have d131: "sub64 (Fin 131) (Fin 1) = Fin 130"
    using sub64_exact [of 131 1] by (simp add: binary64_numeral_small binary64_one binary64_zero)
  have m131: "mul64 (dbl 6632918805233151 237) (Fin 131) = dbl 6788377839730803 244"
    using mul64_dbl_round [of 7 6632918805233151 131 237 6788377839730803]
    by (simp add: round_half_even_def)
  have d130: "sub64 (Fin 130) (Fin 1) = Fin 129"
    using sub64_exact [of 130 1] by (simp add: binary64_numeral_small binary64_one binary64_zero)
  have m130: "mul64 (dbl 6788377839730803 244) (Fin 130) = dbl 6894446243476597 251"
    using mul64_dbl_round [of 7 6788377839730803 130 244 6894446243476597]
    by (simp add: round_half_even_def)
  have d129: "sub64 (Fin 129) (Fin 1) = Fin 128"
    using sub64_exact [of 129 1] by (simp add: binary64_numeral_small binary64_one binary64_zero)
  have m129: "mul64 (dbl 6894446243476597 251) (Fin 129) = dbl 6948309104753758 258"
    using mul64_dbl_round [of 7 6894446243476597 129 251 6948309104753758]
    by (simp add: round_half_even_def)
  have d128: "sub64 (Fin 128) (Fin 1) = Fin 127"
    using sub64_exact [of 128 1] by (simp add: binary64_numeral_small binary64_one binary64_zero)
  have m128: "mul64 (dbl 6948309104753758 258) (Fin 128) = dbl 6948309104753758 265"
    using mul64_dbl_round [of 7 6948309104753758 128 258 6948309104753758]
    by (simp add: round_half_even_def)
  have d127: "sub64 (Fin 127) (Fin 1) = Fin 126"
    using sub64_exact [of 127 1] by (simp add: binary64_numeral_small binary64_one binary64_zero)
  have m127: "mul64 (dbl 6948309104753758 265) (Fin 127) = dbl 6894025439872869 272"
    using mul64_dbl_round [of 7 6948309104753758 127 265 6894025439872869]
    by (simp add: round_half_even_def)
  have d126: "sub64 (Fin 126) (Fin 1) = Fin 125"
    using sub64_exact [of 126 1] by (simp add: binary64_numeral_small binary64_one binary64_zero)
  have m126: "mul64 (dbl 6894025439872869 272) (Fin 126) = dbl 6786306292374855 279"
    using mul64_dbl_round [of 7 6894025439872869 126 272 6786306292374855]
    by (simp add: round_half_even_def)
  have d125: "sub64 (Fin 125) (Fin 1) = Fin 124"
    using sub64_exact [of 125 1] by (simp add: binary64_numeral_small binary64_one binary64_zero)
  have m125: "mul64 (dbl 6786306292374855 279) (Fin 125) = dbl 6627252238647319 286"
    using mul64_dbl_round [of 7 6786306292374855 125 279 6627252238647319]
    by (simp add: round_half_even_def)
  have d124: "sub64 (Fin 124) (Fin 1) = Fin 123"
    using sub64_exact [of 124 1] by (simp add: binary64_numeral_small binary64_one binary64_zero)
  have m124: "mul64 (dbl 6627252238647319 286) (Fin 124) = dbl 6420150606189590 293"
    using mul64_dbl_round [of 7 6627252238647319 124 286 6420150606189590]
    by (simp add: round_half_even_def)
  have d123: "sub64 (Fin 123) (Fin 1) = Fin 122"
    using sub64_exact [of 123 1] by (simp add: binary64_numeral_small binary64_one binary64_zero)
  have m123: "mul64 (dbl 6420150606189590 293) (Fin 123) = dbl 6169363473135309 300"
    using mul64_dbl_round [of 7 6420150606189590 123 293 6169363473135309]
    by (simp add: round_half_even_def)
  have d122: "sub64 (Fin 122) (Fin 1) = Fin 121"
    using sub64_exact [of 122 1] by (simp add: binary64_numeral_small binary64_one binary64_zero)
  have m122: "mul64 (dbl 6169363473135309 300) (Fin 122) = dbl 5880174560332091 307"
    using mul64_dbl_round [of 7 6169363473135309 122 300 5880174560332091]
    by (simp add: round_half_even_def)
  have d121: "sub64 (Fin 121) (Fin 1) = Fin 120"
    using sub64_exact [of 121 1] by (simp add: binary64_numeral_small binary64_one binary64_zero)
  have m121: "mul64 (dbl 5880174560332091 307) (Fin 121) = dbl 5558602514063930 314"
    using mul64_dbl_round [of 7 5880174560332091 121 307 5558602514063930]
    by (simp add: round_half_even_def)
  have d120: "sub64 (Fin 120) (Fin 1) = Fin 119"
    using sub64_exact [of 120 1] by (simp add: binary64_numeral_small binary64_one binary64_zero)
  have m120: "mul64 (dbl 5558602514063930 314) (Fin 120) = dbl 5211189856934934 321"
    using mul64_dbl_round [of 7 5558602514063930 120 314 5211189856934934]
    by (simp add: round_half_even_def)
  have d119: "sub64 (Fin 119) (Fin 1) = Fin 118"
    using sub64_exact [of 119 1] by (simp add: binary64_numeral_small binary64_one binary64_zero)
  have m119: "mul64 (dbl 5211189856934934 321) (Fin 119) = dbl 4844778070119196 328"
    using mul64_dbl_round [of 7 5211189856934934 119 321 4844778070119196]
    by (simp add: round_half_even_def)
  have d118: "sub64 (Fin 118) (Fin 1) = Fin 117"
    using sub64_exact [of 118 1] by (simp add: binary64_numeral_small binary64_one binary64_zero)
  have m118: "mul64 (dbl 4844778070119196 328) (Fin 118) = dbl 8932559566782268 334"
    using mul64_dbl_round [of 6 4844778070119196 118 328 8932559566782268]
    by (simp add: round_half_even_def)
  have d117: "sub64 (Fin 117) (Fin 1) = Fin 116"
    using sub64_exact [of 117 1] by (simp add: binary64_numeral_small binary64_one binary64_zero)
  have m117: "mul64 (dbl 8932559566782268 334) (Fin 117) = dbl 8164917729011917 341"
    using mul64_dbl_round [of 7 8932559566782268 117 334 8164917729011917]
    by (simp add: round_half_even_def)
  have d116: "sub64 (Fin 116) (Fin 1) = Fin 115"
    using sub64_exact [of 116 1] by (simp add: binary64_numeral_small binary64_one binary64_zero)
  have m116: "mul64 (dbl 8164917729011917 341) (Fin 116) = dbl 7399456691917050 348"
    using mul64_dbl_round [of 7 8164917729011917 116 341 7399456691917050]
    by (simp add: round_half_even_def)
  have d115: "sub64 (Fin 115) (Fin 1) = Fin 114"
    using sub64_exact [of 115 1] by (simp add: binary64_numeral_small binary64_one binary64_zero)
  have m115: "mul64 (dbl 7399456691917050 348) (Fin 115) = dbl 6647949371644225 355"
    using mul64_dbl_round [of 7 7399456691917050 115 348 6647949371644225]
    by (simp add: round_half_even_def)
  have d114: "sub64 (Fin 114) (Fin 1) = Fin 113"
    using sub64_exact [of 114 1] by (simp add: binary64_numeral_small binary64_one binary64_zero)
  have m114: "mul64 (dbl 6647949371644225 355) (Fin 114) = dbl 5920829909120638 362"
    using mul64_dbl_round [of 7 6647949371644225 114 355 5920829909120638]
    by (simp add: round_half_even_def)
  have d113: "sub64 (Fin 113) (Fin 1) = Fin 112"
    using sub64_exact [of 113 1] by (simp add: binary64_numeral_small binary64_one binary64_zero)
  have m113: "mul64 (dbl 5920829909120638 362) (Fin 113) = dbl 5226982654145563 369"
    using mul64_dbl_round [of 7 5920829909120638 113 362 5226982654145563]
    by (simp add: round_half_even_def)
  have d112: "sub64 (Fin 112) (Fin 1) = Fin 111"
    using sub64_exact [of 112 1] by (simp add: binary64_numeral_small binary64_one binary64_zero)
  have m112: "mul64 (dbl 5226982654145563 369) (Fin 112) = dbl 4573609822377368 376"
    using mul64_dbl_round [of 7 5226982654145563 112 369 4573609822377368]
    by (simp add: round_half_even_def)
  have d111: "sub64 (Fin 111) (Fin 1) = Fin 110"
    using sub64_exact [of 111 1] by (simp add: binary64_numeral_small binary64_one binary64_zero)
  have m111: "mul64 (dbl 4573609822377368 376) (Fin 111) = dbl 7932354535685748 382"
    using mul64_dbl_round [of 6 4573609822377368 111 376 7932354535685748]
    by (simp add: round_half_even_def)
  have d110: "sub64 (Fin 110) (Fin 1) = Fin 109"
    using sub64_exact [of 110 1] by (simp add: binary64_numeral_small binary64_one binary64_zero)
  have m110: "mul64 (dbl 7932354535685748 382) (Fin 110) = dbl 6816867179104940 389"
    using mul64_dbl_round [of 7 7932354535685748 110 382 6816867179104940]
    by (simp add: round_half_even_def)
  have d109: "sub64 (Fin 109) (Fin 1) = Fin 108"
    using sub64_exact [of 109 1] by (simp add: binary64_numeral_small binary64_one binary64_zero)
  have m109: "mul64 (dbl 6816867179104940 389) (Fin 109) = dbl 5804988457206550 396"
    using mul64_dbl_round [of 7 6816867179104940 109 389 5804988457206550]
    by (simp add: round_half_even_def)
  have d108: "sub64 (Fin 108) (Fin 1) = Fin 107"
    using sub64_exact [of 108 1] by (simp add: binary64_numeral_small binary64_one binary64_zero)
  have m108: "mul64 (dbl 5804988457206550 396) (Fin 108) = dbl 4897959010768027 403"
    using mul64_dbl_round [of 7 5804988457206550 108 396 4897959010768027]
    by (simp add: round_half_even_def)
  have d107: "sub64 (Fin 107) (Fin 1) = Fin 106"
    using sub64_exact [of 107 1] by (simp add: binary64_numeral_small binary64_one binary64_zero)
  have m107: "mul64 (dbl 4897959010768027 403) (Fin 107) = dbl 8188775221127795 409"
    using mul64_dbl_round [of 6 4897959010768027 107 403 8188775221127795]
    by (simp add: round_half_even_def)
  have d106: "sub64 (Fin 106) (Fin 1) = Fin 105"
    using sub64_exact [of 106 1] by (simp add: binary64_numeral_small binary64_one binary64_zero)
  have m106: "mul64 (dbl 8188775221127795 409) (Fin 106) = dbl 6781329479996455 416"
    using mul64_dbl_round [of 7 8188775221127795 106 409 6781329479996455]
    by (simp add: round_half_even_def)
  have d105: "sub64 (Fin 105) (Fin 1) = Fin 104"
    using sub64_exact [of 105 1] by (simp add: binary64_numeral_small binary64_one binary64_zero)
  have m105: "mul64 (dbl 6781329479996455 416) (Fin 105) = dbl 5562809339059592 423"
    using mul64_dbl_round [of 7 6781329479996455 105 416 5562809339059592]
    by (simp add: round_half_even_def)
  have d104: "sub64 (Fin 104) (Fin 1) = Fin 103"
    using sub64_exact [of 104 1] by (simp add: binary64_numeral_small binary64_one binary64_zero)
  have m104: "mul64 (dbl 5562809339059592 423) (Fin 104) = dbl 4519782587985918 430"
    using mul64_dbl_round [of 7 5562809339059592 104 423 4519782587985918]
    by (simp add: round_half_even_def)
  have d103: "sub64 (Fin 103) (Fin 1) = Fin 102"
    using sub64_exact [of 103 1] by (simp add: binary64_numeral_small binary64_one binary64_zero)
  have m103: "mul64 (dbl 4519782587985918 430) (Fin 103) = dbl 7274025102539837 436"
    using mul64_dbl_round [of 6 4519782587985918 103 430 7274025102539837]
    by (simp add: round_half_even_def)
  have d102: "sub64 (Fin 102) (Fin 1) = Fin 101"
    using sub64_exact [of 102 1] by (simp add: binary64_numeral_small binary64_one binary64_zero)
  have m102: "mul64 (dbl 7274025102539837 436) (Fin 102) = dbl 5796488753586433 443"
    using mul64_dbl_round [of 7 7274025102539837 102 436 5796488753586433]
    by (simp add: round_half_even_def)
  have d101: "sub64 (Fin 101) (Fin 1) = Fin 100"
    using sub64_exact [of 101 1] by (simp add: binary64_numeral_small binary64_one binary64_zero)
  have m101: "mul64 (dbl 5796488753586433 443) (Fin 101) = dbl 4573791907126795 450"
    using mul64_dbl_round [of 7 5796488753586433 101 443 4573791907126795]
    by (simp add: round_half_even_def)
  have d100: "sub64 (Fin 100) (Fin 1) = Fin 99"
    using sub64_exact [of 100 1] by (simp add: binary64_numeral_small binary64_one binary64_zero)
  have m100: "mul64 (dbl 4573791907126795 450) (Fin 100) = dbl 7146549854885617 456"
    using mul64_dbl_round [of 6 4573791907126795 100 450 7146549854885617]
    by (simp add: round_half_even_def)
  have d99: "sub64 (Fin 99) (Fin 1) = Fin 98"
    using sub64_exact [of 99 1] by (simp add: binary64_numeral_small binary64_one binary64_zero)
  have m99: "mul64 (dbl 7146549854885617 456) (Fin 99) = dbl 5527409653388094 463"
    using mul64_dbl_round [of 7 7146549854885617 99 456 5527409653388094]
    by (simp add: round_half_even_def)
  have d98: "sub64 (Fin 98) (Fin 1) = Fin 97"
    using sub64_exact [of 98 1] by (simp add: binary64_numeral_small binary64_one binary64_zero)
  have m98: "mul64 (dbl 5527409653388094 463) (Fin 98) = dbl 8463846031750519 469"
    using mul64_dbl_round [of 6 5527409653388094 98 463 8463846031750519]
    by (simp add: round_half_even_def)
  have d97: "sub64 (Fin 97) (Fin 1) = Fin 96"
    using sub64_exact [of 97 1] by (simp add: binary64_numeral_small binary64_one binary64_zero)
  have m97: "mul64 (dbl 8463846031750519 469) (Fin 97) = dbl 6414008320935940 476"
    using mul64_dbl_round [of 7 8463846031750519 97 469 6414008320935940]
    by (simp add: round_half_even_def)
  have d96: "sub64 (Fin 96) (Fin 1) = Fin 95"
    using sub64_exact [of 96 1] by (simp add: binary64_numeral_small binary64_one binary64_zero)
  have m96: "mul64 (dbl 6414008320935940 476) (Fin 96) = dbl 4810506240701955 483"
    using mul64_dbl_round [of 7 6414008320935940 96 476 4810506240701955]
    by (simp add: round_half_even_def)
  have d95: "sub64 (Fin 95) (Fin 1) = Fin 94"
    using sub64_exact [of 95 1] by (simp add: binary64_numeral_small binary64_one binary64_zero)
  have m95: "mul64 (dbl 4810506240701955 483) (Fin 95) = dbl 7140595201041964 489"
    using mul64_dbl_round [of 6 4810506240701955 95 483 7140595201041964]
    by (simp add: round_half_even_def)
  have d94: "sub64 (Fin 94) (Fin 1) = Fin 93"
    using sub64_exact [of 94 1] by (simp add: binary64_numeral_small binary64_one binary64_zero)
  have m94: "mul64 (dbl 7140595201041964 489) (Fin 94) = dbl 5243874600765192 496"
    using mul64_dbl_round [of 7 7140595201041964 94 489 5243874600765192]
    by (simp add: round_half_even_def)
  have d93: "sub64 (Fin 93) (Fin 1) = Fin 92"
    using sub64_exact [of 93 1] by (simp add: binary64_numeral_small binary64_one binary64_zero)
  have m93: "mul64 (dbl 5243874600765192 496) (Fin 93) = dbl 7620005279236920 502"
    using mul64_dbl_round [of 6 5243874600765192 93 496 7620005279236920]
    by (simp add: round_half_even_def)
  have d92: "sub64 (Fin 92) (Fin 1) = Fin 91"
    using sub64_exact [of 92 1] by (simp add: binary64_numeral_small binary64_one binary64_zero)
  have m92: "mul64 (dbl 7620005279236920 502) (Fin 92) = dbl 5476878794451536 509"
    using mul64_dbl_round [of 7 7620005279236920 92 502 5476878794451536]
    by (simp add: round_half_even_def)
  have d91: "sub64 (Fin 91) (Fin 1) = Fin 90"
    using sub64_exact [of 91 1] by (simp add: binary64_numeral_small binary64_one binary64_zero)
  have m91: "mul64 (dbl 5476878794451536 509) (Fin 91) = dbl 7787437035860778 515"
    using mul64_dbl_round [of 6 5476878794451536 91 509 7787437035860778]
    by (simp add: round_half_even_def)
  have d90: "sub64 (Fin 90) (Fin 1) = Fin 89"
    using sub64_exact [of 90 1] by (simp add: binary64_numeral_small binary64_one binary64_zero)
  have m90: "mul64 (dbl 7787437035860778 515) (Fin 90) = dbl 5475541665839610 522"
    using mul64_dbl_round [of 7 7787437035860778 90 515 5475541665839610]
    by (simp add: round_half_even_def)
  have d89: "sub64 (Fin 89) (Fin 1) = Fin 88"
    using sub64_exact [of 89 1] by (simp add: binary64_numeral_small binary64_one binary64_zero)
  have m89: "mul64 (dbl 5475541665839610 522) (Fin 89) = dbl 7614425129058208 528"
    using mul64_dbl_round [of 6 5475541665839610 89 522 7614425129058208]
    by (simp add: round_half_even_def)
  have d88: "sub64 (Fin 88) (Fin 1) = Fin 87"
    using sub64_exact [of 88 1] by (simp add: binary64_numeral_small binary64_one binary64_zero)
  have m88: "mul64 (dbl 7614425129058208 528) (Fin 88) = dbl 5234917276227518 535"
    using mul64_dbl_round [of 7 7614425129058208 88 528 5234917276227518]
    by (simp add: round_half_even_def)
  have d87: "sub64 (Fin 87) (Fin 1) = Fin 86"
    using sub64_exact [of 87 1] by (simp add: binary64_numeral_small binary64_one binary64_zero)
  have m87: "mul64 (dbl 5234917276227518 535) (Fin 87) = dbl 7116215672371782 541"
    using mul64_dbl_round [of 6 5234917276227518 87 535 7116215672371782]
    by (simp add: round_half_even_def)
  have d86: "sub64 (Fin 86) (Fin 1) = Fin 85"
    using sub64_exact [of 86 1] by (simp add: binary64_numeral_small binary64_one binary64_zero)
  have m86: "mul64 (dbl 7116215672371782 541) (Fin 86) = dbl 4781207404874791 548"
    using mul64_dbl_round [of 7 7116215672371782 86 541 4781207404874791]
    by (simp add: round_half_even_def)
  have d85: "sub64 (Fin 85) (Fin 1) = Fin 84"
    using sub64_exact [of 85 1] by (simp add: binary64_numeral_small binary64_one binary64_zero)
  have m85: "mul64 (dbl 4781207404874791 548) (Fin 85) = dbl 6350041084599332 554"
    using mul64_dbl_round [of 6 4781207404874791 85 548 6350041084599332]
    by (simp add: round_half_even_def)
  have d84: "sub64 (Fin 84) (Fin 1) = Fin 83"
    using sub64_exact [of 84 1] by (simp add: binary64_numeral_small binary64_one binary64_zero)
  have m84: "mul64 (dbl 6350041084599332 554) (Fin 84) = dbl 8334428923536623 560"
    using mul64_dbl_round [of 6 6350041084599332 84 554 8334428923536623]
    by (simp add: round_half_even_def)
  have d83: "sub64 (Fin 83) (Fin 1) = Fin 82"
    using sub64_exact [of 83 1] by (simp add: binary64_numeral_small binary64_one binary64_zero)
  have m83: "mul64 (dbl 8334428923536623 560) (Fin 83) = dbl 5404356255105779 567"
    using mul64_dbl_round [of 7 8334428923536623 83 560 5404356255105779]
    by (simp add: round_half_even_def)
  have d82: "sub64 (Fin 82) (Fin 1) = Fin 81"
    using sub64_exact [of 82 1] by (simp add: binary64_numeral_small binary64_one binary64_zero)
  have m82: "mul64 (dbl 5404356255105779 567) (Fin 82) = dbl 6924331451854279 573"
    using mul64_dbl_round [of 6 5404356255105779 82 567 6924331451854279]
    by (simp add: round_half_even_def)
  have d81: "sub64 (Fin 81) (Fin 1) = Fin 80"
    using sub64_exact [of 81 1] by (simp add: binary64_numeral_small binary64_one binary64_zero)
  have m81: "mul64 (dbl 6924331451854279 573) (Fin 81) = dbl 8763606993753072 579"
    using mul64_dbl_round [of 6 6924331451854279 81 573 8763606993753072]
    by (simp add: round_half_even_def)
  have d80: "sub64 (Fin 80) (Fin 1) = Fin 79"
    using sub64_exact [of 80 1] by (simp add: binary64_numeral_small binary64_one binary64_zero)
  have m80: "mul64 (dbl 8763606993753072 579) (Fin 80) = dbl 5477254371095670 586"
    using mul64_dbl_round [of 7 8763606993753072 80 579 5477254371095670]
    by (simp add: round_half_even_def)
  have d79: "sub64 (Fin 79) (Fin 1) = Fin 78"
    using sub64_exact [of 79 1] by (simp add: binary64_numeral_small binary64_one binary64_zero)
  have m79: "mul64 (dbl 5477254371095670 586) (Fin 79) = dbl 6760985864321218 592"
    using mul64_dbl_round [of 6 5477254371095670 79 586 6760985864321218]
    by (simp add: round_half_even_def)
  have d78: "sub64 (Fin 78) (Fin 1) = Fin 77"
    using sub64_exact [of 78 1] by (simp add: binary64_numeral_small binary64_one binary64_zero)
  have m78: "mul64 (dbl 6760985864321218 592) (Fin 78) = dbl 8239951522141484 598"
    using mul64_dbl_round [of 6 6760985864321218 78 592 8239951522141484]
    by (simp add: round_half_even_def)
  have d77: "sub64 (Fin 77) (Fin 1) = Fin 76"
    using sub64_exact [of 77 1] by (simp add: binary64_numeral_small binary64_one binary64_zero)
  have m77: "mul64 (dbl 8239951522141484 598) (Fin 77) = dbl 4956845837538236 605"
    using mul64_dbl_round [of 7 8239951522141484 77 598 4956845837538236]
    by (simp add: round_half_even_def)
  have d76: "sub64 (Fin 76) (Fin 1) = Fin 75"
    using sub64_exact [of 76 1] by (simp add: binary64_numeral_small binary64_one binary64_zero)
  have m76: "mul64 (dbl 4956845837538236 605) (Fin 76) = dbl 5886254432076655 611"
    using mul64_dbl_round [of 6 4956845837538236 76 605 5886254432076655]
    by (simp add: round_half_even_def)
  have d75: "sub64 (Fin 75) (Fin 1) = Fin 74"
    using sub64_exact [of 75 1] by (simp add: binary64_numeral_small binary64_one binary64_zero)
  have m75: "mul64 (dbl 5886254432076655 611) (Fin 75) = dbl 6897954412589830 617"
    using mul64_dbl_round [of 6 5886254432076655 75 611 6897954412589830]
    by (simp add: round_half_even_def)
  have d74: "sub64 (Fin 74) (Fin 1) = Fin 73"
    using sub64_exact [of 74 1] by (simp add: binary64_numeral_small binary64_one binary64_zero)
  have m74: "mul64 (dbl 6897954412589830 617) (Fin 74) = dbl 7975759789556991 623"
    using mul64_dbl_round [of 6 6897954412589830 74 617 7975759789556991]
    by (simp add: round_half_even_def)
  have d73: "sub64 (Fin 73) (Fin 1) = Fin 72"
    using sub64_exact [of 73 1] by (simp add: binary64_numeral_small binary64_one binary64_zero)
  have m73: "mul64 (dbl 7975759789556991 623) (Fin 73) = dbl 4548675504981721 630"
    using mul64_dbl_round [of 7 7975759789556991 73 623 4548675504981721]
    by (simp add: round_half_even_def)
  have d72: "sub64 (Fin 72) (Fin 1) = Fin 71"
    using sub64_exact [of 72 1] by (simp add: binary64_numeral_small binary64_one binary64_zero)
  have m72: "mul64 (dbl 4548675504981721 630) (Fin 72) = dbl 5117259943104436 636"
    using mul64_dbl_round [of 6 4548675504981721 72 630 5117259943104436]
    by (simp add: round_half_even_def)
  have d71: "sub64 (Fin 71) (Fin 1) = Fin 70"
    using sub64_exact [of 71 1] by (simp add: binary64_numeral_small binary64_one binary64_zero)
  have m71: "mul64 (dbl 5117259943104436 636) (Fin 71) = dbl 5676960249381484 642"
    using mul64_dbl_round [of 6 5117259943104436 71 636 5676960249381484]
    by (simp add: round_half_even_def)
  have d70: "sub64 (Fin 70) (Fin 1) = Fin 69"
    using sub64_exact [of 70 1] by (simp add: binary64_numeral_small binary64_one binary64_zero)
  have m70: "mul64 (dbl 5676960249381484 642) (Fin 70) = dbl 6209175272760998 648"
    using mul64_dbl_round [of 6 5676960249381484 70 642 6209175272760998]
    by (simp add: round_half_even_def)
  have d69: "sub64 (Fin 69) (Fin 1) = Fin 68"
    using sub64_exact [of 69 1] by (simp add: binary64_numeral_small binary64_one binary64_zero)
  have m69: "mul64 (dbl 6209175272760998 648) (Fin 69) = dbl 6694267090945451 654"
    using mul64_dbl_round [of 6 6209175272760998 69 648 6694267090945451]
    by (simp add: round_half_even_def)
  have d68: "sub64 (Fin 68) (Fin 1) = Fin 67"
    using sub64_exact [of 68 1] by (simp add: binary64_numeral_small binary64_one binary64_zero)
  have m68: "mul64 (dbl 6694267090945451 654) (Fin 68) = dbl 7112658784129542 660"
    using mul64_dbl_round [of 6 6694267090945451 68 654 7112658784129542]
    by (simp add: round_half_even_def)
  have d67: "sub64 (Fin 67) (Fin 1) = Fin 66"
    using sub64_exact [of 67 1] by (simp add: binary64_numeral_small binary64_one binary64_zero)
  have m67: "mul64 (dbl 7112658784129542 660) (Fin 67) = dbl 7446064664635614 666"
    using mul64_dbl_round [of 6 7112658784129542 67 660 7446064664635614]
    by (simp add: round_half_even_def)
  have d66: "sub64 (Fin 66) (Fin 1) = Fin 65"
    using sub64_exact [of 66 1] by (simp add: binary64_numeral_small binary64_one binary64_zero)
  have m66: "mul64 (dbl 7446064664635614 666) (Fin 66) = dbl 7678754185405477 672"
    using mul64_dbl_round [of 6 7446064664635614 66 666 7678754185405477]
    by (simp add: round_half_even_def)
  have d65: "sub64 (Fin 65) (Fin 1) = Fin 64"
    using sub64_exact [of 65 1] by (simp add: binary64_numeral_small binary64_one binary64_zero)
  have m65: "mul64 (dbl 7678754185405477 672) (Fin 65) = dbl 7798734719552438 678"
    using mul64_dbl_round [of 6 7678754185405477 65 672 7798734719552438]
    by (simp add: round_half_even_def)
  have d64: "sub64 (Fin 64) (Fin 1) = Fin 63"
    using sub64_exact [of 64 1] by (simp add: binary64_numeral_small binary64_one binary64_zero)
  have m64: "mul64 (dbl 7798734719552438 678) (Fin 64) = dbl 7798734719552438 684"
    using mul64_dbl_round [of 6 7798734719552438 64 678 7798734719552438]
    by (simp add: round_half_even_def)
  have d63: "sub64 (Fin 63) (Fin 1) = Fin 62"
    using sub64_exact [of 63 1] by (simp add: binary64_numeral_small binary64_one binary64_zero)
  have m63: "mul64 (dbl 7798734719552438 684) (Fin 63) = dbl 7676879489559431 690"
    using mul64_dbl_round [of 6 7798734719552438 63 684 7676879489559431]
    by (simp add: round_half_even_def)
  have d62: "sub64 (Fin 62) (Fin 1) = Fin 61"
    using sub64_exact [of 62 1] by (simp add: binary64_numeral_small binary64_one binary64_zero)
  have m62: "mul64 (dbl 7676879489559431 690) (Fin 62) = dbl 7436977005510699 696"
    using mul64_dbl_round [of 6 7676879489559431 62 690 7436977005510699]
    by (simp add: round_half_even_def)
  have d61: "sub64 (Fin 61) (Fin 1) = Fin 60"
    using sub64_exact [of 61 1] by (simp add: binary64_numeral_small binary64_one binary64_zero)
  have m61: "mul64 (dbl 7436977005510699 696) (Fin 61) = dbl 7088368708377385 702"
    using mul64_dbl_round [of 6 7436977005510699 61 696 7088368708377385]
    by (simp add: round_half_even_def)
  have d60: "sub64 (Fin 60) (Fin 1) = Fin 59"
    using sub64_exact [of 60 1] by (simp add: binary64_numeral_small binary64_one binary64_zero)
  have m60: "mul64 (dbl 7088368708377385 702) (Fin 60) = dbl 6645345664103798 708"
    using mul64_dbl_round [of 6 7088368708377385 60 702 6645345664103798]
    by (simp add: round_half_even_def)
  have d59: "sub64 (Fin 59) (Fin 1) = Fin 58"
    using sub64_exact [of 59 1] by (simp add: binary64_numeral_small binary64_one binary64_zero)
  have m59: "mul64 (dbl 6645345664103798 708) (Fin 59) = dbl 6126178034095689 714"
    using mul64_dbl_round [of 6 6645345664103798 59 708 6126178034095689]
    by (simp add: round_half_even_def)
  have d58: "sub64 (Fin 58) (Fin 1) = Fin 57"
    using sub64_exact [of 58 1] by (simp add: binary64_numeral_small binary64_one binary64_zero)
  have m58: "mul64 (dbl 6126178034095689 714) (Fin 58) = dbl 5551848843399218 720"
    using mul64_dbl_round [of 6 6126178034095689 58 714 5551848843399218]
    by (simp add: round_half_even_def)
  have d57: "sub64 (Fin 57) (Fin 1) = Fin 56"
    using sub64_exact [of 57 1] by (simp add: binary64_numeral_small binary64_one binary64_zero)
  have m57: "mul64 (dbl 5551848843399218 720) (Fin 57) = dbl 4944615376152429 726"
    using mul64_dbl_round [of 6 5551848843399218 57 720 4944615376152429]
    by (simp add: round_half_even_def)
  have d56: "sub64 (Fin 56) (Fin 1) = Fin 55"
    using sub64_exact [of 56 1] by (simp add: binary64_numeral_small binary64_one binary64_zero)
  have m56: "mul64 (dbl 4944615376152429 726) (Fin 56) = dbl 8653076908266751 731"
    using mul64_dbl_round [of 5 4944615376152429 56 726 8653076908266751]
    by (simp add: round_half_even_def)
  have d55: "sub64 (Fin 55) (Fin 1) = Fin 54"
    using sub64_exact [of 55 1] by (simp add: binary64_numeral_small binary64_one binary64_zero)
  have m55: "mul64 (dbl 8653076908266751 731) (Fin 55) = dbl 7436237968041739 737"
    using mul64_dbl_round [of 6 8653076908266751 55 731 7436237968041739]
    by (simp add: round_half_even_def)
  have d54: "sub64 (Fin 54) (Fin 1) = Fin 53"
    using sub64_exact [of 54 1] by (simp add: binary64_numeral_small binary64_one binary64_zero)
  have m54: "mul64 (dbl 7436237968041739 737) (Fin 54) = dbl 6274325785535217 743"
    using mul64_dbl_round [of 6 7436237968041739 54 737 6274325785535217]
    by (simp add: round_half_even_def)
  have d53: "sub64 (Fin 53) (Fin 1) = Fin 52"
    using sub64_exact [of 53 1] by (simp add: binary64_numeral_small binary64_one binary64_zero)
  have m53: "mul64 (dbl 6274325785535217 743) (Fin 53) = dbl 5195926041146352 749"
    using mul64_dbl_round [of 6 6274325785535217 53 743 5195926041146352]
    by (simp add: round_half_even_def)
  have d52: "sub64 (Fin 52) (Fin 1) = Fin 51"
    using sub64_exact [of 52 1] by (simp add: binary64_numeral_small binary64_one binary64_zero)
  have m52: "mul64 (dbl 5195926041146352 749) (Fin 52) = dbl 8443379816862822 754"
    using mul64_dbl_round [of 5 5195926041146352 52 749 8443379816862822]
    by (simp add: round_half_even_def)
  have d51: "sub64 (Fin 51) (Fin 1) = Fin 50"
    using sub64_exact [of 51 1] by (simp add: binary64_numeral_small binary64_one binary64_zero)
  have m51: "mul64 (dbl 8443379816862822 754) (Fin 51) = dbl 6728318291562561 760"
    using mul64_dbl_round [of 6 8443379816862822 51 754 6728318291562561]
    by (simp add: round_half_even_def)
  have d50: "sub64 (Fin 50) (Fin 1) = Fin 49"
    using sub64_exact [of 50 1] by (simp add: binary64_numeral_small binary64_one binary64_zero)
  have m50: "mul64 (dbl 6728318291562561 760) (Fin 50) = dbl 5256498665283251 766"
    using mul64_dbl_round [of 6 6728318291562561 50 760 5256498665283251]
    by (simp add: round_half_even_def)
  have d49: "sub64 (Fin 49) (Fin 1) = Fin 48"
    using sub64_exact [of 49 1] by (simp add: binary64_numeral_small binary64_one binary64_zero)
  have m49: "mul64 (dbl 5256498665283251 766) (Fin 49) = dbl 8049013581214978 771"
    using mul64_dbl_round [of 5 5256498665283251 49 766 8049013581214978]
    by (simp add: round_half_even_def)
  have d48: "sub64 (Fin 48) (Fin 1) = Fin 47"
    using sub64_exact [of 48 1] by (simp add: binary64_numeral_small binary64_one binary64_zero)
  have m48: "mul64 (dbl 8049013581214978 771) (Fin 48) = dbl 6036760185911234 777"
    using mul64_dbl_round [of 6 8049013581214978 48 771 6036760185911234]
    by (simp add: round_half_even_def)
  have d47: "sub64 (Fin 47) (Fin 1) = Fin 46"
    using sub64_exact [of 47 1] by (simp add: binary64_numeral_small binary64_one binary64_zero)
  have m47: "mul64 (dbl 6036760185911234 777) (Fin 47) = dbl 8866491523057125 782"
    using mul64_dbl_round [of 5 6036760185911234 47 777 8866491523057125]
    by (simp add: round_half_even_def)
  have d46: "sub64 (Fin 46) (Fin 1) = Fin 45"
    using sub64_exact [of 46 1] by (simp add: binary64_numeral_small binary64_one binary64_zero)
  have m46: "mul64 (dbl 8866491523057125 782) (Fin 46) = dbl 6372790782197309 788"
    using mul64_dbl_round [of 6 8866491523057125 46 782 6372790782197309]
    by (simp add: round_half_even_def)
  have d45: "sub64 (Fin 45) (Fin 1) = Fin 44"
    using sub64_exact [of 45 1] by (simp add: binary64_numeral_small binary64_one binary64_zero)
  have m45: "mul64 (dbl 6372790782197309 788) (Fin 45) = dbl 8961737037464966 793"
    using mul64_dbl_round [of 5 6372790782197309 45 788 8961737037464966]
    by (simp add: round_half_even_def)
  have d44: "sub64 (Fin 44) (Fin 1) = Fin 43"
    using sub64_exact [of 44 1] by (simp add: binary64_numeral_small binary64_one binary64_zero)
  have m44: "mul64 (dbl 8961737037464966 793) (Fin 44) = dbl 6161194213257164 799"
    using mul64_dbl_round [of 6 8961737037464966 44 793 6161194213257164]
    by (simp add: round_half_even_def)
  have d43: "sub64 (Fin 43) (Fin 1) = Fin 42"
    using sub64_exact [of 43 1] by (simp add: binary64_numeral_small binary64_one binary64_zero)
  have m43: "mul64 (dbl 6161194213257164 799) (Fin 43) = dbl 8279104724064314 804"
    using mul64_dbl_round [of 5 6161194213257164 43 799 8279104724064314]
    by (simp add: round_half_even_def)
  have d42: "sub64 (Fin 42) (Fin 1) = Fin 41"
    using sub64_exact [of 42 1] by (simp add: binary64_numeral_small binary64_one binary64_zero)
  have m42: "mul64 (dbl 8279104724064314 804) (Fin 42) = dbl 5433162475167206 810"
    using mul64_dbl_round [of 6 8279104724064314 42 804 5433162475167206]
    by (simp add: round_half_even_def)
  have d41: "sub64 (Fin 41) (Fin 1) = Fin 40"
    using sub64_exact [of 41 1] by (simp add: binary64_numeral_small binary64_one binary64_zero)
  have m41: "mul64 (dbl 5433162475167206 810) (Fin 41) = dbl 6961239421307983 815"
    using mul64_dbl_round [of 5 5433162475167206 41 810 6961239421307983]
    by (simp add: round_half_even_def)
  have d40: "sub64 (Fin 40) (Fin 1) = Fin 39"
    using sub64_exact [of 40 1] by (simp add: binary64_numeral_small binary64_one binary64_zero)
  have m40: "mul64 (dbl 6961239421307983 815) (Fin 40) = dbl 8701549276634979 820"
    using mul64_dbl_round [of 5 6961239421307983 40 815 8701549276634979]
    by (simp add: round_half_even_def)
  have d39: "sub64 (Fin 39) (Fin 1) = Fin 38"
    using sub64_exact [of 39 1] by (simp add: binary64_numeral_small binary64_one binary64_zero)
  have m39: "mul64 (dbl 8701549276634979 820) (Fin 39) = dbl 5302506590449440 826"
    using mul64_dbl_round [of 6 8701549276634979 39 820 5302506590449440]
    by (simp add: round_half_even_def)
  have d38: "sub64 (Fin 38) (Fin 1) = Fin 37"
    using sub64_exact [of 38 1] by (simp add: binary64_numeral_small binary64_one binary64_zero)
  have m38: "mul64 (dbl 5302506590449440 826) (Fin 38) = dbl 6296726576158710 831"
    using mul64_dbl_round [of 5 5302506590449440 38 826 6296726576158710]
    by (simp add: round_half_even_def)
  have d37: "sub64 (Fin 37) (Fin 1) = Fin 36"
    using sub64_exact [of 37 1] by (simp add: binary64_numeral_small binary64_one binary64_zero)
  have m37: "mul64 (dbl 6296726576158710 831) (Fin 37) = dbl 7280590103683508 836"
    using mul64_dbl_round [of 5 6296726576158710 37 831 7280590103683508]
    by (simp add: round_half_even_def)
  have d36: "sub64 (Fin 36) (Fin 1) = Fin 35"
    using sub64_exact [of 36 1] by (simp add: binary64_numeral_small binary64_one binary64_zero)
  have m36: "mul64 (dbl 7280590103683508 836) (Fin 36) = dbl 8190663866643946 841"
    using mul64_dbl_round [of 5 7280590103683508 36 836 8190663866643946]
    by (simp add: round_half_even_def)
  have d35: "sub64 (Fin 35) (Fin 1) = Fin 34"
    using sub64_exact [of 35 1] by (simp add: binary64_numeral_small binary64_one binary64_zero)
  have m35: "mul64 (dbl 8190663866643946 841) (Fin 35) = dbl 8958538604141816 846"
    using mul64_dbl_round [of 5 8190663866643946 35 841 8958538604141816]
    by (simp add: round_half_even_def)
  have d34: "sub64 (Fin 34) (Fin 1) = Fin 33"
    using sub64_exact [of 34 1] by (simp add: binary64_numeral_small binary64_one binary64_zero)
  have m34: "mul64 (dbl 8958538604141816 846) (Fin 34) = dbl 4759223633450340 852"
    using mul64_dbl_round [of 6 8958538604141816 34 846 4759223633450340]
    by (simp add: round_half_even_def)
  have d33: "sub64 (Fin 33) (Fin 1) = Fin 32"
    using sub64_exact [of 33 1] by (simp add: binary64_numeral_small binary64_one binary64_zero)
  have m33: "mul64 (dbl 4759223633450340 852) (Fin 33) = dbl 4907949371995663 857"
    using mul64_dbl_round [of 5 4759223633450340 33 852 4907949371995663]
    by (simp add: round_half_even_def)
  have d32: "sub64 (Fin 32) (Fin 1) = Fin 31"
    using sub64_exact [of 32 1] by (simp add: binary64_numeral_small binary64_one binary64_zero)
  have m32: "mul64 (dbl 4907949371995663 857) (Fin 32) = dbl 4907949371995663 862"
    using mul64_dbl_round [of 5 4907949371995663 32 857 4907949371995663]
    by (simp add: round_half_even_def)
  have d31: "sub64 (Fin 31) (Fin 1) = Fin 30"
    using sub64_exact [of 31 1] by (simp add: binary64_numeral_small binary64_one binary64_zero)
  have m31: "mul64 (dbl 4907949371995663 862) (Fin 31) = dbl 4754575954120799 867"
    using mul64_dbl_round [of 5 4907949371995663 31 862 4754575954120799]
    by (simp add: round_half_even_def)
  have d30: "sub64 (Fin 30) (Fin 1) = Fin 29"
    using sub64_exact [of 30 1] by (simp add: binary64_numeral_small binary64_one binary64_zero)
  have m30: "mul64 (dbl 4754575954120799 867) (Fin 30) = dbl 8914829913976498 871"
    using mul64_dbl_round [of 4 4754575954120799 30 867 8914829913976498]
    by (simp add: round_half_even_def)
  have d29: "sub64 (Fin 29) (Fin 1) = Fin 28"
    using sub64_exact [of 29 1] by (simp add: binary64_numeral_small binary64_one binary64_zero)
  have m29: "mul64 (dbl 8914829913976498 871) (Fin 29) = dbl 8079064609541201 876"
    using mul64_dbl_round [of 5 8914829913976498 29 871 8079064609541201]
    by (simp add: round_half_even_def)
  have d28: "sub64 (Fin 28) (Fin 1) = Fin 27"
    using sub64_exact [of 28 1] by (simp add: binary64_numeral_small binary64_one binary64_zero)
  have m28: "mul64 (dbl 8079064609541201 876) (Fin 28) = dbl 7069181533348551 881"
    using mul64_dbl_round [of 5 8079064609541201 28 876 7069181533348551]
    by (simp add: round_half_even_def)
  have d27: "sub64 (Fin 27) (Fin 1) = Fin 26"
    using sub64_exact [of 27 1] by (simp add: binary64_numeral_small binary64_one binary64_zero)
  have m27: "mul64 (dbl 7069181533348551 881) (Fin 27) = dbl 5964621918762840 886"
    using mul64_dbl_round [of 5 7069181533348551 27 881 5964621918762840]
    by (simp add: round_half_even_def)
  have d26: "sub64 (Fin 26) (Fin 1) = Fin 25"
    using sub64_exact [of 26 1] by (simp add: binary64_numeral_small binary64_one binary64_zero)
  have m26: "mul64 (dbl 5964621918762840 886) (Fin 26) = dbl 4846255308994808 891"
    using mul64_dbl_round [of 5 5964621918762840 26 886 4846255308994808]
    by (simp add: round_half_even_def)
  have d25: "sub64 (Fin 25) (Fin 1) = Fin 24"
    using sub64_exact [of 25 1] by (simp add: binary64_numeral_small binary64_one binary64_zero)
  have m25: "mul64 (dbl 4846255308994808 891) (Fin 25) = dbl 7572273920304388 895"
    using mul64_dbl_round [of 4 4846255308994808 25 891 7572273920304388]
    by (simp add: round_half_even_def)
  have d24: "sub64 (Fin 24) (Fin 1) = Fin 23"
    using sub64_exact [of 24 1] by (simp add: binary64_numeral_small binary64_one binary64_zero)
  have m24: "mul64 (dbl 7572273920304388 895) (Fin 24) = dbl 5679205440228291 900"
    using mul64_dbl_round [of 5 7572273920304388 24 895 5679205440228291]
    by (simp add: round_half_even_def)
  have d23: "sub64 (Fin 23) (Fin 1) = Fin 22"
    using sub64_exact [of 23 1] by (simp add: binary64_numeral_small binary64_one binary64_zero)
  have m23: "mul64 (dbl 5679205440228291 900) (Fin 23) = dbl 8163857820328168 904"
    using mul64_dbl_round [of 4 5679205440228291 23 900 8163857820328168]
    by (simp add: round_half_even_def)
  have d22: "sub64 (Fin 22) (Fin 1) = Fin 21"
    using sub64_exact [of 22 1] by (simp add: binary64_numeral_small binary64_one binary64_zero)
  have m22: "mul64 (dbl 8163857820328168 904) (Fin 22) = dbl 5612652251475616 909"
    using mul64_dbl_round [of 5 8163857820328168 22 904 5612652251475616]
    by (simp add: round_half_even_def)
  have d21: "sub64 (Fin 21) (Fin 1) = Fin 20"
    using sub64_exact [of 21 1] by (simp add: binary64_numeral_small binary64_one binary64_zero)
  have m21: "mul64 (dbl 5612652251475616 909) (Fin 21) = dbl 7366606080061746 913"
    using mul64_dbl_round [of 4 5612652251475616 21 909 7366606080061746]
    by (simp add: round_half_even_def)
  have d20: "sub64 (Fin 20) (Fin 1) = Fin 19"
    using sub64_exact [of 20 1] by (simp add: binary64_numeral_small binary64_one binary64_zero)
  have m20: "mul64 (dbl 7366606080061746 913) (Fin 20) = dbl 4604128800038591 918"
    using mul64_dbl_round [of 5 7366606080061746 20 913 4604128800038591]
    by (simp add: round_half_even_def)
  have d19: "sub64 (Fin 19) (Fin 1) = Fin 18"
    using sub64_exact [of 19 1] by (simp add: binary64_numeral_small binary64_one binary64_zero)
  have m19: "mul64 (dbl 4604128800038591 918) (Fin 19) = dbl 5467402950045827 922"
    using mul64_dbl_round [of 4 4604128800038591 19 918 5467402950045827]
    by (simp add: round_half_even_def)
  have d18: "sub64 (Fin 18) (Fin 1) = Fin 17"
    using sub64_exact [of 18 1] by (simp add: binary64_numeral_small binary64_one binary64_zero)
  have m18: "mul64 (dbl 5467402950045827 922) (Fin 18) = dbl 6150828318801555 926"
    using mul64_dbl_round [of 4 5467402950045827 18 922 6150828318801555]
    by (simp add: round_half_even_def)
  have d17: "sub64 (Fin 17) (Fin 1) = Fin 16"
    using sub64_exact [of 17 1] by (simp add: binary64_numeral_small binary64_one binary64_zero)
  have m17: "mul64 (dbl 6150828318801555 926) (Fin 17) = dbl 6535255088726652 930"
    using mul64_dbl_round [of 4 6150828318801555 17 926 6535255088726652]
    by (simp add: round_half_even_def)
  have d16: "sub64 (Fin 16) (Fin 1) = Fin 15"
    using sub64_exact [of 16 1] by (simp add: binary64_numeral_small binary64_one binary64_zero)
  have m16: "mul64 (dbl 6535255088726652 930) (Fin 16) = dbl 6535255088726652 934"
    using mul64_dbl_round [of 4 6535255088726652 16 930 6535255088726652]
    by (simp add: round_half_even_def)
  have d15: "sub64 (Fin 15) (Fin 1) = Fin 14"
    using sub64_exact [of 15 1] by (simp add: binary64_numeral_small binary64_one binary64_zero)
  have m15: "mul64 (dbl 6535255088726652 934) (Fin 15) = dbl 6126801645681236 938"
    using mul64_dbl_round [of 4 6535255088726652 15 934 6126801645681236]
    by (simp add: round_half_even_def)
  have d14: "sub64 (Fin 14) (Fin 1) = Fin 13"
    using sub64_exact [of 14 1] by (simp add: binary64_numeral_small binary64_one binary64_zero)
  have m14: "mul64 (dbl 6126801645681236 938) (Fin 14) = dbl 5360951439971082 942"
    using mul64_dbl_round [of 4 6126801645681236 14 938 5360951439971082]
    by (simp add: round_half_even_def)
  have d13: "sub64 (Fin 13) (Fin 1) = Fin 12"
    using sub64_exact [of 13 1] by (simp add: binary64_numeral_small binary64_one binary64_zero)
  have m13: "mul64 (dbl 5360951439971082 942) (Fin 13) = dbl 8711546089953008 945"
    using mul64_dbl_round [of 3 5360951439971082 13 942 8711546089953008]
    by (simp add: round_half_even_def)
  have d12: "sub64 (Fin 12) (Fin 1) = Fin 11"
    using sub64_exact [of 12 1] by (simp add: binary64_numeral_small binary64_one binary64_zero)
  have m12: "mul64 (dbl 8711546089953008 945) (Fin 12) = dbl 6533659567464756 949"
    using mul64_dbl_round [of 4 8711546089953008 12 945 6533659567464756]
    by (simp add: round_half_even_def)
  have d11: "sub64 (Fin 11) (Fin 1) = Fin 10"
    using sub64_exact [of 11 1] by (simp add: binary64_numeral_small binary64_one binary64_zero)
  have m11: "mul64 (dbl 6533659567464756 949) (Fin 11) = dbl 8983781905264040 952"
    using mul64_dbl_round [of 3 6533659567464756 11 949 8983781905264040]
    by (simp add: round_half_even_def)
  have d10: "sub64 (Fin 10) (Fin 1) = Fin 9"
    using sub64_exact [of 10 1] by (simp add: binary64_numeral_small binary64_one binary64_zero)
  have m10: "mul64 (dbl 8983781905264040 952) (Fin 10) = dbl 5614863690790025 956"
    using mul64_dbl_round [of 4 8983781905264040 10 952 5614863690790025]
    by (simp add: round_half_even_def)
  have d9: "sub64 (Fin 9) (Fin 1) = Fin 8"
    using sub64_exact [of 9 1] by (simp add: binary64_numeral_small binary64_one binary64_zero)
  have m9: "mul64 (dbl 5614863690790025 956) (Fin 9) = dbl 6316721652138778 959"
    using mul64_dbl_round [of 3 5614863690790025 9 956 6316721652138778]
    by (simp add: round_half_even_def)
  have d8: "sub64 (Fin 8) (Fin 1) = Fin 7"
    using sub64_exact [of 8 1] by (simp add: binary64_numeral_small binary64_one binary64_zero)
  have m8: "mul64 (dbl 6316721652138778 959) (Fin 8) = dbl 6316721652138778 962"
    using mul64_dbl_round [of 3 6316721652138778 8 959 6316721652138778]
    by (simp add: round_half_even_def)
  have d7: "sub64 (Fin 7) (Fin 1) = Fin 6"
    using sub64_exact [of 7 1] by (simp add: binary64_numeral_small binary64_one binary64_zero)
  have m7: "mul64 (dbl 6316721652138778 962) (Fin 7) = dbl 5527131445621431 965"
    using mul64_dbl_round [of 3 6316721652138778 7 962 5527131445621431]
    by (simp add: round_half_even_def)
  have d6: "sub64 (Fin 6) (Fin 1) = Fin 5"
    using sub64_exact [of 6 1] by (simp add: binary64_numeral_small binary64_one binary64_zero)
  have m6: "mul64 (dbl 5527131445621431 965) (Fin 6) = dbl 8290697168432146 967"
    using mul64_dbl_round [of 2 5527131445621431 6 965 8290697168432146]
    by (simp add: round_half_even_def)
  have d5: "sub64 (Fin 5) (Fin 1) = Fin 4"
    using sub64_exact [of 5 1] by (simp add: binary64_numeral_small binary64_one binary64_zero)
  have m5: "mul64 (dbl 8290697168432146 967) (Fin 5) = dbl 5181685730270091 970"
    using mul64_dbl_round [of 3 8290697168432146 5 967 5181685730270091]
    by (simp add: round_half_even_def)
  have d4: "sub64 (Fin 4) (Fin 1) = Fin 3"
    using sub64_exact [of 4 1] by (simp add: binary64_numeral_small binary64_one binary64_zero)
  have m4: "mul64 (dbl 5181685730270091 970) (Fin 4) = PInf"
    using mul64_dbl_overflow [of 2 5181685730270091 4 970 5181685730270091]
    by (simp add: round_half_even_def)
  have d3: "sub64 (Fin 3) (Fin 1) = Fin 2"
    using sub64_exact [of 3 1] by (simp add: binary64_numeral_small binary64_one binary64_zero)
  have m3: "mul64 PInf (Fin 3) = PInf"
    by (rule mul64_PInf) simp
  have d2: "sub64 (Fin 2) (Fin 1) = Fin 1"
    using sub64_exact [of 2 1] by (simp add: binary64_numeral_small binary64_one binary64_zero)
  have m2: "mul64 PInf (Fin 2) = PInf"
    by (rule mul64_PInf) simp
  have d1: "sub64 (Fin 1) (Fin 1) = Fin 0"
    using sub64_exact [of 1 1] by (simp add: binary64_numeral_small binary64_one binary64_zero)
  have m1: "mul64 PInf (Fin 1) = PInf"
    by (rule mul64_PInf) simp
  have "Fin 1 = dbl 1 0" by (simp add: dbl_def)
  then have "factorial_loop64 (Fin 171) (Fin 1) = factorial_loop64 (Fin 171) (dbl 1 0)" by simp
  also have "\<dots> = factorial_loop64 (Fin 170) (dbl 171 0)"
    by (rule factorial_loop64_step [OF _ d171 m171]) simp
  also have "\<dots> = factorial_loop64 (Fin 169) (dbl 29070 0)"
    by (rule factorial_loop64_step [OF _ d170 m170]) simp
  also have "\<dots> = factorial_loop64 (Fin 168) (dbl 4912830 0)"
    by (rule factorial_loop64_step [OF _ d169 m169]) simp
  also have "\<dots> = factorial_loop64 (Fin 167) (dbl 825355440 0)"
    by (rule factorial_loop64_step [OF _ d168 m168]) simp
  also have "\<dots> = factorial_loop64 (Fin 166) (dbl 137834358480 0)"
    by (rule factorial_loop64_step [OF _ d167 m167]) simp
  also have "\<dots> = factorial_loop64 (Fin 165) (dbl 22880503507680 0)"
    by (rule factorial_loop64_step [OF _ d166 m166]) simp
  also have "\<dots> = factorial_loop64 (Fin 164) (dbl 3775283078767200 0)"
    by (rule factorial_loop64_step [OF _ d165 m165]) simp
  also have "\<dots> = factorial_loop64 (Fin 163) (dbl 4837081444670475 7)"
    by (rule factorial_loop64_step [OF _ d164 m164]) simp
  also have "\<dots> = factorial_loop64 (Fin 162) (dbl 6159720902197558 14)"
    by (rule factorial_loop64_step [OF _ d163 m163]) simp
  also have "\<dots> = factorial_loop64 (Fin 161) (dbl 7795896766843784 21)"
    by (rule factorial_loop64_step [OF _ d162 m162]) simp
  also have "\<dots> = factorial_loop64 (Fin 160) (dbl 4902888201022849 29)"
    by (rule factorial_loop64_step [OF _ d161 m161]) simp
  also have "\<dots> = factorial_loop64 (Fin 159) (dbl 6128610251278561 36)"
    by (rule factorial_loop64_step [OF _ d160 m160]) simp
  also have "\<dots> = factorial_loop64 (Fin 158) (dbl 7612883046510087 43)"
    by (rule factorial_loop64_step [OF _ d159 m159]) simp
  also have "\<dots> = factorial_loop64 (Fin 157) (dbl 4698576255267944 51)"
    by (rule factorial_loop64_step [OF _ d158 m158]) simp
  also have "\<dots> = factorial_loop64 (Fin 156) (dbl 5763097438102088 58)"
    by (rule factorial_loop64_step [OF _ d157 m157]) simp
  also have "\<dots> = factorial_loop64 (Fin 155) (dbl 7023775002686920 65)"
    by (rule factorial_loop64_step [OF _ d156 m156]) simp
  also have "\<dots> = factorial_loop64 (Fin 154) (dbl 8505352542316192 72)"
    by (rule factorial_loop64_step [OF _ d155 m155]) simp
  also have "\<dots> = factorial_loop64 (Fin 153) (dbl 5116501138737084 80)"
    by (rule factorial_loop64_step [OF _ d154 m154]) simp
  also have "\<dots> = factorial_loop64 (Fin 152) (dbl 6115817767396671 87)"
    by (rule factorial_loop64_step [OF _ d153 m153]) simp
  also have "\<dots> = factorial_loop64 (Fin 151) (dbl 7262533598783547 94)"
    by (rule factorial_loop64_step [OF _ d152 m152]) simp
  also have "\<dots> = factorial_loop64 (Fin 150) (dbl 8567520104814966 101)"
    by (rule factorial_loop64_step [OF _ d151 m151]) simp
  also have "\<dots> = factorial_loop64 (Fin 149) (dbl 5020031311415019 109)"
    by (rule factorial_loop64_step [OF _ d150 m150]) simp
  also have "\<dots> = factorial_loop64 (Fin 148) (dbl 5843630198444046 116)"
    by (rule factorial_loop64_step [OF _ d149 m149]) simp
  also have "\<dots> = factorial_loop64 (Fin 147) (dbl 6756697416950928 123)"
    by (rule factorial_loop64_step [OF _ d148 m148]) simp
  also have "\<dots> = factorial_loop64 (Fin 146) (dbl 7759644689779581 130)"
    by (rule factorial_loop64_step [OF _ d147 m147]) simp
  also have "\<dots> = factorial_loop64 (Fin 145) (dbl 8850844724279835 137)"
    by (rule factorial_loop64_step [OF _ d146 m146]) simp
  also have "\<dots> = factorial_loop64 (Fin 144) (dbl 5013173769611625 145)"
    by (rule factorial_loop64_step [OF _ d145 m145]) simp
  also have "\<dots> = factorial_loop64 (Fin 143) (dbl 5639820490813078 152)"
    by (rule factorial_loop64_step [OF _ d144 m144]) simp
  also have "\<dots> = factorial_loop64 (Fin 142) (dbl 6300736954580236 159)"
    by (rule factorial_loop64_step [OF _ d143 m143]) simp
  also have "\<dots> = factorial_loop64 (Fin 141) (dbl 6989880058987449 166)"
    by (rule factorial_loop64_step [OF _ d142 m142]) simp
  also have "\<dots> = factorial_loop64 (Fin 140) (dbl 7699789752478362 173)"
    by (rule factorial_loop64_step [OF _ d141 m141]) simp
  also have "\<dots> = factorial_loop64 (Fin 139) (dbl 8421645041773208 180)"
    by (rule factorial_loop64_step [OF _ d140 m140]) simp
  also have "\<dots> = factorial_loop64 (Fin 138) (dbl 4572690081275297 188)"
    by (rule factorial_loop64_step [OF _ d139 m139]) simp
  also have "\<dots> = factorial_loop64 (Fin 137) (dbl 4929931493874930 195)"
    by (rule factorial_loop64_step [OF _ d138 m138]) simp
  also have "\<dots> = factorial_loop64 (Fin 136) (dbl 5276567302038011 202)"
    by (rule factorial_loop64_step [OF _ d137 m137]) simp
  also have "\<dots> = factorial_loop64 (Fin 135) (dbl 5606352758415387 209)"
    by (rule factorial_loop64_step [OF _ d136 m136]) simp
  also have "\<dots> = factorial_loop64 (Fin 134) (dbl 5912950174891228 216)"
    by (rule factorial_loop64_step [OF _ d135 m135]) simp
  also have "\<dots> = factorial_loop64 (Fin 133) (dbl 6190119714339254 223)"
    by (rule factorial_loop64_step [OF _ d134 m134]) simp
  also have "\<dots> = factorial_loop64 (Fin 132) (dbl 6431921265680631 230)"
    by (rule factorial_loop64_step [OF _ d133 m133]) simp
  also have "\<dots> = factorial_loop64 (Fin 131) (dbl 6632918805233151 237)"
    by (rule factorial_loop64_step [OF _ d132 m132]) simp
  also have "\<dots> = factorial_loop64 (Fin 130) (dbl 6788377839730803 244)"
    by (rule factorial_loop64_step [OF _ d131 m131]) simp
  also have "\<dots> = factorial_loop64 (Fin 129) (dbl 6894446243476597 251)"
    by (rule factorial_loop64_step [OF _ d130 m130]) simp
  also have "\<dots> = factorial_loop64 (Fin 128) (dbl 6948309104753758 258)"
    by (rule factorial_loop64_step [OF _ d129 m129]) simp
  also have "\<dots> = factorial_loop64 (Fin 127) (dbl 6948309104753758 265)"
    by (rule factorial_loop64_step [OF _ d128 m128]) simp
  also have "\<dots> = factorial_loop64 (Fin 126) (dbl 6894025439872869 272)"
    by (rule factorial_loop64_step [OF _ d127 m127]) simp
  also have "\<dots> = factorial_loop64 (Fin 125) (dbl 6786306292374855 279)"
    by (rule factorial_loop64_step [OF _ d126 m126]) simp
  also have "\<dots> = factorial_loop64 (Fin 124) (dbl 6627252238647319 286)"
    by (rule factorial_loop64_step [OF _ d125 m125]) simp
  also have "\<dots> = factorial_loop64 (Fin 123) (dbl 6420150606189590 293)"
    by (rule factorial_loop64_step [OF _ d124 m124]) simp
  also have "\<dots> = factorial_loop64 (Fin 122) (dbl 6169363473135309 300)"
    by (rule factorial_loop64_step [OF _ d123 m123]) simp
  also have "\<dots> = factorial_loop64 (Fin 121) (dbl 5880174560332091 307)"
    by (rule factorial_loop64_step [OF _ d122 m122]) simp
  also have "\<dots> = factorial_loop64 (Fin 120) (dbl 5558602514063930 314)"
    by (rule factorial_loop64_step [OF _ d121 m121]) simp
  also have "\<dots> = factorial_loop64 (Fin 119) (dbl 5211189856934934 321)"
    by (rule factorial_loop64_step [OF _ d120 m120]) simp
  also have "\<dots> = factorial_loop64 (Fin 118) (dbl 4844778070119196 328)"
    by (rule factorial_loop64_step [OF _ d119 m119]) simp
  also have "\<dots> = factorial_loop64 (Fin 117) (dbl 8932559566782268 334)"
    by (rule factorial_loop64_step [OF _ d118 m118]) simp
  also have "\<dots> = factorial_loop64 (Fin 116) (dbl 8164917729011917 341)"
    by (rule factorial_loop64_step [OF _ d117 m117]) simp
  also have "\<dots> = factorial_loop64 (Fin 115) (dbl 7399456691917050 348)"
    by (rule factorial_loop64_step [OF _ d116 m116]) simp
  also have "\<dots> = factorial_loop64 (Fin 114) (dbl 6647949371644225 355)"
    by (rule factorial_loop64_step [OF _ d115 m115]) simp
  also have "\<dots> = factorial_loop64 (Fin 113) (dbl 5920829909120638 362)"
    by (rule factorial_loop64_step [OF _ d114 m114]) simp
  also have "\<dots> = factorial_loop64 (Fin 112) (dbl 5226982654145563 369)"
    by (rule factorial_loop64_step [OF _ d113 m113]) simp
  also have "\<dots> = factorial_loop64 (Fin 111) (dbl 4573609822377368 376)"
    by (rule factorial_loop64_step [OF _ d112 m112]) simp
  also have "\<dots> = factorial_loop64 (Fin 110) (dbl 7932354535685748 382)"
    by (rule factorial_loop64_step [OF _ d111 m111]) simp
  also have "\<dots> = factorial_loop64 (Fin 109) (dbl 6816867179104940 389)"
    by (rule factorial_loop64_step [OF _ d110 m110]) simp
  also have "\<dots> = factorial_loop64 (Fin 108) (dbl 5804988457206550 396)"
    by (rule factorial_loop64_step [OF _ d109 m109]) simp
  also have "\<dots> = factorial_loop64 (Fin 107) (dbl 4897959010768027 403)"
    by (rule factorial_loop64_step [OF _ d108 m108]) simp
  also have "\<dots> = factorial_loop64 (Fin 106) (dbl 8188775221127795 409)"
    by (rule factorial_loop64_step [OF _ d107 m107]) simp
  also have "\<dots> = factorial_loop64 (Fin 105) (dbl 6781329479996455 416)"
    by (rule factorial_loop64_step [OF _ d106 m106]) simp
  also have "\<dots> = factorial_loop64 (Fin 104) (dbl 5562809339059592 423)"
    by (rule factorial_loop64_step [OF _ d105 m105]) simp
  also have "\<dots> = factorial_loop64 (Fin 103) (dbl 4519782587985918 430)"
    by (rule factorial_loop64_step [OF _ d104 m104]) simp
  also have "\<dots> = factorial_loop64 (Fin 102) (dbl 7274025102539837 436)"
    by (rule factorial_loop64_step [OF _ d103 m103]) simp
  also have "\<dots> = factorial_loop64 (Fin 101) (dbl 5796488753586433 443)"
    by (rule factorial_loop64_step [OF _ d102 m102]) simp
  also have "\<dots> = factorial_loop64 (Fin 100) (dbl 4573791907126795 450)"
    by (rule factorial_loop64_step [OF _ d101 m101]) simp
  also have "\<dots> = factorial_loop64 (Fin 99) (dbl 7146549854885617 456)"
    by (rule factorial_loop64_step [OF _ d100 m100]) simp
  also have "\<dots> = factorial_loop64 (Fin 98) (dbl 5527409653388094 463)"
    by (rule factorial_loop64_step [OF _ d99 m99]) simp
  also have "\<dots> = factorial_loop64 (Fin 97) (dbl 8463846031750519 469)"
    by (rule factorial_loop64_step [OF _ d98 m98]) simp
  also have "\<dots> = factorial_loop64 (Fin 96) (dbl 6414008320935940 476)"
    by (rule factorial_loop64_step [OF _ d97 m97]) simp
  also have "\<dots> = factorial_loop64 (Fin 95) (dbl 4810506240701955 483)"
    by (rule factorial_loop64_step [OF _ d96 m96]) simp
  also have "\<dots> = factorial_loop64 (Fin 94) (dbl 7140595201041964 489)"
    by (rule factorial_loop64_step [OF _ d95 m95]) simp
  also have "\<dots> = factorial_loop64 (Fin 93) (dbl 5243874600765192 496)"
    by (rule factorial_loop64_step [OF _ d94 m94]) simp
  also have "\<dots> = factorial_loop64 (Fin 92) (dbl 7620005279236920 502)"
    by (rule factorial_loop64_step [OF _ d93 m93]) simp
  also have "\<dots> = factorial_loop64 (Fin 91) (dbl 5476878794451536 509)"
    by (rule factorial_loop64_step [OF _ d92 m92]) simp
  also have "\<dots> = factorial_loop64 (Fin 90) (dbl 7787437035860778 515)"
    by (rule factorial_loop64_step [OF _ d91 m91]) simp
  also have "\<dots> = factorial_loop64 (Fin 89) (dbl 5475541665839610 522)"
    by (rule factorial_loop64_step [OF _ d90 m90]) simp
  also have "\<dots> = factorial_loop64 (Fin 88) (dbl 7614425129058208 528)"
    by (rule factorial_loop64_step [OF _ d89 m89]) simp
  also have "\<dots> = factorial_loop64 (Fin 87) (dbl 5234917276227518 535)"
    by (rule factorial_loop64_step [OF _ d88 m88]) simp
  also have "\<dots> = factorial_loop64 (Fin 86) (dbl 7116215672371782 541)"
    by (rule factorial_loop64_step [OF _ d87 m87]) simp
  also have "\<dots> = factorial_loop64 (Fin 85) (dbl 4781207404874791 548)"
    by (rule factorial_loop64_step [OF _ d86 m86]) simp
  also have "\<dots> = factorial_loop64 (Fin 84) (dbl 6350041084599332 554)"
    by (rule factorial_loop64_step [OF _ d85 m85]) simp
  also have "\<dots> = factorial_loop64 (Fin 83) (dbl 8334428923536623 560)"
    by (rule factorial_loop64_step [OF _ d84 m84]) simp
  also have "\<dots> = factorial_loop64 (Fin 82) (dbl 5404356255105779 567)"
    by (rule factorial_loop64_step [OF _ d83 m83]) simp
  also have "\<dots> = factorial_loop64 (Fin 81) (dbl 6924331451854279 573)"
    by (rule factorial_loop64_step [OF _ d82 m82]) simp
  also have "\<dots> = factorial_loop64 (Fin 80) (dbl 8763606993753072 579)"
    by (rule factorial_loop64_step [OF _ d81 m81]) simp
  also have "\<dots> = factorial_loop64 (Fin 79) (dbl 5477254371095670 586)"
    by (rule factorial_loop64_step [OF _ d80 m80]) simp
  also have "\<dots> = factorial_loop64 (Fin 78) (dbl 6760985864321218 592)"
    by (rule factorial_loop64_step [OF _ d79 m79]) simp
  also have "\<dots> = factorial_loop64 (Fin 77) (dbl 8239951522141484 598)"
    by (rule factorial_loop64_step [OF _ d78 m78]) simp
  also have "\<dots> = factorial_loop64 (Fin 76) (dbl 4956845837538236 605)"
    by (rule factorial_loop64_step [OF _ d77 m77]) simp
  also have "\<dots> = factorial_loop64 (Fin 75) (dbl 5886254432076655 611)"
    by (rule factorial_loop64_step [OF _ d76 m76]) simp
  also have "\<dots> = factorial_loop64 (Fin 74) (dbl 6897954412589830 617)"
    by (rule factorial_loop64_step [OF _ d75 m75]) simp
  also have "\<dots> = factorial_loop64 (Fin 73) (dbl 7975759789556991 623)"
    by (rule factorial_loop64_step [OF _ d74 m74]) simp
  also have "\<dots> = factorial_loop64 (Fin 72) (dbl 4548675504981721 630)"
    by (rule factorial_loop64_step [OF _ d73 m73]) simp
  also have "\<dots> = factorial_loop64 (Fin 71) (dbl 5117259943104436 636)"
    by (rule factorial_loop64_step [OF _ d72 m72]) simp
  also have "\<dots> = factorial_loop64 (Fin 70) (dbl 5676960249381484 642)"
    by (rule factorial_loop64_step [OF _ d71 m71]) simp
  also have "\<dots> = factorial_loop64 (Fin 69) (dbl 6209175272760998 648)"
    by (rule factorial_loop64_step [OF _ d70 m70]) simp
  also have "\<dots> = factorial_loop64 (Fin 68) (dbl 6694267090945451 654)"
    by (rule factorial_loop64_step [OF _ d69 m69]) simp
  also have "\<dots> = factorial_loop64 (Fin 67) (dbl 7112658784129542 660)"
    by (rule factorial_loop64_step [OF _ d68 m68]) simp
  also have "\<dots> = factorial_loop64 (Fin 66) (dbl 7446064664635614 666)"
    by (rule factorial_loop64_step [OF _ d67 m67]) simp
  also have "\<dots> = factorial_loop64 (Fin 65) (dbl 7678754185405477 672)"
    by (rule factorial_loop64_step [OF _ d66 m66]) simp
  also have "\<dots> = factorial_loop64 (Fin 64) (dbl 7798734719552438 678)"
    by (rule factorial_loop64_step [OF _ d65 m65]) simp
  also have "\<dots> = factorial_loop64 (Fin 63) (dbl 7798734719552438 684)"
    by (rule factorial_loop64_step [OF _ d64 m64]) simp
  also have "\<dots> = factorial_loop64 (Fin 62) (dbl 7676879489559431 690)"
    by (rule factorial_loop64_step [OF _ d63 m63]) simp
  also have "\<dots> = factorial_loop64 (Fin 61) (dbl 7436977005510699 696)"
    by (rule factorial_loop64_step [OF _ d62 m62]) simp
  also have "\<dots> = factorial_loop64 (Fin 60) (dbl 7088368708377385 702)"
    by (rule factorial_loop64_step [OF _ d61 m61]) simp
  also have "\<dots> = factorial_loop64 (Fin 59) (dbl 6645345664103798 708)"
    by (rule factorial_loop64_step [OF _ d60 m60]) simp
  also have "\<dots> = factorial_loop64 (Fin 58) (dbl 6126178034095689 714)"
    by (rule factorial_loop64_step [OF _ d59 m59]) simp
  also have "\<dots> = factorial_loop64 (Fin 57) (dbl 5551848843399218 720)"
    by (rule factorial_loop64_step [OF _ d58 m58]) simp
  also have "\<dots> = factorial_loop64 (Fin 56) (dbl 4944615376152429 726)"
    by (rule factorial_loop64_step [OF _ d57 m57]) simp
  also have "\<dots> = factorial_loop64 (Fin 55) (dbl 8653076908266751 731)"
    by (rule factorial_loop64_step [OF _ d56 m56]) simp
  also have "\<dots> = factorial_loop64 (Fin 54) (dbl 7436237968041739 737)"
    by (rule factorial_loop64_step [OF _ d55 m55]) simp
  also have "\<dots> = factorial_loop64 (Fin 53) (dbl 6274325785535217 743)"
    by (rule factorial_loop64_step [OF _ d54 m54]) simp
  also have "\<dots> = factorial_loop64 (Fin 52) (dbl 5195926041146352 749)"
    by (rule factorial_loop64_step [OF _ d53 m53]) simp
  also have "\<dots> = factorial_loop64 (Fin 51) (dbl 8443379816862822 754)"
    by (rule factorial_loop64_step [OF _ d52 m52]) simp
  also have "\<dots> = factorial_loop64 (Fin 50) (dbl 6728318291562561 760)"
    by (rule factorial_loop64_step [OF _ d51 m51]) simp
  also have "\<dots> = factorial_loop64 (Fin 49) (dbl 5256498665283251 766)"
    by (rule factorial_loop64_step [OF _ d50 m50]) simp
  also have "\<dots> = factorial_loop64 (Fin 48) (dbl 8049013581214978 771)"
    by (rule factorial_loop64_step [OF _ d49 m49]) simp
  also have "\<dots> = factorial_loop64 (Fin 47) (dbl 6036760185911234 777)"
    by (rule factorial_loop64_step [OF _ d48 m48]) simp
  also have "\<dots> = factorial_loop64 (Fin 46) (dbl 8866491523057125 782)"
    by (rule factorial_loop64_step [OF _ d47 m47]) simp
  also have "\<dots> = factorial_loop64 (Fin 45) (dbl 6372790782197309 788)"
    by (rule factorial_loop64_step [OF _ d46 m46]) simp
  also have "\<dots> = factorial_loop64 (Fin 44) (dbl 8961737037464966 793)"
    by (rule factorial_loop64_step [OF _ d45 m45]) simp
  also have "\<dots> = factorial_loop64 (Fin 43) (dbl 6161194213257164 799)"
    by (rule factorial_loop64_step [OF _ d44 m44]) simp
  also have "\<dots> = factorial_loop64 (Fin 42) (dbl 8279104724064314 804)"
    by (rule factorial_loop64_step [OF _ d43 m43]) simp
  also have "\<dots> = factorial_loop64 (Fin 41) (dbl 5433162475167206 810)"
    by (rule factorial_loop64_step [OF _ d42 m42]) simp
  also have "\<dots> = factorial_loop64 (Fin 40) (dbl 6961239421307983 815)"
    by (rule factorial_loop64_step [OF _ d41 m41]) simp
  also have "\<dots> = factorial_loop64 (Fin 39) (dbl 8701549276634979 820)"
    by (rule factorial_loop64_step [OF _ d40 m40]) simp
  also have "\<dots> = factorial_loop64 (Fin 38) (dbl 5302506590449440 826)"
    by (rule factorial_loop64_step [OF _ d39 m39]) simp
  also have "\<dots> = factorial_loop64 (Fin 37) (dbl 6296726576158710 831)"
    by (rule factorial_loop64_step [OF _ d38 m38]) simp
  also have "\<dots> = factorial_loop64 (Fin 36) (dbl 7280590103683508 836)"
    by (rule factorial_loop64_step [OF _ d37 m37]) simp
  also have "\<dots> = factorial_loop64 (Fin 35) (dbl 8190663866643946 841)"
    by (rule factorial_loop64_step [OF _ d36 m36]) simp
  also have "\<dots> = factorial_loop64 (Fin 34) (dbl 8958538604141816 846)"
    by (rule factorial_loop64_step [OF _ d35 m35]) simp
  also have "\<dots> = factorial_loop64 (Fin 33) (dbl 4759223633450340 852)"
    by (rule factorial_loop64_step [OF _ d34 m34]) simp
  also have "\<dots> = factorial_loop64 (Fin 32) (dbl 4907949371995663 857)"
    by (rule factorial_loop64_step [OF _ d33 m33]) simp
  also have "\<dots> = factorial_loop64 (Fin 31) (dbl 4907949371995663 862)"
    by (rule factorial_loop64_step [OF _ d32 m32]) simp
  also have "\<dots> = factorial_loop64 (Fin 30) (dbl 4754575954120799 867)"
    by (rule factorial_loop64_step [OF _ d31 m31]) simp
  also have "\<dots> = factorial_loop64 (Fin 29) (dbl 8914829913976498 871)"
    by (rule factorial_loop64_step [OF _ d30 m30]) simp
  also have "\<dots> = factorial_loop64 (Fin 28) (dbl 8079064609541201 876)"
    by (rule factorial_loop64_step [OF _ d29 m29]) simp
  also have "\<dots> = factorial_loop64 (Fin 27) (dbl 7069181533348551 881)"
    by (rule factorial_loop64_step [OF _ d28 m28]) simp
  also have "\<dots> = factorial_loop64 (Fin 26) (dbl 5964621918762840 886)"
    by (rule factorial_loop64_step [OF _ d27 m27]) simp
  also have "\<dots> = factorial_loop64 (Fin 25) (dbl 4846255308994808 891)"
    by (rule factorial_loop64_step [OF _ d26 m26]) simp
  also have "\<dots> = factorial_loop64 (Fin 24) (dbl 7572273920304388 895)"
    by (rule factorial_loop64_step [OF _ d25 m25]) simp
  also have "\<dots> = factorial_loop64 (Fin 23) (dbl 5679205440228291 900)"
    by (rule factorial_loop64_step [OF _ d24 m24]) simp
  also have "\<dots> = factorial_loop64 (Fin 22) (dbl 8163857820328168 904)"
    by (rule factorial_loop64_step [OF _ d23 m23]) simp
  also have "\<dots> = factorial_loop64 (Fin 21) (dbl 5612652251475616 909)"
    by (rule factorial_loop64_step [OF _ d22 m22]) simp
  also have "\<dots> = factorial_loop64 (Fin 20) (dbl 7366606080061746 913)"
    by (rule factorial_loop64_step [OF _ d21 m21]) simp
  also have "\<dots> = factorial_loop64 (Fin 19) (dbl 4604128800038591 918)"
    by (rule factorial_loop64_step [OF _ d20 m20]) simp
  also have "\<dots> = factorial_loop64 (Fin 18) (dbl 5467402950045827 922)"
    by (rule factorial_loop64_step [OF _ d19 m19]) simp
  also have "\<dots> = factorial_loop64 (Fin 17) (dbl 6150828318801555 926)"
    by (rule factorial_loop64_step [OF _ d18 m18]) simp
  also have "\<dots> = factorial_loop64 (Fin 16) (dbl 6535255088726652 930)"
    by (rule factorial_loop64_step [OF _ d17 m17]) simp
  also have "\<dots> = factorial_loop64 (Fin 15) (dbl 6535255088726652 934)"
    by (rule factorial_loop64_step [OF _ d16 m16]) simp
  also have "\<dots> = factorial_loop64 (Fin 14) (dbl 6126801645681236 938)"
    by (rule factorial_loop64_step [OF _ d15 m15]) simp
  also have "\<dots> = factorial_loop64 (Fin 13) (dbl 5360951439971082 942)"
    by (rule factorial_loop64_step [OF _ d14 m14]) simp
  also have "\<dots> = factorial_loop64 (Fin 12) (dbl 8711546089953008 945)"
    by (rule factorial_loop64_step [OF _ d13 m13]) simp
  also have "\<dots> = factorial_loop64 (Fin 11) (dbl 6533659567464756 949)"
    by (rule factorial_loop64_step [OF _ d12 m12]) simp
  also have "\<dots> = factorial_loop64 (Fin 10) (dbl 8983781905264040 952)"
    by (rule factorial_loop64_step [OF _ d11 m11]) simp
  also have "\<dots> = factorial_loop64 (Fin 9) (dbl 5614863690790025 956)"
    by (rule factorial_loop64_step [OF _ d10 m10]) simp
  also have "\<dots> = factorial_loop64 (Fin 8) (dbl 6316721652138778 959)"
    by (rule factorial_loop64_step [OF _ d9 m9]) simp
  also have "\<dots> = factorial_loop64 (Fin 7) (dbl 6316721652138778 962)"
    by (rule factorial_loop64_step [OF _ d8 m8]) simp
  also have "\<dots> = factorial_loop64 (Fin 6) (dbl 5527131445621431 965)"
    by (rule factorial_loop64_step [OF _ d7 m7]) simp
  also have "\<dots> = factorial_loop64 (Fin 5) (dbl 8290697168432146 967)"
    by (rule factorial_loop64_step [OF _ d6 m6]) simp
  also have "\<dots> = factorial_loop64 (Fin 4) (dbl 5181685730270091 970)"
    by (rule factorial_loop64_step [OF _ d5 m5]) simp
  also have "\<dots> = factorial_loop64 (Fin 3) (PInf)"
    by (rule factorial_loop64_step [OF _ d4 m4]) simp
  also have "\<dots> = factorial_loop64 (Fin 2) (PInf)"
    by (rule factorial_loop64_step [OF _ d3 m3]) simp
  also have "\<dots> = factorial_loop64 (Fin 1) (PInf)"
    by (rule factorial_loop64_step [OF _ d2 m2]) simp
  also have "\<dots> = factorial_loop64 (Fin 0) (PInf)"
    by (rule factorial_loop64_step [OF _ d1 m1]) simp
  also have "\<dots> = Some PInf"
    by (subst factorial_loop64.simps) simp
  finally show ?thesis .
qed

lemma factorial64_171: "factorial64 (Fin 171) = Some PInf"
  using factorial64_nat [of 171] by (simp add: factorial_loop64_171)



text \<open>
  Claim C7, as amended. In double arithmetic \<open>factorial(n)\<close> is the exact product
  \<open>n * (n-1) * ... * 1\<close> for every integer \<open>0 \<le> n \<le> 22\<close> (so \<open>factorial(0) = 1\<close>); for every
  integer \<open>0 \<le> n < 2^53\<close> it is that product with every multiplication rounded to the
  nearest double, which at \<open>n = 23\<close> is 25852016738884978212864 and not
  \<open>23! = 25852016738884976640000\<close>, and at \<open>n = 171\<close> is \<open>Infinity\<close>; it is not-a-number for
  every negative \<open>n\<close>, integer or not; and it is \<open>gamma(n + 1)\<close> for every non-integer \<open>n\<close>
  that is not negative.
\<close>

theorem factorial64_cases:
  "(k \<le> 22 \<longrightarrow> factorial64 (Fin (real k)) = Some (Fin (fact k)) \<and> fact k = (\<Prod>i = 1..k. real i))
   \<and> (j < 2 ^ 53 \<longrightarrow> factorial64 (Fin (real j)) = Some (rounded_product j (Fin 1)))
   \<and> factorial64 (Fin 23) = Some (Fin 25852016738884978212864)
   \<and> (fact 23 :: real) = 25852016738884976640000
   \<and> factorial64 (Fin 171) = Some PInf
   \<and> (js_lt n (Fin 0) \<longrightarrow> factorial64 n = Some NaN)
   \<and> (\<not> js_lt m (Fin 0) \<and> js_ne m (Math_floor m) \<longrightarrow> factorial64 m = gamma64 (add64 m (Fin 1)))"
  using factorial64_23
  by (simp add: factorial64_exact_le_22 factorial64_rounded factorial64_171 factorial64_negative
      factorial64_delegates fact_prod)

theorem factorial64_cases_witness:
  "(5::nat) \<le> 22 \<and> factorial64 (Fin (real 5)) = Some (Fin 120)
   \<and> (2::nat) < 2 ^ 53 \<and> factorial64 (Fin (real 2)) = Some (rounded_product 2 (Fin 1))
   \<and> js_lt (Fin (- 5/2)) (Fin 0) \<and> factorial64 (Fin (- 5/2)) = Some NaN
   \<and> \<not> js_lt (Fin (1/2)) (Fin 0) \<and> js_ne (Fin (1/2)) (Math_floor (Fin (1/2)))
   \<and> factorial64 (Fin (1/2)) = gamma64 (add64 (Fin (1/2)) (Fin 1))"
  using factorial64_cases [of 5 2 "Fin (- 5/2)" "Fin (1/2)"]
  by (simp add: js_ne_def js_eq_def fact_numeral)

text \<open>
  Claim C7 as stated fails at the non-integer \<open>n = -0.5\<close>: \<open>factorial(-0.5)\<close> is
  not-a-number, while \<open>gamma(-0.5 + 1)\<close> is a positive number.
\<close>

theorem factorial_negative_non_integer_counterexample:
  "js_ne (Fin (- 1/2)) (Math_floor (Fin (- 1/2)))
   \<and> factorial (Fin (- 1/2)) = Some NaN
   \<and> gamma (Fin (- 1/2) + Fin 1) \<noteq> Some NaN
   \<and> factorial (Fin (- 1/2)) \<noteq> gamma (Fin (- 1/2) + Fin 1)"
proof -
  have "\<exists>g. gamma (Fin (1/2)) = Some (Fin g) \<and> 0 < g"
    by (rule gamma_pos_nonint) simp_all
  then show ?thesis
    by (auto simp: js_ne_def js_eq_def factorial.simps)
qed

section \<open>The binomial distribution in binary64\<close>

lemma binary64_nat_le: "n \<le> 2 ^ 53 \<Longrightarrow> is_binary64 (real n)"
proof (cases "n < 2 ^ 53")
  case True
  then show ?thesis by (rule binary64_nat)
next
  case False
  assume "n \<le> 2 ^ 53"
  with False have "n = 2 ^ 53" by simp
  then show ?thesis using binary64_scaled [of 1 53] by simp
qed

lemma counter_up_le: "n < 2 ^ 53 \<Longrightarrow> add64 (Fin (real n)) (Fin 1) = Fin (real (Suc n))"
  using add64_exact [of "real n" 1] binary64_nat_le [of "Suc n"] by (simp add: add.commute)

lemma factorial64_nat_total: "n < 2 ^ 53 \<Longrightarrow> \<exists>f. factorial64 (Fin (real n)) = Some f"
  by (simp add: factorial64_rounded)

lemma combination64_nat_total:
  assumes "k \<le> n" "n < 2 ^ 53"
  shows "\<exists>c. combination64 (Fin (real n)) (Fin (real k)) = Some c"
proof -
  have k: "k < 2 ^ 53" and d: "n - k < 2 ^ 53" using assms by simp_all
  obtain f1 f2 f3 where "factorial64 (Fin (real n)) = Some f1" "factorial64 (Fin (real k)) = Some f2"
    "factorial64 (Fin (real (n - k))) = Some f3"
    using factorial64_nat_total [OF assms(2)] factorial64_nat_total [OF k]
      factorial64_nat_total [OF d] by blast
  then show ?thesis using assms by (simp add: combination64_def nat_diff64)
qed

lemma binomial_pmf64_total:
  assumes "k \<le> n" "n < 2 ^ 53"
  shows "\<exists>b. binomial_pmf64 (Fin (real n)) p (Fin (real k)) = Some b"
  using combination64_nat_total [OF assms] by (auto simp: binomial_pmf64_def)

lemma binomialcdf_fill64_nat:
  assumes "n < 2 ^ 53" "k \<le> n"
    and "\<forall>j<k. arr (Fin (real j)) = binomial_pmf64 (Fin (real n)) p (Fin (real j))"
  shows "\<exists>arr'. binomialcdf_fill64 (Fin (real n)) p (Fin (real k)) arr = Some arr'
           \<and> (\<forall>j<n. arr' (Fin (real j)) = binomial_pmf64 (Fin (real n)) p (Fin (real j)))"
  using assms(2,3)
proof (induction "n - k" arbitrary: k arr)
  case 0
  then have "k = n" by simp
  moreover have "binomialcdf_fill64 (Fin (real n)) p (Fin (real n)) arr = Some arr"
    by (subst binomialcdf_fill64.simps) simp
  ultimately show ?case using "0.prems" by auto
next
  case (Suc d)
  then have lt: "k < n" by simp
  then have k: "k < 2 ^ 53" using assms(1) by simp
  obtain b where b: "binomial_pmf64 (Fin (real n)) p (Fin (real k)) = Some b"
    using binomial_pmf64_total [of k n p] lt assms(1) by auto
  have d: "d = n - Suc k" using Suc.hyps(2) by simp
  have le: "Suc k \<le> n" using lt by simp
  have inv: "\<forall>j<Suc k. (arr(Fin (real k) \<mapsto> b)) (Fin (real j))
               = binomial_pmf64 (Fin (real n)) p (Fin (real j))"
    using Suc.prems(2) b by (auto simp: less_Suc_eq)
  obtain arr' where
    "binomialcdf_fill64 (Fin (real n)) p (Fin (real (Suc k))) (arr(Fin (real k) \<mapsto> b)) = Some arr'"
    "\<forall>j<n. arr' (Fin (real j)) = binomial_pmf64 (Fin (real n)) p (Fin (real j))"
    using Suc.hyps(1) [OF d le inv] by blast
  then show ?case
    using lt b by (subst binomialcdf_fill64.simps) (simp add: counter_up_le [OF k] del: of_nat_Suc)
qed

text \<open>The summing loop run to \<open>x + 1\<close> is the loop run to \<open>x\<close>, and one more addition.\<close>

lemma binomialcdf_sum64_Suc:
  assumes "Suc x < 2 ^ 53" "i \<le> Suc x"
  shows "binomialcdf_sum64 arr (Fin (real (Suc x))) (Fin (real i)) sm
         = map_option (\<lambda>s. add64 s (ToNumber (array_get arr (Fin (real (Suc x))))))
             (binomialcdf_sum64 arr (Fin (real x)) (Fin (real i)) sm)"
  using assms(2)
proof (induction "Suc x - i" arbitrary: i sm)
  case 0
  then have i: "i = Suc x" by simp
  have "binomialcdf_sum64 arr (Fin (real (Suc x))) (Fin (real (Suc x))) sm
        = binomialcdf_sum64 arr (Fin (real (Suc x))) (Fin (real (Suc (Suc x))))
            (add64 sm (ToNumber (array_get arr (Fin (real (Suc x))))))"
    by (subst binomialcdf_sum64.simps) (simp add: counter_up_le [OF assms(1)] del: of_nat_Suc)
  also have "\<dots> = Some (add64 sm (ToNumber (array_get arr (Fin (real (Suc x))))))"
    by (subst binomialcdf_sum64.simps) simp
  finally have l: "binomialcdf_sum64 arr (Fin (real (Suc x))) (Fin (real (Suc x))) sm
        = Some (add64 sm (ToNumber (array_get arr (Fin (real (Suc x))))))" .
  have "binomialcdf_sum64 arr (Fin (real x)) (Fin (real (Suc x))) sm = Some sm"
    by (subst binomialcdf_sum64.simps) simp
  then show ?case unfolding i l by simp
next
  case (Suc d)
  then have le: "i \<le> x" by simp
  then have i: "i < 2 ^ 53" using assms(1) by simp
  have d: "d = Suc x - Suc i" using Suc.hyps(2) by simp
  have le': "Suc i \<le> Suc x" using le by simp
  have "binomialcdf_sum64 arr (Fin (real (Suc x))) (Fin (real i)) sm
        = binomialcdf_sum64 arr (Fin (real (Suc x))) (Fin (real (Suc i)))
            (add64 sm (ToNumber (array_get arr (Fin (real i)))))"
    using le by (subst binomialcdf_sum64.simps) (simp add: counter_up_le [OF i] del: of_nat_Suc)
  also have "\<dots> = map_option (\<lambda>s. add64 s (ToNumber (array_get arr (Fin (real (Suc x))))))
             (binomialcdf_sum64 arr (Fin (real x)) (Fin (real (Suc i)))
                (add64 sm (ToNumber (array_get arr (Fin (real i))))))"
    by (rule Suc.hyps(1) [OF d le'])
  also have "binomialcdf_sum64 arr (Fin (real x)) (Fin (real (Suc i)))
                (add64 sm (ToNumber (array_get arr (Fin (real i)))))
             = binomialcdf_sum64 arr (Fin (real x)) (Fin (real i)) sm"
    using le by (subst (2) binomialcdf_sum64.simps) (simp add: counter_up_le [OF i] del: of_nat_Suc)
  finally show ?case .
qed

lemma binomialcdf_sum64_pmf_sum:
  assumes "Suc x < 2 ^ 53"
    and "\<forall>j\<le>x. \<exists>v. arr (Fin (real j)) = Some v \<and> f j = Some v"
  shows "binomialcdf_sum64 arr (Fin (real x)) (Fin 0) (Fin 0) = pmf_sum64 f x"
  using assms
proof (induction x)
  case 0
  obtain v where v: "arr (Fin 0) = Some v" "f 0 = Some v" using "0.prems"(2) by auto
  have "binomialcdf_sum64 arr (Fin 0) (Fin 0) (Fin 0)
        = binomialcdf_sum64 arr (Fin 0) (Fin 1) (add64 (Fin 0) (ToNumber (array_get arr (Fin 0))))"
    using counter_up_le [of 0] by (subst binomialcdf_sum64.simps) simp
  also have "\<dots> = Some (add64 (Fin 0) (ToNumber (array_get arr (Fin 0))))"
    by (subst binomialcdf_sum64.simps) simp
  finally show ?case using v by (simp add: array_get_def)
next
  case (Suc x)
  obtain v where v: "arr (Fin (real (Suc x))) = Some v" "f (Suc x) = Some v"
    using Suc.prems(2) by blast
  have x: "Suc x < 2 ^ 53" using Suc.prems(1) by simp
  have IH: "binomialcdf_sum64 arr (Fin (real x)) (Fin 0) (Fin 0) = pmf_sum64 f x"
    using Suc.IH [OF x] Suc.prems(2) by simp
  have "binomialcdf_sum64 arr (Fin (real (Suc x))) (Fin (real 0)) (Fin 0)
        = map_option (\<lambda>s. add64 s (ToNumber (array_get arr (Fin (real (Suc x))))))
            (binomialcdf_sum64 arr (Fin (real x)) (Fin (real 0)) (Fin 0))"
    using Suc.prems(1) by (intro binomialcdf_sum64_Suc) simp_all
  then show ?case using v IH
    by (cases "pmf_sum64 f x") (simp_all add: array_get_def del: of_nat_Suc)
qed

lemma binomialcdf64_below:
  assumes "x < n" "n < 2 ^ 53"
  shows "binomialcdf64 (Fin (real n)) p (Fin (real x))
         = pmf_sum64 (\<lambda>k. binomial_pmf64 (Fin (real n)) p (Fin (real k))) x"
proof -
  obtain arr where arr: "binomialcdf_fill64 (Fin (real n)) p (Fin (real 0)) Map.empty = Some arr"
    "\<forall>j<n. arr (Fin (real j)) = binomial_pmf64 (Fin (real n)) p (Fin (real j))"
    using binomialcdf_fill64_nat [of n 0 Map.empty p] assms(2) by auto
  have "\<forall>j\<le>x. \<exists>v. arr (Fin (real j)) = Some v
           \<and> binomial_pmf64 (Fin (real n)) p (Fin (real j)) = Some v"
  proof (intro allI impI)
    fix j assume "j \<le> x"
    then have j: "j < n" using assms(1) by simp
    then obtain v where "binomial_pmf64 (Fin (real n)) p (Fin (real j)) = Some v"
      using binomial_pmf64_total [of j n p] assms(2) by auto
    then show "\<exists>v. arr (Fin (real j)) = Some v
           \<and> binomial_pmf64 (Fin (real n)) p (Fin (real j)) = Some v"
      using arr(2) j by simp
  qed
  moreover have "Suc x < 2 ^ 53" using assms by simp
  ultimately have "binomialcdf_sum64 arr (Fin (real x)) (Fin 0) (Fin 0)
      = pmf_sum64 (\<lambda>k. binomial_pmf64 (Fin (real n)) p (Fin (real k))) x"
    by (intro binomialcdf_sum64_pmf_sum)
  then show ?thesis using arr(1) assms by (simp add: binomialcdf64_def)
qed

lemma binomialcdf64_above:
  assumes "n < 2 ^ 53" "js_le (Fin (real n)) x"
  shows "binomialcdf64 (Fin (real n)) p x = Some (Fin 1)"
proof -
  obtain arr where arr: "binomialcdf_fill64 (Fin (real n)) p (Fin (real 0)) Map.empty = Some arr"
    using binomialcdf_fill64_nat [of n 0 Map.empty p] assms(1) by auto
  have "\<not> js_lt x (Fin 0)" "\<not> js_lt x (Fin (real n))"
    using assms(2) by (cases x; simp)+
  then show ?thesis using arr by (simp add: binomialcdf64_def)
qed

lemma pmf_sum64_NaN:
  assumes "f 0 = Some (Number NaN)" "\<forall>k\<le>x. \<exists>v. f k = Some v"
  shows "pmf_sum64 f x = Some NaN"
  using assms(2)
proof (induction x)
  case 0
  show ?case using assms(1) by (simp add: add64_def)
next
  case (Suc x)
  then have "pmf_sum64 f x = Some NaN" by simp
  moreover obtain v where "f (Suc x) = Some v" using Suc.prems by blast
  ultimately show ?case by (simp add: add64_def)
qed

lemma binomial_pmf64_171: "binomial_pmf64 (Fin 171) p (Fin 0) = Some (Number NaN)"
proof -
  have "factorial64 (Fin 0) = Some (Fin 1)" using factorial64_exact_le_22 [of 0] by simp
  moreover have "sub64 (Fin 171) (Fin 0) = Fin 171"
    using sub64_exact [of 171 0] by (simp add: binary64_numeral_small)
  ultimately have "combination64 (Fin 171) (Fin 0) = Some NaN"
    by (simp add: combination64_def factorial64_171 div64_def)
  then show ?thesis by (simp add: binomial_pmf64_def mul64_def)
qed

lemma pmf_sum64_total:
  "\<forall>k\<le>x. \<exists>v. f k = Some v \<Longrightarrow> \<exists>s. pmf_sum64 f x = Some s"
proof (induction x)
  case 0
  then show ?case by auto
next
  case (Suc x)
  then obtain s where "pmf_sum64 f x = Some s" by auto
  moreover obtain v where "f (Suc x) = Some v" using Suc.prems by blast
  ultimately show ?case by simp
qed

lemma binomial_pmf_sum64_total:
  assumes "x \<le> n" "n < 2 ^ 53"
  shows "\<exists>s. pmf_sum64 (\<lambda>k. binomial_pmf64 (Fin (real n)) p (Fin (real k))) x = Some s"
proof (rule pmf_sum64_total, intro allI impI)
  fix k assume "k \<le> x"
  then have "k \<le> n" using assms(1) by simp
  then show "\<exists>v. binomial_pmf64 (Fin (real n)) p (Fin (real k)) = Some v"
    using assms(2) by (rule binomial_pmf64_total)
qed

text \<open>
  Claim C1, as amended. For integers \<open>0 \<le> x < n < 2^53\<close> and every \<open>p\<close>, \<open>binomialcdf(n,p,x)\<close>
  returns the sum of the values \<open>binomial(n,p,k)\<close> for \<open>k\<close> from 0 through \<open>x\<close>, added in this
  order in double arithmetic, starting from 0. For an integer \<open>0 \<le> n < 2^53\<close> and every
  \<open>x \<ge> n\<close> it returns the constant 1, whatever the values of the pmf are.
\<close>

theorem binomialcdf64_is_pmf_sum:
  "(x < n \<and> n < 2 ^ 53 \<longrightarrow>
      (\<exists>s. binomialcdf64 (Fin (real n)) p (Fin (real x)) = Some s
         \<and> pmf_sum64 (\<lambda>k. binomial_pmf64 (Fin (real n)) p (Fin (real k))) x = Some s))
   \<and> (n < 2 ^ 53 \<and> js_le (Fin (real n)) y \<longrightarrow> binomialcdf64 (Fin (real n)) p y = Some (Fin 1))"
proof (intro conjI impI)
  assume a: "x < n \<and> n < 2 ^ 53"
  then have "x \<le> n" by simp
  then obtain s where "pmf_sum64 (\<lambda>k. binomial_pmf64 (Fin (real n)) p (Fin (real k))) x = Some s"
    using binomial_pmf_sum64_total [of x n p] a by auto
  then show "\<exists>s. binomialcdf64 (Fin (real n)) p (Fin (real x)) = Some s
         \<and> pmf_sum64 (\<lambda>k. binomial_pmf64 (Fin (real n)) p (Fin (real k))) x = Some s"
    using binomialcdf64_below [of x n p] a by simp
next
  assume "n < 2 ^ 53 \<and> js_le (Fin (real n)) y"
  then show "binomialcdf64 (Fin (real n)) p y = Some (Fin 1)"
    by (simp add: binomialcdf64_above)
qed

theorem binomialcdf64_is_pmf_sum_witness:
  "(1::nat) < 3 \<and> (3::nat) < 2 ^ 53
   \<and> (\<exists>s. binomialcdf64 (Fin (real 3)) (Fin (1/2)) (Fin (real 1)) = Some s
         \<and> pmf_sum64 (\<lambda>k. binomial_pmf64 (Fin (real 3)) (Fin (1/2)) (Fin (real k))) 1 = Some s)
   \<and> js_le (Fin (real 3)) (Fin 3)
   \<and> binomialcdf64 (Fin (real 3)) (Fin (1/2)) (Fin 3) = Some (Fin 1)"
  using binomialcdf64_is_pmf_sum [of 1 3 "Fin (1/2)" "Fin 3"] by simp

text \<open>
  Claim C1 as stated fails at \<open>x = n = 171\<close> with \<open>p = 0.5\<close>: \<open>factorial(171)\<close> overflows to
  \<open>Infinity\<close>, so \<open>combination(171, 0)\<close> is \<open>Infinity / Infinity\<close>, \<open>binomial(171, 0.5, 0)\<close> is
  not-a-number and so is the sum of the pmf values, while \<open>binomialcdf(171, 0.5, 171)\<close>
  is 1.
\<close>

theorem binomialcdf64_at_n_counterexample:
  "binomialcdf64 (Fin 171) (Fin (1/2)) (Fin 171) = Some (Fin 1)
   \<and> binomial_pmf64 (Fin 171) (Fin (1/2)) (Fin 0) = Some (Number NaN)
   \<and> pmf_sum64 (\<lambda>k. binomial_pmf64 (Fin 171) (Fin (1/2)) (Fin (real k))) 171 = Some NaN
   \<and> binomialcdf64 (Fin 171) (Fin (1/2)) (Fin 171)
       \<noteq> pmf_sum64 (\<lambda>k. binomial_pmf64 (Fin 171) (Fin (1/2)) (Fin (real k))) 171"
proof -
  have c: "binomialcdf64 (Fin 171) (Fin (1/2)) (Fin 171) = Some (Fin 1)"
    using binomialcdf64_above [of 171 "Fin 171" "Fin (1/2)"] by simp
  have "\<forall>k\<le>171. \<exists>v. binomial_pmf64 (Fin 171) (Fin (1/2)) (Fin (real k)) = Some v"
    using binomial_pmf64_total [of _ 171 "Fin (1/2)"] by simp
  then have s: "pmf_sum64 (\<lambda>k. binomial_pmf64 (Fin 171) (Fin (1/2)) (Fin (real k))) 171 = Some NaN"
    by (intro pmf_sum64_NaN) (simp_all add: binomial_pmf64_171)
  show ?thesis unfolding c s by (simp add: binomial_pmf64_171)
qed

section \<open>Values in the unit interval\<close>

lemma binary64_two_1023: "is_binary64 (2 ^ 1023)"
  using binary64_scaled [of "2 ^ 52" 971] by simp

lemma fl_bounded:
  assumes "0 \<le> r" "r \<le> 2 ^ 1023"
  shows "fl r = Fin (rn r)"
proof -
  have "rn r \<le> 2 ^ 1023" using assms binary64_two_1023 by (rule rn_le_exact)
  moreover have "0 \<le> rn r" using assms(1) by (rule rn_nonneg)
  moreover have "(2::real) ^ 1023 < 2 ^ 1024" by simp
  ultimately have "\<not> 2 ^ 1024 \<le> \<bar>rn r\<bar>" by linarith
  then show ?thesis by (simp add: fl_def Let_def)
qed

lemma fl_unit:
  assumes "0 \<le> r" "r \<le> 1"
  shows "\<exists>v. fl r = Fin v \<and> 0 \<le> v \<and> v \<le> 1"
proof -
  have "rn r \<le> 1" using assms binary64_one by (rule rn_le_exact)
  moreover have "0 \<le> rn r" using assms(1) by (rule rn_nonneg)
  moreover have "r \<le> 2 ^ 1023" using assms(2) by (rule order_trans) simp
  ultimately show ?thesis using fl_bounded [OF assms(1)] by simp
qed

text \<open>Every double is a multiple of the smallest positive double, so that the difference of
  two distinct doubles does not round to zero.\<close>

lemma binary64_grid:
  assumes "is_binary64 a"
  shows "\<exists>K::int. a = of_int K * 2 powi (- 1074)"
proof -
  obtain m e where a: "a = of_int m * 2 powi e" and e: "- 1074 \<le> e"
    using assms unfolding is_binary64_def by blast
  have "(2::real) powi e = 2 powi (int (nat (e + 1074)) + (- 1074))" using e by simp
  also have "\<dots> = 2 powi (int (nat (e + 1074))) * 2 powi (- 1074)"
    by (rule power_int_add) simp
  also have "\<dots> = 2 ^ nat (e + 1074) * 2 powi (- 1074)" by (simp only: power_int_of_nat)
  finally have "a = of_int (m * 2 ^ nat (e + 1074)) * 2 powi (- 1074)"
    unfolding a by simp
  then show ?thesis ..
qed

lemma binary64_diff_pos:
  assumes "is_binary64 a" "is_binary64 b" "a < b"
  shows "2 powi (- 1074) \<le> b - a"
proof -
  obtain K L :: int where a: "a = of_int K * 2 powi (- 1074)" and b: "b = of_int L * 2 powi (- 1074)"
    using assms(1,2) binary64_grid by blast
  have "of_int K * 2 powi (- 1074) < of_int L * (2::real) powi (- 1074)"
    using assms(3) unfolding a b .
  then have "(of_int K :: real) < of_int L" by (simp only: mult_less_cancel_right_pos zero_less_power_int zero_less_numeral)
  then have "K + 1 \<le> L" by simp
  then have "(of_int (K + 1) :: real) \<le> of_int L" by (simp only: of_int_le_iff)
  then have "of_int (K + 1) * 2 powi (- 1074) \<le> of_int L * (2::real) powi (- 1074)"
    by (intro mult_right_mono) simp_all
  then show ?thesis unfolding a b by (simp add: algebra_simps)
qed

lemma rn_pos:
  assumes "2 powi (- 1074) \<le> r"
  shows "0 < rn r"
proof -
  have g: "is_binary64 (2 powi (- 1074))" using binary64_scaled [of 1 "- 1074"] by simp
  have "(0::real) \<le> 2 powi (- 1074)" by simp
  then have "2 powi (- 1074) \<le> rn r" using assms g by (rule rn_ge_exact)
  moreover have "(0::real) < 2 powi (- 1074)" by simp
  ultimately show ?thesis by linarith
qed

lemma uniformcdf64_prob:
  assumes "is_binary64 a" "is_binary64 b"
    and "\<bar>a\<bar> \<le> 2 ^ 1022" "\<bar>b\<bar> \<le> 2 ^ 1022" "\<bar>x\<bar> \<le> 2 ^ 1022"
  shows "is_probability (uniformcdf64 (Fin a) (Fin b) (Fin x))"
proof (cases "a \<le> x \<and> x < b")
  case False
  then show ?thesis by (auto simp: uniformcdf64_def is_probability_def)
next
  case True
  have two: "(2::real) ^ 1022 + 2 ^ 1022 = 2 ^ 1023" by simp
  have u: "0 \<le> x - a" "x - a \<le> 2 ^ 1023" using True assms(3,5) two by linarith+
  have w: "0 \<le> b - a" "b - a \<le> 2 ^ 1023" using True assms(3,4) two by linarith+
  have "a < b" using True by simp
  then have "2 powi (- 1074) \<le> b - a" using assms(1,2) by (intro binary64_diff_pos)
  then have wpos: "0 < rn (b - a)" by (rule rn_pos)
  have upos: "0 \<le> rn (x - a)" using u(1) by (rule rn_nonneg)
  have "x - a \<le> b - a" using True by simp
  then have le: "rn (x - a) \<le> rn (b - a)" using u(1) by (intro rn_mono)
  have q: "0 \<le> rn (x - a) / rn (b - a)" "rn (x - a) / rn (b - a) \<le> 1"
    using upos wpos le by simp_all
  obtain v where v: "fl (rn (x - a) / rn (b - a)) = Fin v" "0 \<le> v" "v \<le> 1"
    using fl_unit [OF q] by blast
  have "sub64 (Fin x) (Fin a) = Fin (rn (x - a))" "sub64 (Fin b) (Fin a) = Fin (rn (b - a))"
    using fl_bounded [OF u] fl_bounded [OF w] by (simp_all add: sub64_def)
  then have "div64 (sub64 (Fin x) (Fin a)) (sub64 (Fin b) (Fin a)) = Fin v"
    using wpos v(1) by (simp add: div64_def)
  then show ?thesis using True v(2,3) by (simp add: uniformcdf64_def is_probability_def)
qed

lemma exponentialcdf64_prob:
  assumes "js_le (Fin 0) t"
  shows "is_probability (exponentialcdf64 l t)"
proof (cases t)
  case (Fin r)
  then have r: "0 \<le> r" using assms by simp
  have "0 \<le> exp (- r)" "exp (- r) \<le> 1" using r by simp_all
  then obtain e where e: "fl (exp (- r)) = Fin e" "0 \<le> e" "e \<le> 1"
    using fl_unit by blast
  have "0 \<le> 1 - e" "1 - e \<le> 1" using e(2,3) by simp_all
  then obtain v where v: "fl (1 - e) = Fin v" "0 \<le> v" "v \<le> 1"
    using fl_unit by blast
  show ?thesis using Fin e(1) v
    by (simp add: exponentialcdf64_def Math_exp64_def sub64_def is_probability_def)
next
  case PInf
  have "fl 0 = Fin 0" "fl 1 = Fin 1" using fl_exact binary64_zero binary64_one by blast+
  then show ?thesis using PInf
    by (simp add: exponentialcdf64_def Math_exp64_def sub64_def is_probability_def)
qed (use assms in simp_all)

lemma neg_nat_integer: "js_eq (Fin (- real (Suc i))) (Math_floor (Fin (- real (Suc i))))"
proof -
  have "- real (Suc i) = of_int (- int (Suc i))" by simp
  then have "of_int \<lfloor>- real (Suc i)\<rfloor> = - real (Suc i)" by (simp only: floor_of_int)
  then show ?thesis by (simp add: js_eq_def del: of_nat_Suc)
qed

lemma pmf64_negative_integer:
  "pmf_in_unit (negbin64 r p (Fin (- real (Suc i))))"
  "pmf_in_unit (hypgeom64 N m n (Fin (- real (Suc i))))"
  using neg_nat_integer [of i]
  by (simp_all add: negbin64_def hypgeom64_def js_ne_def pmf_in_unit_def is_probability_def
      del: of_nat_Suc)

lemma cdf64_below:
  assumes "js_lt y (Fin 0)"
  shows "cdf_in_unit (binomialcdf64 n p y)" "cdf_in_unit (negbincdf64 r p y)"
    "cdf_in_unit (hypgeomcdf64 N m h y)" "cdf_in_unit (poissoncdf64 l y)"
  using assms
  by (simp_all add: binomialcdf64_def negbincdf64_def hypgeomcdf64_def poissoncdf64_def
      cdf_in_unit_def is_probability_def)

text \<open>
  Claim C2, as amended. In double arithmetic the returned value is a probability, a
  finite Number in \<open>[0,1]\<close>, in these cases: \<open>uniformcdf(a,b,x)\<close> for doubles \<open>a\<close>, \<open>b\<close> and
  a query point \<open>x\<close> of magnitude at most \<open>2^1022\<close>; \<open>exponentialcdf(l,x)\<close> for \<open>x \<ge> 0\<close>,
  \<open>Infinity\<close> included; \<open>binomialcdf\<close>, \<open>negbincdf\<close>, \<open>hypgeomcdf\<close> and \<open>poissoncdf\<close> at every
  \<open>x < 0\<close>, where they return 0; \<open>binomialcdf(n,p,x)\<close> for an integer \<open>0 \<le> n < 2^53\<close> at
  every \<open>x \<ge> n\<close>, where it returns 1; and \<open>negbin\<close> and \<open>hypgeom\<close> at every negative integer
  \<open>x\<close>, where they return 0.
\<close>

theorem probabilities64_in_unit_interval:
  assumes "is_binary64 a" "is_binary64 b"
    and "\<bar>a\<bar> \<le> 2 ^ 1022" "\<bar>b\<bar> \<le> 2 ^ 1022" "\<bar>x\<bar> \<le> 2 ^ 1022"
    and "js_le (Fin 0) t" "js_lt y (Fin 0)" "n < 2 ^ 53" "js_le (Fin (real n)) z"
  shows "is_probability (uniformcdf64 (Fin a) (Fin b) (Fin x))
     \<and> is_probability (exponentialcdf64 l t)
     \<and> cdf_in_unit (binomialcdf64 n' p y)
     \<and> cdf_in_unit (negbincdf64 r p y)
     \<and> cdf_in_unit (hypgeomcdf64 N m h y)
     \<and> cdf_in_unit (poissoncdf64 l y)
     \<and> cdf_in_unit (binomialcdf64 (Fin (real n)) p z)
     \<and> pmf_in_unit (negbin64 r p (Fin (- real (Suc i))))
     \<and> pmf_in_unit (hypgeom64 N m h (Fin (- real (Suc i))))"
proof (intro conjI)
  show "is_probability (uniformcdf64 (Fin a) (Fin b) (Fin x))"
    using assms(1-5) by (rule uniformcdf64_prob)
  show "is_probability (exponentialcdf64 l t)"
    using assms(6) by (rule exponentialcdf64_prob)
  show "cdf_in_unit (binomialcdf64 n' p y)" "cdf_in_unit (negbincdf64 r p y)"
    "cdf_in_unit (hypgeomcdf64 N m h y)" "cdf_in_unit (poissoncdf64 l y)"
    using assms(7) by (rule cdf64_below)+
  show "cdf_in_unit (binomialcdf64 (Fin (real n)) p z)"
    using binomialcdf64_above [OF assms(8,9)] by (simp add: cdf_in_unit_def is_probability_def)
  show "pmf_in_unit (negbin64 r p (Fin (- real (Suc i))))"
    "pmf_in_unit (hypgeom64 N m h (Fin (- real (Suc i))))"
    by (rule pmf64_negative_integer)+
qed

theorem probabilities64_in_unit_interval_witness:
  "is_binary64 0 \<and> is_binary64 2
   \<and> \<bar>0::real\<bar> \<le> 2 ^ 1022 \<and> \<bar>2::real\<bar> \<le> 2 ^ 1022 \<and> \<bar>1/2::real\<bar> \<le> 2 ^ 1022
   \<and> js_le (Fin 0) (Fin 2) \<and> js_lt (Fin (- 1)) (Fin 0) \<and> (5::nat) < 2 ^ 53
   \<and> js_le (Fin (real 5)) (Fin 7)
   \<and> is_probability (uniformcdf64 (Fin 0) (Fin 2) (Fin (1/2)))
   \<and> is_probability (exponentialcdf64 (Fin (1/2)) (Fin 2))
   \<and> cdf_in_unit (binomialcdf64 (Fin 5) (Fin (1/2)) (Fin (- 1)))
   \<and> cdf_in_unit (negbincdf64 (Fin 2) (Fin (1/2)) (Fin (- 1)))
   \<and> cdf_in_unit (hypgeomcdf64 (Fin 50) (Fin 25) (Fin 10) (Fin (- 1)))
   \<and> cdf_in_unit (poissoncdf64 (Fin (1/2)) (Fin (- 1)))
   \<and> cdf_in_unit (binomialcdf64 (Fin (real 5)) (Fin (1/2)) (Fin 7))
   \<and> pmf_in_unit (negbin64 (Fin 2) (Fin (1/2)) (Fin (- real (Suc 3))))
   \<and> pmf_in_unit (hypgeom64 (Fin 50) (Fin 25) (Fin 10) (Fin (- real (Suc 3))))"
proof -
  have t: "is_binary64 2" by (rule binary64_numeral_small) simp
  have "is_probability (uniformcdf64 (Fin 0) (Fin 2) (Fin (1/2)))
     \<and> is_probability (exponentialcdf64 (Fin (1/2)) (Fin 2))
     \<and> cdf_in_unit (binomialcdf64 (Fin 5) (Fin (1/2)) (Fin (- 1)))
     \<and> cdf_in_unit (negbincdf64 (Fin 2) (Fin (1/2)) (Fin (- 1)))
     \<and> cdf_in_unit (hypgeomcdf64 (Fin 50) (Fin 25) (Fin 10) (Fin (- 1)))
     \<and> cdf_in_unit (poissoncdf64 (Fin (1/2)) (Fin (- 1)))
     \<and> cdf_in_unit (binomialcdf64 (Fin (real 5)) (Fin (1/2)) (Fin 7))
     \<and> pmf_in_unit (negbin64 (Fin 2) (Fin (1/2)) (Fin (- real (Suc 3))))
     \<and> pmf_in_unit (hypgeom64 (Fin 50) (Fin 25) (Fin 10) (Fin (- real (Suc 3))))"
    by (rule probabilities64_in_unit_interval) (simp_all add: binary64_zero t)
  then show ?thesis by (simp add: binary64_zero t)
qed

text \<open>
  Claim C2 as stated fails: \<open>exponentialcdf(0.5, -1)\<close> is \<open>1 - e\<close>, a negative number, and
  the pmfs return not-a-number outside their support, as \<open>poisson(2, -1)\<close> and
  \<open>hypgeom(50, 25, 10, 11)\<close> do.
\<close>

theorem probabilities_counterexample:
  "exponentialcdf (Fin (1/2)) (Fin (- 1)) = Fin (1 - exp 1)
   \<and> 1 - exp 1 < (0::real)
   \<and> \<not> is_probability (exponentialcdf (Fin (1/2)) (Fin (- 1)))
   \<and> poisson (Fin 2) (Fin (- 1)) = Some (Number NaN)
   \<and> \<not> pmf_in_unit (poisson (Fin 2) (Fin (- 1)))
   \<and> hypgeom (Fin 50) (Fin 25) (Fin 10) (Fin 11) = Some (Number NaN)
   \<and> \<not> pmf_in_unit (hypgeom (Fin 50) (Fin 25) (Fin 10) (Fin 11))"
proof -
  have "factorial (Fin (- 1)) = Some NaN" by (simp add: factorial_negative)
  moreover obtain f1 f2 where "factorial (Fin 25) = Some f1" "factorial (Fin 26) = Some f2"
    using factorial_Fin_total by meson
  ultimately have "combination (Fin 25) (Fin (- 1)) = Some NaN"
    by (simp add: combination_def)
  moreover obtain c1 c3 where "combination (Fin 25) (Fin 11) = Some c1"
      "combination (Fin 50) (Fin 10) = Some c3"
    using combination_Fin_total by meson
  ultimately have "hypgeom (Fin 50) (Fin 25) (Fin 10) (Fin 11) = Some (Number NaN)"
    by (simp add: hypgeom_def js_ne_def js_eq_def)
  then show ?thesis
    by (simp add: exponentialcdf_def is_probability_def pmf_in_unit_def poisson_def
        factorial_negative Math_pow_def)
qed

end
